theory Spec2Isabelle
  imports Complex_Main "HOL-Library.AList"
begin

section \<open>Values held in a document\<close>

text \<open>
  The block tree lives in a Yjs document: a top-level shared map \<open>blocks\<close> from block
  id to a shared map of properties, and a top-level shared map \<open>meta\<close>. The source
  types every block as \<^verbatim>\<open>Y.Map<any>\<close> and decides what a value is at run time
  (\<^verbatim>\<open>instanceof Y.Map\<close>, \<^verbatim>\<open>instanceof Y.Array\<close>, \<^verbatim>\<open>typeof x === "string"\<close>,
  \<^verbatim>\<open>Array.isArray\<close>), so a value is a tagged union of the alternatives those tests
  tell apart. A shared map keeps its keys in insertion order, and setting an existing
  key keeps its place: it is an association list written with \<open>AList.update\<close>.
  Numbers stored in a document are the integers the block factory writes.
\<close>

datatype jv =
    JUndefined
  | JNull
  | JBool bool
  | JNum int
  | JStr string
  | JArr "jv list"
  | JObj "(string \<times> jv) list"
  | YText string
  | YArray "jv list"
  | YMap "(string \<times> jv) list"

type_synonym ymap = "(string \<times> jv) list"

text \<open>\<^verbatim>\<open>map.get(key)\<close>: the value, or \<^verbatim>\<open>undefined\<close> for a key that is not there.\<close>

definition ymap_get :: "ymap \<Rightarrow> string \<Rightarrow> jv" where
  "ymap_get m k = (case map_of m k of None \<Rightarrow> JUndefined | Some v \<Rightarrow> v)"

text \<open>\<^verbatim>\<open>map.set(key, value)\<close>.\<close>

definition ymap_set :: "string \<Rightarrow> jv \<Rightarrow> ymap \<Rightarrow> ymap" where
  "ymap_set k v m = AList.update k v m"

subsection \<open>Decimal numerals and the string coercion\<close>

function show_nat :: "nat \<Rightarrow> string" where
  "show_nat n =
     (if n < 10 then [char_of (48 + n)]
      else show_nat (n div 10) @ [char_of (48 + n mod 10)])"
  by pat_completeness auto
termination
  by (relation "measure id") auto

declare show_nat.simps [simp del]

definition show_int :: "int \<Rightarrow> string" where
  "show_int i = (if i < 0 then CHR ''-'' # show_nat (nat (- i)) else show_nat (nat i))"

text \<open>
  \<^verbatim>\<open>String(value)\<close>, used on \<^verbatim>\<open>sys:id\<close>. A shared text prints its content; other
  shared types and plain objects print as \<^verbatim>\<open>[object Object]\<close>; a plain array joins its
  elements with commas, \<^verbatim>\<open>null\<close> and \<^verbatim>\<open>undefined\<close> elements printing as nothing.
\<close>

fun js_String :: "jv \<Rightarrow> string" and js_join :: "jv list \<Rightarrow> string" where
  "js_String JUndefined = ''undefined''"
| "js_String JNull = ''null''"
| "js_String (JBool b) = (if b then ''true'' else ''false'')"
| "js_String (JNum n) = show_int n"
| "js_String (JStr s) = s"
| "js_String (JArr xs) = js_join xs"
| "js_String (JObj m) = ''[object Object]''"
| "js_String (YText s) = s"
| "js_String (YArray xs) = ''[object Object]''"
| "js_String (YMap m) = ''[object Object]''"
| "js_join [] = []"
| "js_join (x # xs) =
     (if x = JUndefined \<or> x = JNull then [] else js_String x)
       @ (if xs = [] then [] else '','' @ js_join xs)"

subsection \<open>String helpers\<close>

text \<open>
  Characters are read as code points 0 to 255. \<^verbatim>\<open>trim()\<close> strips white space at
  both ends; \<^verbatim>\<open>toLowerCase()\<close> maps capital letters to small ones.
\<close>

definition is_space :: "char \<Rightarrow> bool" where
  "is_space c = ((of_char c :: nat) \<in> {9, 10, 11, 12, 13, 32, 160})"

definition js_trim :: "string \<Rightarrow> string" where
  "js_trim s = rev (dropWhile is_space (rev (dropWhile is_space s)))"

definition lower_char :: "char \<Rightarrow> char" where
  "lower_char c =
     (let n = (of_char c :: nat)
      in if (65 \<le> n \<and> n \<le> 90) \<or> (192 \<le> n \<and> n \<le> 222 \<and> n \<noteq> 215)
         then char_of (n + 32) else c)"

definition js_lower :: "string \<Rightarrow> string" where
  "js_lower s = map lower_char s"

text \<open>\<^verbatim>\<open>x ?? d\<close> on an optional string, and the truthiness of an optional string.\<close>

definition orElse :: "'a option \<Rightarrow> 'a \<Rightarrow> 'a" where
  "orElse x d = (case x of None \<Rightarrow> d | Some v \<Rightarrow> v)"

definition truthy_str :: "string option \<Rightarrow> bool" where
  "truthy_str x = (case x of None \<Rightarrow> False | Some s \<Rightarrow> s \<noteq> [])"

section \<open>Block kinds\<close>

datatype block_type =
    Paragraph | Heading | Quote | List | Code | Divider | Callout | Latex | Table
  | Bookmark | Image | Attachment
  | EmbedYoutube | EmbedGithub | EmbedFigma | EmbedLoom | EmbedHtml
  | EmbedLinkedDoc | EmbedSyncedDoc | EmbedIframe
  | Database | DataView | SurfaceRef | Frame | EdgelessText | Note

datatype legacy_type = Heading1 | Heading2 | Heading3 | BulletedList | NumberedList | Todo

text \<open>\<^verbatim>\<open>APPEND_BLOCK_CANONICAL_TYPE_VALUES\<close>, each name with the kind it denotes.\<close>

definition APPEND_BLOCK_CANONICAL_TYPE_VALUES :: "(string \<times> block_type) list" where
  "APPEND_BLOCK_CANONICAL_TYPE_VALUES =
    [(''paragraph'', Paragraph), (''heading'', Heading), (''quote'', Quote), (''list'', List),
     (''code'', Code), (''divider'', Divider), (''callout'', Callout), (''latex'', Latex),
     (''table'', Table), (''bookmark'', Bookmark), (''image'', Image),
     (''attachment'', Attachment), (''embed_youtube'', EmbedYoutube),
     (''embed_github'', EmbedGithub), (''embed_figma'', EmbedFigma),
     (''embed_loom'', EmbedLoom), (''embed_html'', EmbedHtml),
     (''embed_linked_doc'', EmbedLinkedDoc), (''embed_synced_doc'', EmbedSyncedDoc),
     (''embed_iframe'', EmbedIframe), (''database'', Database), (''data_view'', DataView),
     (''surface_ref'', SurfaceRef), (''frame'', Frame), (''edgeless_text'', EdgelessText),
     (''note'', Note)]"

text \<open>\<^verbatim>\<open>APPEND_BLOCK_LEGACY_ALIAS_MAP\<close>: alias name, alias, canonical kind.\<close>

definition APPEND_BLOCK_LEGACY_ALIAS_MAP :: "(string \<times> legacy_type \<times> block_type) list" where
  "APPEND_BLOCK_LEGACY_ALIAS_MAP =
    [(''heading1'', Heading1, Heading), (''heading2'', Heading2, Heading),
     (''heading3'', Heading3, Heading), (''bulleted_list'', BulletedList, List),
     (''numbered_list'', NumberedList, List), (''todo'', Todo, List)]"

definition APPEND_BLOCK_LIST_STYLE_VALUES :: "string list" where
  "APPEND_BLOCK_LIST_STYLE_VALUES = [''bulleted'', ''numbered'', ''todo'']"

definition APPEND_BLOCK_BOOKMARK_STYLE_VALUES :: "string list" where
  "APPEND_BLOCK_BOOKMARK_STYLE_VALUES =
    [''vertical'', ''horizontal'', ''list'', ''cube'', ''citation'']"

definition blockVersion :: "string \<Rightarrow> int" where
  "blockVersion flavour =
     (if flavour = ''affine:page'' then 2
      else if flavour = ''affine:surface'' then 5
      else 1)"

section \<open>Errors\<close>

text \<open>
  Every \<^verbatim>\<open>throw new Error(...)\<close> of the source is a value; a function that can throw
  returns \<open>error + 'a\<close>. One constructor per throw site, grouped by the function that
  throws. The field errors of \<^verbatim>\<open>validateNormalizedAppendBlockInput\<close> are listed in the
  order of their throw statements.
\<close>

datatype field_error =
    HeadingLevelInvalid
  | LevelOnlyHeading
  | InvalidListStyle string
  | CheckedNeedsTodoStyle
  | StyleOnlyList
  | CheckedOnlyList
  | LanguageOnlyCode
  | CaptionNotValid
  | LanguageTooLong
  | DividerNoText
  | UrlRequired block_type
  | UrlInvalid block_type string
  | InvalidBookmarkStyle string
  | BookmarkStyleOnlyBookmark
  | UrlNotValidForType
  | SourceIdRequired block_type
  | AttachmentNameMimeRequired
  | SourceIdOnlyMedia
  | MediaFieldsOnlyMedia
  | LatexRequired
  | LatexOnlyLatex
  | PageIdRequired block_type
  | PageIdOnlyDocEmbeds
  | HtmlOrDesignRequired
  | HtmlDesignOnlyEmbedHtml
  | IframeUrlEmpty
  | IframeUrlOnlyIframe
  | ReferenceRequired
  | RefFlavourRequired
  | RefFieldsOnlySurfaceRef
  | WidthRange block_type
  | HeightRange block_type
  | WidthHeightOnlyCanvas
  | BackgroundOnlyFrameNote
  | RowsRange
  | ColumnsRange
  | RowsColumnsOnlyTable

datatype placement_error =
    AfterBeforeExclusive
  | IndexNotNatural
  | IndexWithAfterBefore

datatype containment_error =
    CannotAppendUnderPage block_type
  | CannotAppendUnderSurface block_type
  | NoteMustBeUnderPage
  | MustBeUnderSurface block_type

datatype resolve_error =
    AfterNotFound string
  | BeforeNotFound string
  | ReferenceHasNoParent string
  | NoPageForNote
  | NoPageForContent
  | NoPageForSurface
  | ParentNotFound string
  | NotAChildOfParent string string
  | IndexOutOfRange int nat

datatype net_error =
    ConnectTimeout
  | ConnectError string
  | JoinTimeout
  | JoinFailed string
  | LoadTimeout
  | LoadFailed string
  | PushTimeout
  | PushFailed string

datatype error =
    UnsupportedType string
  | Placement placement_error
  | Field field_error
  | WorkspaceIdRequired
  | Resolve resolve_error
  | Containment containment_error
  | Net net_error
  | UpdateDecodeFailed
  | TypeError

section \<open>The append request\<close>

text \<open>
  \<^verbatim>\<open>AppendPlacement\<close>, \<^verbatim>\<open>AppendBlockInput\<close> and \<^verbatim>\<open>NormalizedAppendBlockInput\<close>. An
  optional field is an \<open>option\<close>. The numeric fields are integers, as the tool's input
  schema declares them (\<^verbatim>\<open>z.number().int()\<close>), so \<^verbatim>\<open>Number.isInteger\<close> and
  \<^verbatim>\<open>Number.isFinite\<close> hold of every one that is present and \<^verbatim>\<open>Math.floor\<close> leaves it
  as it is; \<^verbatim>\<open>size\<close> is declared \<^verbatim>\<open>z.number()\<close> and is a rational. The ranges the schema
  puts on them are not assumed: the checks of the code are modelled as written.
  Field names carry the prefix of their record (\<open>p_\<close>, \<open>r_\<close> for the raw input,
  \<open>n_\<close> for the normalized one).
\<close>

record AppendPlacement =
  p_parentId :: "string option"
  p_afterBlockId :: "string option"
  p_beforeBlockId :: "string option"
  p_index :: "int option"

record AppendBlockInput =
  r_workspaceId :: "string option"
  r_docId :: string
  r_type :: string
  r_text :: "string option"
  r_url :: "string option"
  r_pageId :: "string option"
  r_iframeUrl :: "string option"
  r_html :: "string option"
  r_design :: "string option"
  r_reference :: "string option"
  r_refFlavour :: "string option"
  r_width :: "int option"
  r_height :: "int option"
  r_background :: "string option"
  r_sourceId :: "string option"
  r_name :: "string option"
  r_mimeType :: "string option"
  r_size :: "rat option"
  r_embed :: "bool option"
  r_rows :: "int option"
  r_columns :: "int option"
  r_latex :: "string option"
  r_checked :: "bool option"
  r_language :: "string option"
  r_caption :: "string option"
  r_level :: "int option"
  r_style :: "string option"
  r_bookmarkStyle :: "string option"
  r_strict :: "bool option"
  r_placement :: "AppendPlacement option"

record NormalizedAppendBlockInput =
  n_workspaceId :: "string option"
  n_docId :: string
  n_type :: block_type
  n_strict :: bool
  n_placement :: "AppendPlacement option"
  n_text :: string
  n_url :: string
  n_pageId :: string
  n_iframeUrl :: string
  n_html :: string
  n_design :: string
  n_reference :: string
  n_refFlavour :: string
  n_width :: int
  n_height :: int
  n_background :: string
  n_sourceId :: string
  n_name :: string
  n_mimeType :: string
  n_size :: int
  n_embed :: bool
  n_rows :: int
  n_columns :: int
  n_latex :: string
  n_headingLevel :: int
  n_listStyle :: string
  n_bookmarkStyle :: string
  n_checked :: bool
  n_language :: string
  n_caption :: "string option"
  n_legacyType :: "legacy_type option"

section \<open>Block Schema and Validator\<close>

subsection \<open>Kind names and aliases\<close>

record TypeInfo =
  ti_type :: block_type
  ti_legacyType :: "legacy_type option"
  ti_headingLevelFromAlias :: "int option"
  ti_listStyleFromAlias :: "string option"

definition normalizeBlockTypeInput :: "string \<Rightarrow> error + TypeInfo" where
  "normalizeBlockTypeInput typeInput =
     (let key = js_lower (js_trim typeInput)
      in case map_of APPEND_BLOCK_CANONICAL_TYPE_VALUES key of
           Some t \<Rightarrow>
             Inr \<lparr>ti_type = t, ti_legacyType = None,
                  ti_headingLevelFromAlias = None, ti_listStyleFromAlias = None\<rparr>
         | None \<Rightarrow>
             (case map_of APPEND_BLOCK_LEGACY_ALIAS_MAP key of
                Some (legacyType, t) \<Rightarrow>
                  Inr \<lparr>ti_type = t, ti_legacyType = Some legacyType,
                       ti_headingLevelFromAlias =
                         (if legacyType = Heading1 then Some 1
                          else if legacyType = Heading2 then Some 2
                          else if legacyType = Heading3 then Some 3
                          else None),
                       ti_listStyleFromAlias =
                         (if legacyType = BulletedList then Some ''bulleted''
                          else if legacyType = NumberedList then Some ''numbered''
                          else if legacyType = Todo then Some ''todo''
                          else None)\<rparr>
              | None \<Rightarrow> Inl (UnsupportedType typeInput)))"

subsection \<open>Placement\<close>

text \<open>\<^verbatim>\<open>if (x?.trim()) normalized.x = x.trim()\<close>: kept only when something is left.\<close>

definition trimmedIfAny :: "string option \<Rightarrow> string option" where
  "trimmedIfAny x =
     (case x of
        None \<Rightarrow> None
      | Some s \<Rightarrow> (if js_trim s = [] then None else Some (js_trim s)))"

definition normalizePlacement :: "AppendPlacement option \<Rightarrow> error + AppendPlacement option" where
  "normalizePlacement placement =
     (case placement of
        None \<Rightarrow> Inr None
      | Some p \<Rightarrow>
          (let normalized =
                 \<lparr>p_parentId = trimmedIfAny (p_parentId p),
                  p_afterBlockId = trimmedIfAny (p_afterBlockId p),
                  p_beforeBlockId = trimmedIfAny (p_beforeBlockId p),
                  p_index = p_index p\<rparr>;
               hasAfter = truthy_str (p_afterBlockId normalized);
               hasBefore = truthy_str (p_beforeBlockId normalized)
           in if hasAfter \<and> hasBefore then Inl (Placement AfterBeforeExclusive)
              else if p_index normalized \<noteq> None \<and> orElse (p_index normalized) 0 < 0
                then Inl (Placement IndexNotNatural)
              else if p_index normalized \<noteq> None \<and> (hasAfter \<or> hasBefore)
                then Inl (Placement IndexWithAfterBefore)
              else if \<not> truthy_str (p_parentId normalized) \<and> \<not> truthy_str (p_afterBlockId normalized)
                      \<and> \<not> truthy_str (p_beforeBlockId normalized) \<and> p_index normalized = None
                then Inr None
              else Inr (Some normalized)))"

subsection \<open>Field checks\<close>

text \<open>
  \<^verbatim>\<open>validateNormalizedAppendBlockInput\<close> is a sequence of statements, each of which
  may throw. Each statement is one definition below, giving the error it throws if any,
  and the function is the first error in the order of the source.
  \<^verbatim>\<open>new URL(url)\<close> belongs to the platform: whether it accepts a string is the
  parameter \<open>urlParses\<close>.
\<close>

definition urlAllowedTypes :: "block_type list" where
  "urlAllowedTypes =
     [Bookmark, EmbedYoutube, EmbedGithub, EmbedFigma, EmbedLoom, EmbedIframe]"

text \<open>\<^verbatim>\<open>normalized.type.startsWith("embed_")\<close>.\<close>

definition startsWithEmbed :: "block_type \<Rightarrow> bool" where
  "startsWithEmbed t =
     (t \<in> {EmbedYoutube, EmbedGithub, EmbedFigma, EmbedLoom, EmbedHtml,
            EmbedLinkedDoc, EmbedSyncedDoc, EmbedIframe})"

definition checkLevel :: "NormalizedAppendBlockInput \<Rightarrow> AppendBlockInput \<Rightarrow> field_error option" where
  "checkLevel normalized raw =
     (if n_type normalized = Heading then
        (if n_headingLevel normalized < 1 \<or> n_headingLevel normalized > 6
         then Some HeadingLevelInvalid else None)
      else if r_level raw \<noteq> None \<and> n_strict normalized then Some LevelOnlyHeading
      else None)"

definition checkList :: "NormalizedAppendBlockInput \<Rightarrow> AppendBlockInput \<Rightarrow> field_error option" where
  "checkList normalized raw =
     (if n_type normalized = List then
        (if n_listStyle normalized \<notin> set APPEND_BLOCK_LIST_STYLE_VALUES
           then Some (InvalidListStyle (n_listStyle normalized))
         else if n_listStyle normalized \<noteq> ''todo'' \<and> r_checked raw \<noteq> None \<and> n_strict normalized
           then Some CheckedNeedsTodoStyle
         else None)
      else
        (if r_style raw \<noteq> None \<and> n_strict normalized then Some StyleOnlyList
         else if r_checked raw \<noteq> None \<and> n_strict normalized then Some CheckedOnlyList
         else None))"

definition checkCode :: "NormalizedAppendBlockInput \<Rightarrow> AppendBlockInput \<Rightarrow> field_error option" where
  "checkCode normalized raw =
     (if n_type normalized \<noteq> Code then
        (let allowsCaption =
               (n_type normalized = Bookmark \<or> n_type normalized = Image
                \<or> n_type normalized = Attachment \<or> n_type normalized = SurfaceRef
                \<or> startsWithEmbed (n_type normalized))
         in if r_language raw \<noteq> None \<and> n_strict normalized then Some LanguageOnlyCode
            else if r_caption raw \<noteq> None \<and> \<not> allowsCaption \<and> n_strict normalized
              then Some CaptionNotValid
            else None)
      else if length (n_language normalized) > 64 then Some LanguageTooLong
      else None)"

definition checkDivider :: "NormalizedAppendBlockInput \<Rightarrow> AppendBlockInput \<Rightarrow> field_error option" where
  "checkDivider normalized raw =
     (if n_type normalized = Divider \<and> truthy_str (r_text raw) \<and> n_strict normalized
      then Some DividerNoText else None)"

definition checkUrl :: "(string \<Rightarrow> bool) \<Rightarrow> NormalizedAppendBlockInput \<Rightarrow> field_error option" where
  "checkUrl urlParses normalized =
     (if n_type normalized \<in> set urlAllowedTypes then
        (if n_url normalized = [] then Some (UrlRequired (n_type normalized))
         else if \<not> urlParses (n_url normalized)
           then Some (UrlInvalid (n_type normalized) (n_url normalized))
         else None)
      else None)"

definition checkBookmark :: "NormalizedAppendBlockInput \<Rightarrow> AppendBlockInput \<Rightarrow> field_error option" where
  "checkBookmark normalized raw =
     (if n_type normalized = Bookmark then
        (if n_bookmarkStyle normalized \<notin> set APPEND_BLOCK_BOOKMARK_STYLE_VALUES
         then Some (InvalidBookmarkStyle (n_bookmarkStyle normalized)) else None)
      else
        (if r_bookmarkStyle raw \<noteq> None \<and> n_strict normalized then Some BookmarkStyleOnlyBookmark
         else if r_url raw \<noteq> None \<and> n_type normalized \<notin> set urlAllowedTypes \<and> n_strict normalized
           then Some UrlNotValidForType
         else None))"

definition checkMedia :: "NormalizedAppendBlockInput \<Rightarrow> AppendBlockInput \<Rightarrow> field_error option" where
  "checkMedia normalized raw =
     (if n_type normalized = Image \<or> n_type normalized = Attachment then
        (if n_sourceId normalized = [] then Some (SourceIdRequired (n_type normalized))
         else if n_type normalized = Attachment
                 \<and> (n_name normalized = [] \<or> n_mimeType normalized = [])
           then Some AttachmentNameMimeRequired
         else None)
      else if r_sourceId raw \<noteq> None \<and> n_strict normalized then Some SourceIdOnlyMedia
      else if (r_name raw \<noteq> None \<or> r_mimeType raw \<noteq> None \<or> r_embed raw \<noteq> None
               \<or> r_size raw \<noteq> None) \<and> n_strict normalized
        then Some MediaFieldsOnlyMedia
      else None)"

definition checkLatex :: "NormalizedAppendBlockInput \<Rightarrow> AppendBlockInput \<Rightarrow> field_error option" where
  "checkLatex normalized raw =
     (if n_type normalized = Latex then
        (if n_latex normalized = [] \<and> n_strict normalized then Some LatexRequired else None)
      else if r_latex raw \<noteq> None \<and> n_strict normalized then Some LatexOnlyLatex
      else None)"

definition checkPageId :: "NormalizedAppendBlockInput \<Rightarrow> AppendBlockInput \<Rightarrow> field_error option" where
  "checkPageId normalized raw =
     (if n_type normalized = EmbedLinkedDoc \<or> n_type normalized = EmbedSyncedDoc then
        (if n_pageId normalized = [] then Some (PageIdRequired (n_type normalized)) else None)
      else if r_pageId raw \<noteq> None \<and> n_strict normalized then Some PageIdOnlyDocEmbeds
      else None)"

definition checkHtml :: "NormalizedAppendBlockInput \<Rightarrow> AppendBlockInput \<Rightarrow> field_error option" where
  "checkHtml normalized raw =
     (if n_type normalized = EmbedHtml then
        (if n_html normalized = [] \<and> n_design normalized = [] \<and> n_strict normalized
         then Some HtmlOrDesignRequired else None)
      else if (r_html raw \<noteq> None \<or> r_design raw \<noteq> None) \<and> n_strict normalized
        then Some HtmlDesignOnlyEmbedHtml
      else None)"

definition checkIframe :: "NormalizedAppendBlockInput \<Rightarrow> AppendBlockInput \<Rightarrow> field_error option" where
  "checkIframe normalized raw =
     (if n_type normalized = EmbedIframe then
        (if r_iframeUrl raw \<noteq> None \<and> n_iframeUrl normalized = [] \<and> n_strict normalized
         then Some IframeUrlEmpty else None)
      else if r_iframeUrl raw \<noteq> None \<and> n_strict normalized then Some IframeUrlOnlyIframe
      else None)"

definition checkSurfaceRef :: "NormalizedAppendBlockInput \<Rightarrow> AppendBlockInput \<Rightarrow> field_error option" where
  "checkSurfaceRef normalized raw =
     (if n_type normalized = SurfaceRef then
        (if n_reference normalized = [] then Some ReferenceRequired
         else if n_refFlavour normalized = [] then Some RefFlavourRequired
         else None)
      else if (r_reference raw \<noteq> None \<or> r_refFlavour raw \<noteq> None) \<and> n_strict normalized
        then Some RefFieldsOnlySurfaceRef
      else None)"

definition checkWidthHeight :: "NormalizedAppendBlockInput \<Rightarrow> AppendBlockInput \<Rightarrow> field_error option" where
  "checkWidthHeight normalized raw =
     (if n_type normalized = Frame \<or> n_type normalized = EdgelessText \<or> n_type normalized = Note then
        (if n_width normalized < 1 \<or> n_width normalized > 10000
           then Some (WidthRange (n_type normalized))
         else if n_height normalized < 1 \<or> n_height normalized > 10000
           then Some (HeightRange (n_type normalized))
         else None)
      else if (r_width raw \<noteq> None \<or> r_height raw \<noteq> None) \<and> n_strict normalized
        then Some WidthHeightOnlyCanvas
      else None)"

definition checkBackground :: "NormalizedAppendBlockInput \<Rightarrow> AppendBlockInput \<Rightarrow> field_error option" where
  "checkBackground normalized raw =
     (if n_type normalized \<noteq> Frame \<and> n_type normalized \<noteq> Note
         \<and> r_background raw \<noteq> None \<and> n_strict normalized
      then Some BackgroundOnlyFrameNote else None)"

definition checkTable :: "NormalizedAppendBlockInput \<Rightarrow> AppendBlockInput \<Rightarrow> field_error option" where
  "checkTable normalized raw =
     (if n_type normalized = Table then
        (if n_rows normalized < 1 \<or> n_rows normalized > 20 then Some RowsRange
         else if n_columns normalized < 1 \<or> n_columns normalized > 20 then Some ColumnsRange
         else None)
      else if (r_rows raw \<noteq> None \<or> r_columns raw \<noteq> None) \<and> n_strict normalized
        then Some RowsColumnsOnlyTable
      else None)"

fun firstError :: "'e option list \<Rightarrow> 'e option" where
  "firstError [] = None"
| "firstError (None # rest) = firstError rest"
| "firstError (Some e # rest) = Some e"

definition validateNormalizedAppendBlockInput ::
  "(string \<Rightarrow> bool) \<Rightarrow> NormalizedAppendBlockInput \<Rightarrow> AppendBlockInput \<Rightarrow> field_error option" where
  "validateNormalizedAppendBlockInput urlParses normalized raw =
     firstError
       [checkLevel normalized raw,
        checkList normalized raw,
        checkCode normalized raw,
        checkDivider normalized raw,
        checkUrl urlParses normalized,
        checkBookmark normalized raw,
        checkMedia normalized raw,
        checkLatex normalized raw,
        checkPageId normalized raw,
        checkHtml normalized raw,
        checkIframe normalized raw,
        checkSurfaceRef normalized raw,
        checkWidthHeight normalized raw,
        checkBackground normalized raw,
        checkTable normalized raw]"

subsection \<open>Normalization\<close>

text \<open>\<^verbatim>\<open>(x ?? d).trim() || d\<close>.\<close>

definition trimmedOr :: "string option \<Rightarrow> string \<Rightarrow> string" where
  "trimmedOr x d = (if js_trim (orElse x d) = [] then d else js_trim (orElse x d))"

text \<open>
  The fields of the normalized request, from the raw request, the resolved kind and the
  normalized placement (the constants \<^verbatim>\<open>normalizeAppendBlockInput\<close> computes; none of
  these computations throws).
\<close>

definition normalizedFields ::
  "AppendBlockInput \<Rightarrow> TypeInfo \<Rightarrow> AppendPlacement option \<Rightarrow> NormalizedAppendBlockInput" where
  "normalizedFields parsed typeInfo placement =
     (let strict = (r_strict parsed \<noteq> Some False);
          headingLevelCandidate =
            orElse (r_level parsed) (orElse (ti_headingLevelFromAlias typeInfo) 1);
          headingLevel = max 1 (min 6 headingLevelCandidate);
          listStyle =
            orElse (ti_listStyleFromAlias typeInfo) (orElse (r_style parsed) ''bulleted'');
          bookmarkStyle = orElse (r_bookmarkStyle parsed) ''horizontal'';
          language =
            (if js_lower (js_trim (orElse (r_language parsed) ''txt'')) = [] then ''txt''
             else js_lower (js_trim (orElse (r_language parsed) ''txt'')))
      in \<lparr>n_workspaceId = r_workspaceId parsed,
          n_docId = r_docId parsed,
          n_type = ti_type typeInfo,
          n_strict = strict,
          n_placement = placement,
          n_text = orElse (r_text parsed) [],
          n_url = js_trim (orElse (r_url parsed) []),
          n_pageId = js_trim (orElse (r_pageId parsed) []),
          n_iframeUrl = js_trim (orElse (r_iframeUrl parsed) []),
          n_html = orElse (r_html parsed) [],
          n_design = orElse (r_design parsed) [],
          n_reference = js_trim (orElse (r_reference parsed) []),
          n_refFlavour = js_trim (orElse (r_refFlavour parsed) []),
          n_width = (case r_width parsed of Some w \<Rightarrow> max 1 w | None \<Rightarrow> 100),
          n_height = (case r_height parsed of Some h \<Rightarrow> max 1 h | None \<Rightarrow> 100),
          n_background = trimmedOr (r_background parsed) ''transparent'',
          n_sourceId = js_trim (orElse (r_sourceId parsed) []),
          n_name = trimmedOr (r_name parsed) ''attachment'',
          n_mimeType = trimmedOr (r_mimeType parsed) ''application/octet-stream'',
          n_size = (case r_size parsed of Some q \<Rightarrow> max 0 \<lfloor>q\<rfloor> | None \<Rightarrow> 0),
          n_embed = (r_embed parsed = Some True),
          n_rows = (case r_rows parsed of Some r \<Rightarrow> r | None \<Rightarrow> 3),
          n_columns = (case r_columns parsed of Some c \<Rightarrow> c | None \<Rightarrow> 3),
          n_latex = js_trim (orElse (r_latex parsed) []),
          n_headingLevel = headingLevel,
          n_listStyle = listStyle,
          n_bookmarkStyle = bookmarkStyle,
          n_checked = (r_checked parsed = Some True),
          n_language = language,
          n_caption = r_caption parsed,
          n_legacyType = ti_legacyType typeInfo\<rparr>)"

text \<open>
  \<^verbatim>\<open>normalizeAppendBlockInput\<close>: the statements that may throw, in the order of the
  source: the kind, the placement, the field checks.
\<close>

definition normalizeAppendBlockInput ::
  "(string \<Rightarrow> bool) \<Rightarrow> AppendBlockInput \<Rightarrow> error + NormalizedAppendBlockInput" where
  "normalizeAppendBlockInput urlParses parsed =
     (case normalizeBlockTypeInput (r_type parsed) of
        Inl e \<Rightarrow> Inl e
      | Inr typeInfo \<Rightarrow>
          (case normalizePlacement (r_placement parsed) of
             Inl e \<Rightarrow> Inl e
           | Inr placement \<Rightarrow>
               (let normalized = normalizedFields parsed typeInfo placement
                in case validateNormalizedAppendBlockInput urlParses normalized parsed of
                     Some e \<Rightarrow> Inl (Field e)
                   | None \<Rightarrow> Inr normalized)))"

section \<open>Identifier Generator\<close>

text \<open>
  \<^verbatim>\<open>generateId\<close> draws ten random symbols. The draws are a supply \<open>ids\<close> of strings
  read at a counter, which every call advances; nothing is assumed of the supply, so two
  identifiers may coincide. The memory a local operation works on is the shared map
  \<open>blocks\<close> together with that counter.
\<close>

record mem =
  m_blocks :: ymap
  m_next :: nat

definition generateId :: "(nat \<Rightarrow> string) \<Rightarrow> mem \<Rightarrow> string \<times> mem" where
  "generateId ids s = (ids (m_next s), s\<lparr>m_next := Suc (m_next s)\<rparr>)"

section \<open>Tree Navigator\<close>

definition makeText :: "string \<Rightarrow> jv" where
  "makeText content = YText content"

text \<open>A run of \<^verbatim>\<open>map.set(k, v)\<close> statements, in order.\<close>

definition sets :: "(string \<times> jv) list \<Rightarrow> ymap \<Rightarrow> ymap" where
  "sets kvs m = fold (\<lambda>(k, v). ymap_set k v) kvs m"

definition setSysFields :: "ymap \<Rightarrow> string \<Rightarrow> string \<Rightarrow> ymap" where
  "setSysFields block blockId flavour =
     sets [(''sys:id'', JStr blockId),
           (''sys:flavour'', JStr flavour),
           (''sys:version'', JNum (blockVersion flavour))] block"

text \<open>
  The first block of a flavour, in the map's iteration order. A value without a
  \<^verbatim>\<open>get\<close> method is skipped, and a shared array's \<^verbatim>\<open>get\<close> has no flavour to give.
\<close>

fun findBlockIdByFlavour :: "ymap \<Rightarrow> string \<Rightarrow> string option" where
  "findBlockIdByFlavour [] flavour = None"
| "findBlockIdByFlavour ((k, YMap block) # rest) flavour =
     (if ymap_get block ''sys:flavour'' = JStr flavour
      then Some (js_String (ymap_get block ''sys:id''))
      else findBlockIdByFlavour rest flavour)"
| "findBlockIdByFlavour ((k, v) # rest) flavour = findBlockIdByFlavour rest flavour"

definition findBlockById :: "ymap \<Rightarrow> string \<Rightarrow> ymap option" where
  "findBlockById blocks blockId =
     (case ymap_get blocks blockId of YMap block \<Rightarrow> Some block | _ \<Rightarrow> None)"

text \<open>
  \<^verbatim>\<open>ensureChildrenArray\<close>: the content of the block's child array, and the block, which
  gets an empty array when it has none.
\<close>

definition ensureChildrenArray :: "ymap \<Rightarrow> jv list \<times> ymap" where
  "ensureChildrenArray block =
     (case ymap_get block ''sys:children'' of
        YArray current \<Rightarrow> (current, block)
      | _ \<Rightarrow> ([], ymap_set ''sys:children'' (YArray []) block))"

text \<open>A child entry is a bare id or a plain array holding ids.\<close>

fun entryHolds :: "jv \<Rightarrow> string \<Rightarrow> bool" where
  "entryHolds (JStr entry) blockId = (entry = blockId)"
| "entryHolds (JArr entry) blockId = (JStr blockId \<in> set entry)"
| "entryHolds _ blockId = False"

fun indexOfChildFrom :: "jv list \<Rightarrow> string \<Rightarrow> int \<Rightarrow> int" where
  "indexOfChildFrom [] blockId i = - 1"
| "indexOfChildFrom (entry # rest) blockId i =
     (if entryHolds entry blockId then i else indexOfChildFrom rest blockId (i + 1))"

definition indexOfChild :: "jv list \<Rightarrow> string \<Rightarrow> int" where
  "indexOfChild children blockId = indexOfChildFrom children blockId 0"

text \<open>
  \<^verbatim>\<open>children.push([id])\<close> on the child array of a block, which is created first when
  the block has none (the tail of \<^verbatim>\<open>ensureNoteBlock\<close> and \<^verbatim>\<open>ensureSurfaceBlock\<close>).
\<close>

definition pushChild :: "ymap \<Rightarrow> string \<Rightarrow> ymap" where
  "pushChild block childId =
     (case ymap_get block ''sys:children'' of
        YArray pageChildren \<Rightarrow> ymap_set ''sys:children'' (YArray (pageChildren @ [JStr childId])) block
      | _ \<Rightarrow> ymap_set ''sys:children'' (YArray [JStr childId]) block)"

text \<open>
  The note that \<^verbatim>\<open>ensureNoteBlock\<close> builds and the surface that
  \<^verbatim>\<open>ensureSurfaceBlock\<close> builds, as the statements of the source set them.
\<close>

definition newNoteBlock :: "string \<Rightarrow> string \<Rightarrow> ymap" where
  "newNoteBlock pageId noteId =
     sets [(''sys:parent'', JStr pageId),
           (''sys:children'', YArray []),
           (''prop:xywh'', JStr ''[0,0,800,95]''),
           (''prop:index'', JStr ''a0''),
           (''prop:hidden'', JBool False),
           (''prop:displayMode'', JStr ''both''),
           (''prop:background'',
              YMap (sets [(''light'', JStr ''#ffffff''), (''dark'', JStr ''#252525'')] []))]
       (setSysFields [] noteId ''affine:note'')"

definition newSurfaceBlock :: "string \<Rightarrow> string \<Rightarrow> ymap" where
  "newSurfaceBlock pageId surfaceId =
     sets [(''sys:parent'', JStr pageId),
           (''sys:children'', YArray []),
           (''prop:elements'',
              YMap (sets [(''type'', JStr ''$blocksuite:internal:native$''),
                          (''value'', YMap [])] []))]
       (setSysFields [] surfaceId ''affine:surface'')"

text \<open>
  \<^verbatim>\<open>ensureNoteBlock\<close>. The new note is stored before the page is read back from the map
  by the id its \<^verbatim>\<open>sys:id\<close> gave; when no shared map is stored under that id, the call
  \<^verbatim>\<open>page.get\<close> or \<^verbatim>\<open>page.set\<close> fails with a type error and the note stays stored.
\<close>

definition ensureNoteBlock :: "(nat \<Rightarrow> string) \<Rightarrow> mem \<Rightarrow> (error + string) \<times> mem" where
  "ensureNoteBlock ids s =
     (case findBlockIdByFlavour (m_blocks s) ''affine:note'' of
        Some (c # cs) \<Rightarrow> (Inr (c # cs), s)
      | _ \<Rightarrow>
          (case findBlockIdByFlavour (m_blocks s) ''affine:page'' of
             Some (c # cs) \<Rightarrow>
               (let pageId = c # cs;
                    (noteId, s1) = generateId ids s;
                    note = newNoteBlock pageId noteId;
                    blocks1 = ymap_set noteId (YMap note) (m_blocks s1)
                in case ymap_get blocks1 pageId of
                     YMap page \<Rightarrow>
                       (Inr noteId,
                        s1\<lparr>m_blocks := ymap_set pageId (YMap (pushChild page noteId)) blocks1\<rparr>)
                   | _ \<Rightarrow> (Inl TypeError, s1\<lparr>m_blocks := blocks1\<rparr>))
           | _ \<Rightarrow> (Inl (Resolve NoPageForContent), s)))"

definition ensureSurfaceBlock :: "(nat \<Rightarrow> string) \<Rightarrow> mem \<Rightarrow> (error + string) \<times> mem" where
  "ensureSurfaceBlock ids s =
     (case findBlockIdByFlavour (m_blocks s) ''affine:surface'' of
        Some (c # cs) \<Rightarrow> (Inr (c # cs), s)
      | _ \<Rightarrow>
          (case findBlockIdByFlavour (m_blocks s) ''affine:page'' of
             Some (c # cs) \<Rightarrow>
               (let pageId = c # cs;
                    (surfaceId, s1) = generateId ids s;
                    surface = newSurfaceBlock pageId surfaceId;
                    blocks1 = ymap_set surfaceId (YMap surface) (m_blocks s1)
                in case ymap_get blocks1 pageId of
                     YMap page \<Rightarrow>
                       (Inr surfaceId,
                        s1\<lparr>m_blocks := ymap_set pageId (YMap (pushChild page surfaceId)) blocks1\<rparr>)
                   | _ \<Rightarrow> (Inl TypeError, s1\<lparr>m_blocks := blocks1\<rparr>))
           | _ \<Rightarrow> (Inl (Resolve NoPageForSurface), s)))"

section \<open>Placement Resolver\<close>

text \<open>
  \<^verbatim>\<open>resolveInsertContext\<close> is one function in the source. Its four parts are named
  here: the target the placement names (\<open>resolvePlacement\<close>), the implicit parent
  when it names none (\<open>implicitParent\<close>), the containment check
  (\<open>checkContainment\<close>) and the insertion index (\<open>resolveIndex\<close>). The function
  returns the memory too, since creating a missing note, surface or child array changes
  the document before a later statement may throw.
\<close>

datatype insert_mode = ModeAppend | ModeIndex | ModeAfter | ModeBefore

record PlacementTarget =
  t_mode :: insert_mode
  t_referenceBlockId :: "string option"
  t_parentId :: "string option"

record InsertContext =
  c_parentId :: string
  c_parentBlock :: ymap
  c_children :: "jv list"
  c_insertIndex :: int

definition referenceParent :: "ymap \<Rightarrow> string \<Rightarrow> resolve_error \<Rightarrow> error + string" where
  "referenceParent blocks referenceBlockId notFound =
     (case findBlockById blocks referenceBlockId of
        None \<Rightarrow> Inl (Resolve notFound)
      | Some referenceBlock \<Rightarrow>
          (case ymap_get referenceBlock ''sys:parent'' of
             JStr (c # cs) \<Rightarrow> Inr (c # cs)
           | _ \<Rightarrow> Inl (Resolve (ReferenceHasNoParent referenceBlockId))))"

definition resolvePlacement :: "ymap \<Rightarrow> AppendPlacement option \<Rightarrow> error + PlacementTarget" where
  "resolvePlacement blocks placement =
     (case placement of
        None \<Rightarrow> Inr \<lparr>t_mode = ModeAppend, t_referenceBlockId = None, t_parentId = None\<rparr>
      | Some p \<Rightarrow>
          (if truthy_str (p_afterBlockId p) then
             (let referenceBlockId = orElse (p_afterBlockId p) []
              in case referenceParent blocks referenceBlockId (AfterNotFound referenceBlockId) of
                   Inl e \<Rightarrow> Inl e
                 | Inr refParentId \<Rightarrow>
                     Inr \<lparr>t_mode = ModeAfter, t_referenceBlockId = Some referenceBlockId,
                          t_parentId = Some refParentId\<rparr>)
           else if truthy_str (p_beforeBlockId p) then
             (let referenceBlockId = orElse (p_beforeBlockId p) []
              in case referenceParent blocks referenceBlockId (BeforeNotFound referenceBlockId) of
                   Inl e \<Rightarrow> Inl e
                 | Inr refParentId \<Rightarrow>
                     Inr \<lparr>t_mode = ModeBefore, t_referenceBlockId = Some referenceBlockId,
                          t_parentId = Some refParentId\<rparr>)
           else if truthy_str (p_parentId p) then
             Inr \<lparr>t_mode = (if p_index p \<noteq> None then ModeIndex else ModeAppend),
                  t_referenceBlockId = None, t_parentId = p_parentId p\<rparr>
           else Inr \<lparr>t_mode = ModeAppend, t_referenceBlockId = None, t_parentId = None\<rparr>))"

definition implicitParent ::
  "(nat \<Rightarrow> string) \<Rightarrow> block_type \<Rightarrow> mem \<Rightarrow> (error + string) \<times> mem" where
  "implicitParent ids t s =
     (if t = Frame \<or> t = EdgelessText then ensureSurfaceBlock ids s
      else if t = Note then
        (case findBlockIdByFlavour (m_blocks s) ''affine:page'' of
           Some (c # cs) \<Rightarrow> (Inr (c # cs), s)
         | _ \<Rightarrow> (Inl (Resolve NoPageForNote), s))
      else ensureNoteBlock ids s)"

definition checkContainment :: "jv \<Rightarrow> block_type \<Rightarrow> containment_error option" where
  "checkContainment parentFlavour t =
     (if parentFlavour = JStr ''affine:page'' \<and> t \<noteq> Note
        then Some (CannotAppendUnderPage t)
      else if parentFlavour = JStr ''affine:surface'' \<and> t \<noteq> Frame \<and> t \<noteq> EdgelessText
        then Some (CannotAppendUnderSurface t)
      else if t = Note \<and> parentFlavour \<noteq> JStr ''affine:page''
        then Some NoteMustBeUnderPage
      else if (t = Frame \<or> t = EdgelessText) \<and> parentFlavour \<noteq> JStr ''affine:surface''
        then Some (MustBeUnderSurface t)
      else None)"

definition resolveIndex ::
  "NormalizedAppendBlockInput \<Rightarrow> PlacementTarget \<Rightarrow> string \<Rightarrow> jv list \<Rightarrow> error + int" where
  "resolveIndex normalized target parentId children =
     (if t_mode target = ModeAfter \<or> t_mode target = ModeBefore then
        (let referenceBlockId = orElse (t_referenceBlockId target) [];
             idx = indexOfChild children referenceBlockId
         in if idx < 0 then Inl (Resolve (NotAChildOfParent referenceBlockId parentId))
            else Inr (if t_mode target = ModeAfter then idx + 1 else idx))
      else if t_mode target = ModeIndex then
        (let requestedIndex =
               (case n_placement normalized of
                  None \<Rightarrow> int (length children)
                | Some p \<Rightarrow> orElse (p_index p) (int (length children)))
         in if requestedIndex > int (length children) \<and> n_strict normalized
            then Inl (Resolve (IndexOutOfRange requestedIndex (length children)))
            else Inr (min requestedIndex (int (length children))))
      else Inr (int (length children)))"

text \<open>The parent a request resolves to: the one its placement names, or the implicit one.\<close>

definition resolveParent ::
  "(nat \<Rightarrow> string) \<Rightarrow> NormalizedAppendBlockInput \<Rightarrow> mem
     \<Rightarrow> (error + PlacementTarget \<times> string) \<times> mem" where
  "resolveParent ids normalized s =
     (case resolvePlacement (m_blocks s) (n_placement normalized) of
        Inl e \<Rightarrow> (Inl e, s)
      | Inr target \<Rightarrow>
          (case t_parentId target of
             Some (c # cs) \<Rightarrow> (Inr (target, c # cs), s)
           | _ \<Rightarrow>
               (case implicitParent ids (n_type normalized) s of
                  (Inl e, s1) \<Rightarrow> (Inl e, s1)
                | (Inr parentId, s1) \<Rightarrow> (Inr (target, parentId), s1))))"

definition resolveInsertContext ::
  "(nat \<Rightarrow> string) \<Rightarrow> NormalizedAppendBlockInput \<Rightarrow> mem \<Rightarrow> (error + InsertContext) \<times> mem" where
  "resolveInsertContext ids normalized s =
     (case resolveParent ids normalized s of
        (Inl e, s1) \<Rightarrow> (Inl e, s1)
      | (Inr (target, parentId), s1) \<Rightarrow>
          (case findBlockById (m_blocks s1) parentId of
             None \<Rightarrow> (Inl (Resolve (ParentNotFound parentId)), s1)
           | Some parentBlock \<Rightarrow>
               (case (if n_strict normalized
                      then checkContainment (ymap_get parentBlock ''sys:flavour'') (n_type normalized)
                      else None) of
                  Some ce \<Rightarrow> (Inl (Containment ce), s1)
                | None \<Rightarrow>
                    (let (children, parentBlock1) = ensureChildrenArray parentBlock;
                         s2 = s1\<lparr>m_blocks := ymap_set parentId (YMap parentBlock1) (m_blocks s1)\<rparr>
                     in case resolveIndex normalized target parentId children of
                          Inl e \<Rightarrow> (Inl e, s2)
                        | Inr insertIndex \<Rightarrow>
                            (Inr \<lparr>c_parentId = parentId, c_parentBlock = parentBlock1,
                                  c_children = children, c_insertIndex = insertIndex\<rparr>, s2)))))"

text \<open>
  The containment rule in the words of the specification: a page may only directly
  contain a note; a surface may only directly contain a frame or an edgeless text; a note
  may not be placed under anything but a page; a frame or an edgeless text may not be
  placed under anything but a surface. This predicate says when a parent flavour and a
  kind break the rule; it is compared with \<open>checkContainment\<close> below.
\<close>

definition containmentViolation :: "jv \<Rightarrow> block_type \<Rightarrow> bool" where
  "containmentViolation parentFlavour t =
     ((parentFlavour = JStr ''affine:page'' \<and> t \<noteq> Note)
      \<or> (parentFlavour = JStr ''affine:surface'' \<and> t \<noteq> Frame \<and> t \<noteq> EdgelessText)
      \<or> (t = Note \<and> parentFlavour \<noteq> JStr ''affine:page'')
      \<or> ((t = Frame \<or> t = EdgelessText) \<and> parentFlavour \<noteq> JStr ''affine:surface''))"

section \<open>Block Factory\<close>

text \<open>
  \<^verbatim>\<open>createBlock\<close> draws the block id, then every case sets the system fields, the
  parent and an empty child array, and after them the properties of its kind. A case
  is given by its flavour, its properties in the order they are set, and the block type
  it reports. A plain object is the list of its entries in the order they were written;
  the order in which JavaScript enumerates the keys of a plain object is not modelled,
  and the cell table does not depend on it. The callout's emoji is written as its UTF-8
  bytes.
\<close>

record CreatedBlock =
  cb_blockId :: string
  cb_block :: ymap
  cb_flavour :: string
  cb_blockType :: "string option"

definition xywh :: "int \<Rightarrow> int \<Rightarrow> string" where
  "xywh w h = ''[0,0,'' @ show_int w @ '','' @ show_int h @ '']''"

definition orNull :: "string option \<Rightarrow> jv" where
  "orNull x = (case x of None \<Rightarrow> JNull | Some v \<Rightarrow> JStr v)"

definition orUndefined :: "string option \<Rightarrow> jv" where
  "orUndefined x = (case x of None \<Rightarrow> JUndefined | Some v \<Rightarrow> JStr v)"

definition padStart4 :: "string \<Rightarrow> string" where
  "padStart4 x = replicate (4 - length x) (CHR ''0'') @ x"

text \<open>
  The rows (or columns) of a table: \<open>count\<close> identifiers drawn from position
  \<open>start\<close> of the supply, each keyed to its id and its order string.
\<close>

definition tableAxis :: "(nat \<Rightarrow> string) \<Rightarrow> nat \<Rightarrow> nat \<Rightarrow> string \<Rightarrow> char \<Rightarrow> ymap" where
  "tableAxis ids start count idKey letter =
     fold (\<lambda>i. ymap_set (ids (start + i))
                  (JObj [(idKey, JStr (ids (start + i))),
                         (''order'', JStr (letter # padStart4 (show_nat i)))]))
          [0..<count] []"

definition tableCells :: "ymap \<Rightarrow> ymap \<Rightarrow> ymap" where
  "tableCells rows columns =
     fold (\<lambda>rowId. fold (\<lambda>columnId. ymap_set (rowId @ '':'' @ columnId)
                                       (JObj [(''text'', makeText [])]))
                         (map fst columns))
          (map fst rows) []"

definition createBlock ::
  "(nat \<Rightarrow> string) \<Rightarrow> string \<Rightarrow> NormalizedAppendBlockInput \<Rightarrow> mem \<Rightarrow> CreatedBlock \<times> mem" where
  "createBlock ids parentId normalized s =
     (let (blockId, s1) = generateId ids s;
          content = n_text normalized;
          caption = n_caption normalized;
          rowCount = nat (n_rows normalized);
          columnCount = nat (n_columns normalized);
          rows = tableAxis ids (m_next s1) rowCount ''rowId'' (CHR ''r'');
          columns = tableAxis ids (m_next s1 + rowCount) columnCount ''columnId'' (CHR ''c'');
          s2 = (if n_type normalized = Table
                then s1\<lparr>m_next := m_next s1 + rowCount + columnCount\<rparr> else s1);
          paragraphType =
            (if n_type normalized = Heading then CHR ''h'' # show_int (n_headingLevel normalized)
             else if n_type normalized = Quote then ''quote''
             else ''text'');
          paragraphCase =
            (''affine:paragraph'',
             [(''prop:type'', JStr paragraphType), (''prop:text'', makeText content)],
             Some paragraphType);
          databaseProps =
            [(''prop:views'', YArray []),
             (''prop:title'', makeText content),
             (''prop:cells'', YMap []),
             (''prop:columns'', YArray []),
             (''prop:comments'', JUndefined)];
          (flavour, props, blockType) =
            (case n_type normalized of
               Paragraph \<Rightarrow> paragraphCase
             | Heading \<Rightarrow> paragraphCase
             | Quote \<Rightarrow> paragraphCase
             | List \<Rightarrow>
                 (''affine:list'',
                  [(''prop:type'', JStr (n_listStyle normalized)),
                   (''prop:checked'',
                      JBool (if n_listStyle normalized = ''todo'' then n_checked normalized else False)),
                   (''prop:text'', makeText content)],
                  Some (n_listStyle normalized))
             | Code \<Rightarrow>
                 (''affine:code'',
                  [(''prop:language'', JStr (n_language normalized))]
                  @ (if truthy_str caption then [(''prop:caption'', orUndefined caption)] else [])
                  @ [(''prop:text'', makeText content)],
                  None)
             | Divider \<Rightarrow> (''affine:divider'', [], None)
             | Callout \<Rightarrow>
                 (''affine:callout'',
                  [(''prop:icon'',
                      JObj [(''type'', JStr ''emoji''),
                            (''unicode'', JStr [CHR 0xF0, CHR 0x9F, CHR 0x92, CHR 0xA1])]),
                   (''prop:backgroundColorName'', JStr ''grey''),
                   (''prop:text'', makeText content)],
                  None)
             | Latex \<Rightarrow>
                 (''affine:latex'',
                  [(''prop:xywh'', JStr ''[0,0,16,16]''),
                   (''prop:index'', JStr ''a0''),
                   (''prop:lockedBySelf'', JBool False),
                   (''prop:scale'', JNum 1),
                   (''prop:rotate'', JNum 0),
                   (''prop:latex'', JStr (n_latex normalized))],
                  None)
             | Table \<Rightarrow>
                 (''affine:table'',
                  [(''prop:rows'', JObj rows),
                   (''prop:columns'', JObj columns),
                   (''prop:cells'', JObj (tableCells rows columns)),
                   (''prop:comments'', JUndefined),
                   (''prop:textAlign'', JUndefined)],
                  None)
             | Bookmark \<Rightarrow>
                 (''affine:bookmark'',
                  [(''prop:style'', JStr (n_bookmarkStyle normalized)),
                   (''prop:url'', JStr (n_url normalized)),
                   (''prop:caption'', orNull caption),
                   (''prop:description'', JNull),
                   (''prop:icon'', JNull),
                   (''prop:image'', JNull),
                   (''prop:title'', JNull),
                   (''prop:xywh'', JStr ''[0,0,0,0]''),
                   (''prop:index'', JStr ''a0''),
                   (''prop:lockedBySelf'', JBool False),
                   (''prop:rotate'', JNum 0),
                   (''prop:footnoteIdentifier'', JNull)],
                  None)
             | Image \<Rightarrow>
                 (''affine:image'',
                  [(''prop:caption'', JStr (orElse caption [])),
                   (''prop:sourceId'', JStr (n_sourceId normalized)),
                   (''prop:width'', JNum 0),
                   (''prop:height'', JNum 0),
                   (''prop:size'', JNum (if n_size normalized = 0 then - 1 else n_size normalized)),
                   (''prop:xywh'', JStr ''[0,0,0,0]''),
                   (''prop:index'', JStr ''a0''),
                   (''prop:lockedBySelf'', JBool False),
                   (''prop:rotate'', JNum 0)],
                  None)
             | Attachment \<Rightarrow>
                 (''affine:attachment'',
                  [(''prop:name'', JStr (n_name normalized)),
                   (''prop:size'', JNum (n_size normalized)),
                   (''prop:type'', JStr (n_mimeType normalized)),
                   (''prop:sourceId'', JStr (n_sourceId normalized)),
                   (''prop:caption'', orUndefined caption),
                   (''prop:embed'', JBool (n_embed normalized)),
                   (''prop:style'', JStr ''horizontalThin''),
                   (''prop:index'', JStr ''a0''),
                   (''prop:xywh'', JStr ''[0,0,0,0]''),
                   (''prop:lockedBySelf'', JBool False),
                   (''prop:rotate'', JNum 0),
                   (''prop:footnoteIdentifier'', JNull)],
                  None)
             | EmbedYoutube \<Rightarrow>
                 (''affine:embed-youtube'',
                  [(''prop:index'', JStr ''a0''),
                   (''prop:xywh'', JStr ''[0,0,0,0]''),
                   (''prop:lockedBySelf'', JBool False),
                   (''prop:rotate'', JNum 0),
                   (''prop:style'', JStr ''video''),
                   (''prop:url'', JStr (n_url normalized)),
                   (''prop:caption'', orNull caption),
                   (''prop:image'', JNull),
                   (''prop:title'', JNull),
                   (''prop:description'', JNull),
                   (''prop:creator'', JNull),
                   (''prop:creatorUrl'', JNull),
                   (''prop:creatorImage'', JNull),
                   (''prop:videoId'', JNull)],
                  None)
             | EmbedGithub \<Rightarrow>
                 (''affine:embed-github'',
                  [(''prop:index'', JStr ''a0''),
                   (''prop:xywh'', JStr ''[0,0,0,0]''),
                   (''prop:lockedBySelf'', JBool False),
                   (''prop:rotate'', JNum 0),
                   (''prop:style'', JStr ''horizontal''),
                   (''prop:owner'', JStr []),
                   (''prop:repo'', JStr []),
                   (''prop:githubType'', JStr ''issue''),
                   (''prop:githubId'', JStr []),
                   (''prop:url'', JStr (n_url normalized)),
                   (''prop:caption'', orNull caption),
                   (''prop:image'', JNull),
                   (''prop:status'', JNull),
                   (''prop:statusReason'', JNull),
                   (''prop:title'', JNull),
                   (''prop:description'', JNull),
                   (''prop:createdAt'', JNull),
                   (''prop:assignees'', JNull)],
                  None)
             | EmbedFigma \<Rightarrow>
                 (''affine:embed-figma'',
                  [(''prop:index'', JStr ''a0''),
                   (''prop:xywh'', JStr ''[0,0,0,0]''),
                   (''prop:lockedBySelf'', JBool False),
                   (''prop:rotate'', JNum 0),
                   (''prop:style'', JStr ''figma''),
                   (''prop:url'', JStr (n_url normalized)),
                   (''prop:caption'', orNull caption),
                   (''prop:title'', JNull),
                   (''prop:description'', JNull)],
                  None)
             | EmbedLoom \<Rightarrow>
                 (''affine:embed-loom'',
                  [(''prop:index'', JStr ''a0''),
                   (''prop:xywh'', JStr ''[0,0,0,0]''),
                   (''prop:lockedBySelf'', JBool False),
                   (''prop:rotate'', JNum 0),
                   (''prop:style'', JStr ''video''),
                   (''prop:url'', JStr (n_url normalized)),
                   (''prop:caption'', orNull caption),
                   (''prop:image'', JNull),
                   (''prop:title'', JNull),
                   (''prop:description'', JNull),
                   (''prop:videoId'', JNull)],
                  None)
             | EmbedHtml \<Rightarrow>
                 (''affine:embed-html'',
                  [(''prop:index'', JStr ''a0''),
                   (''prop:xywh'', JStr ''[0,0,0,0]''),
                   (''prop:lockedBySelf'', JBool False),
                   (''prop:rotate'', JNum 0),
                   (''prop:style'', JStr ''html''),
                   (''prop:caption'', orNull caption),
                   (''prop:html'',
                      (if n_html normalized = [] then JUndefined else JStr (n_html normalized))),
                   (''prop:design'',
                      (if n_design normalized = [] then JUndefined else JStr (n_design normalized)))],
                  None)
             | EmbedLinkedDoc \<Rightarrow>
                 (''affine:embed-linked-doc'',
                  [(''prop:index'', JStr ''a0''),
                   (''prop:xywh'', JStr ''[0,0,0,0]''),
                   (''prop:lockedBySelf'', JBool False),
                   (''prop:rotate'', JNum 0),
                   (''prop:style'', JStr ''horizontal''),
                   (''prop:caption'', orNull caption),
                   (''prop:pageId'', JStr (n_pageId normalized)),
                   (''prop:title'', JUndefined),
                   (''prop:description'', JUndefined),
                   (''prop:footnoteIdentifier'', JNull)],
                  None)
             | EmbedSyncedDoc \<Rightarrow>
                 (''affine:embed-synced-doc'',
                  [(''prop:index'', JStr ''a0''),
                   (''prop:xywh'', JStr ''[0,0,800,100]''),
                   (''prop:lockedBySelf'', JBool False),
                   (''prop:rotate'', JNum 0),
                   (''prop:style'', JStr ''syncedDoc''),
                   (''prop:caption'', orUndefined caption),
                   (''prop:pageId'', JStr (n_pageId normalized)),
                   (''prop:scale'', JUndefined),
                   (''prop:preFoldHeight'', JUndefined),
                   (''prop:title'', JUndefined),
                   (''prop:description'', JUndefined)],
                  None)
             | EmbedIframe \<Rightarrow>
                 (''affine:embed-iframe'',
                  [(''prop:index'', JStr ''a0''),
                   (''prop:xywh'', JStr ''[0,0,0,0]''),
                   (''prop:lockedBySelf'', JBool False),
                   (''prop:scale'', JNum 1),
                   (''prop:url'', JStr (n_url normalized)),
                   (''prop:iframeUrl'',
                      JStr (if n_iframeUrl normalized = [] then n_url normalized
                            else n_iframeUrl normalized)),
                   (''prop:width'', JUndefined),
                   (''prop:height'', JUndefined),
                   (''prop:caption'', orNull caption),
                   (''prop:title'', JNull),
                   (''prop:description'', JNull)],
                  None)
             | Database \<Rightarrow> (''affine:database'', databaseProps, None)
             | DataView \<Rightarrow> (''affine:database'', databaseProps, Some ''data_view_fallback'')
             | SurfaceRef \<Rightarrow>
                 (''affine:surface-ref'',
                  [(''prop:reference'', JStr (n_reference normalized)),
                   (''prop:caption'', JStr (orElse caption [])),
                   (''prop:refFlavour'', JStr (n_refFlavour normalized)),
                   (''prop:comments'', JUndefined)],
                  None)
             | Frame \<Rightarrow>
                 (''affine:frame'',
                  [(''prop:title'', makeText (if content = [] then ''Frame'' else content)),
                   (''prop:background'', JStr (n_background normalized)),
                   (''prop:xywh'', JStr (xywh (n_width normalized) (n_height normalized))),
                   (''prop:index'', JStr ''a0''),
                   (''prop:childElementIds'', YMap []),
                   (''prop:presentationIndex'', JStr ''a0''),
                   (''prop:lockedBySelf'', JBool False)],
                  None)
             | EdgelessText \<Rightarrow>
                 (''affine:edgeless-text'',
                  [(''prop:xywh'', JStr (xywh (n_width normalized) (n_height normalized))),
                   (''prop:index'', JStr ''a0''),
                   (''prop:lockedBySelf'', JBool False),
                   (''prop:scale'', JNum 1),
                   (''prop:rotate'', JNum 0),
                   (''prop:hasMaxWidth'', JBool False),
                   (''prop:comments'', JUndefined),
                   (''prop:color'', JStr ''black''),
                   (''prop:fontFamily'', JStr ''Inter''),
                   (''prop:fontStyle'', JStr ''normal''),
                   (''prop:fontWeight'', JStr ''regular''),
                   (''prop:textAlign'', JStr ''left'')],
                  None)
             | Note \<Rightarrow>
                 (''affine:note'',
                  [(''prop:xywh'', JStr (xywh (n_width normalized) (n_height normalized))),
                   (''prop:background'', JStr (n_background normalized)),
                   (''prop:index'', JStr ''a0''),
                   (''prop:lockedBySelf'', JBool False),
                   (''prop:hidden'', JBool False),
                   (''prop:displayMode'', JStr ''both''),
                   (''prop:edgeless'',
                      YMap (sets [(''style'',
                                     YMap (sets [(''borderRadius'', JNum 8),
                                                 (''borderSize'', JNum 1),
                                                 (''borderStyle'', JStr ''solid''),
                                                 (''shadowType'', JStr ''none'')] []))] [])),
                   (''prop:comments'', JUndefined)],
                  None));
          block =
            sets ([(''sys:parent'', JStr parentId), (''sys:children'', YArray [])] @ props)
                 (setSysFields [] blockId flavour)
      in (\<lparr>cb_blockId = blockId, cb_block = block, cb_flavour = flavour,
            cb_blockType = blockType\<rparr>, s2))"

section \<open>Sync Transport\<close>

text \<open>
  A request is acknowledged by the server or runs into its timeout. An acknowledgment
  carries an optional error (with optional name and message) and optional data; \<open>NoAck\<close>
  is the case where the timer fires first. What the server answers is given to a handler
  as a value of type \<open>server\<close>: the outcome of the connection attempt, the answer to the
  join, and the answer to the k-th load and the k-th push of the call. A handler returns
  its result together with the network events it issued, in order.
\<close>

datatype ack_error = AckError (e_name: "string option") (e_message: "string option")

datatype 'a ack = NoAck | Ack "ack_error option" "'a option"

record Snapshot =
  snap_missing :: "string option"
  snap_state :: "string option"
  snap_timestamp :: "int option"

record PushData =
  pd_timestamp :: "int option"

datatype connect_outcome = Connected | ConnectTimedOut | ConnectRefused string

record server =
  sv_connect :: connect_outcome
  sv_join :: "unit ack"
  sv_load :: "nat \<Rightarrow> Snapshot ack"
  sv_push :: "nat \<Rightarrow> PushData ack"

record ydoc =
  d_blocks :: ymap
  d_meta :: ymap

text \<open>
  What a push carries: \<^verbatim>\<open>Y.encodeStateAsUpdate(doc, prevSV)\<close> is determined by the
  document as it was when the state vector was taken and the document as it is now.
\<close>

record Delta =
  delta_since :: ydoc
  delta_now :: ydoc

datatype net_event =
    EvConnect
  | EvJoin string
  | EvLoadDoc string string
  | EvPushDocUpdate string string Delta
  | EvDeleteDoc string string
  | EvDisconnect

text \<open>
  The platform: the URL parser, the random identifiers, the clock (one reading per place
  in the code that reads it) and Yjs's decoder, which gives the document a base64 update
  describes, or nothing when it throws.
\<close>

record platform =
  pf_urlParses :: "string \<Rightarrow> bool"
  pf_ids :: "nat \<Rightarrow> string"
  pf_now :: "nat \<Rightarrow> int"
  pf_applyUpdate :: "string \<Rightarrow> ydoc option"

definition emptyDoc :: ydoc where
  "emptyDoc = \<lparr>d_blocks = [], d_meta = []\<rparr>"

definition emptySnapshot :: Snapshot where
  "emptySnapshot = \<lparr>snap_missing = None, snap_state = None, snap_timestamp = None\<rparr>"

text \<open>\<^verbatim>\<open>ack.error.message || fallback\<close>.\<close>

definition messageOr :: "ack_error \<Rightarrow> string \<Rightarrow> string" where
  "messageOr e fallback = (case e_message e of Some (c # cs) \<Rightarrow> c # cs | _ \<Rightarrow> fallback)"

definition connectWorkspaceSocket :: "connect_outcome \<Rightarrow> error + unit" where
  "connectWorkspaceSocket outcome =
     (case outcome of
        Connected \<Rightarrow> Inr ()
      | ConnectTimedOut \<Rightarrow> Inl (Net ConnectTimeout)
      | ConnectRefused err \<Rightarrow> Inl (Net (ConnectError err)))"

definition joinWorkspace :: "unit ack \<Rightarrow> error + unit" where
  "joinWorkspace a =
     (case a of
        NoAck \<Rightarrow> Inl (Net JoinTimeout)
      | Ack (Some e) d \<Rightarrow> Inl (Net (JoinFailed (messageOr e ''join failed'')))
      | Ack None d \<Rightarrow> Inr ())"

definition loadDoc :: "Snapshot ack \<Rightarrow> error + Snapshot" where
  "loadDoc a =
     (case a of
        NoAck \<Rightarrow> Inl (Net LoadTimeout)
      | Ack (Some e) d \<Rightarrow>
          (if e_name e = Some ''DOC_NOT_FOUND'' then Inr emptySnapshot
           else Inl (Net (LoadFailed (messageOr e ''load-doc failed''))))
      | Ack None d \<Rightarrow> Inr (orElse d emptySnapshot))"

definition pushDocUpdate :: "PushData ack \<Rightarrow> int \<Rightarrow> error + int" where
  "pushDocUpdate a now =
     (case a of
        NoAck \<Rightarrow> Inl (Net PushTimeout)
      | Ack (Some e) d \<Rightarrow> Inl (Net (PushFailed (messageOr e ''push-doc-update failed'')))
      | Ack None d \<Rightarrow>
          (case d of
             None \<Rightarrow> Inr now
           | Some data \<Rightarrow>
               (case pd_timestamp data of
                  None \<Rightarrow> Inr now
                | Some t \<Rightarrow> Inr (if t = 0 then now else t))))"

text \<open>
  \<^verbatim>\<open>const doc = new Y.Doc(); if (snapshot.missing) Y.applyUpdate(doc, ...)\<close>.
\<close>

definition docOfSnapshot :: "platform \<Rightarrow> Snapshot \<Rightarrow> error + ydoc" where
  "docOfSnapshot pf snapshot =
     (case snap_missing snapshot of
        Some (c # cs) \<Rightarrow>
          (case pf_applyUpdate pf (c # cs) of
             None \<Rightarrow> Inl UpdateDecodeFailed
           | Some doc \<Rightarrow> Inr doc)
      | _ \<Rightarrow> Inr emptyDoc)"

text \<open>\<^verbatim>\<open>parsed.workspaceId || defaults.workspaceId\<close>.\<close>

definition workspaceOf :: "string option \<Rightarrow> string option \<Rightarrow> string option" where
  "workspaceOf given dflt =
     (if truthy_str given then given else if truthy_str dflt then dflt else None)"

text \<open>
  A handler connects, runs its body inside \<^verbatim>\<open>try\<close> and disconnects in
  \<^verbatim>\<open>finally\<close>. A connection attempt that fails disconnects the socket itself.
\<close>

definition withSocket ::
  "server \<Rightarrow> ((error + 'a) \<times> net_event list) \<Rightarrow> (error + 'a) \<times> net_event list" where
  "withSocket sv body =
     (case connectWorkspaceSocket (sv_connect sv) of
        Inl e \<Rightarrow> (Inl e, [EvConnect, EvDisconnect])
      | Inr u \<Rightarrow> (fst body, [EvConnect] @ snd body @ [EvDisconnect]))"

section \<open>Mutation Orchestrator\<close>

subsection \<open>append\_block\<close>

record AppendResult =
  ar_appended :: bool
  ar_blockId :: string
  ar_flavour :: string
  ar_blockType :: "string option"
  ar_normalizedType :: block_type
  ar_legacyType :: "legacy_type option"

text \<open>
  \<^verbatim>\<open>children.push([blockId])\<close> or \<^verbatim>\<open>children.insert(insertIndex, [blockId])\<close>. The
  index is not negative here: a placement index is checked by \<open>normalizePlacement\<close>
  and a sibling index is a position.
\<close>

definition insertChild :: "jv list \<Rightarrow> int \<Rightarrow> string \<Rightarrow> jv list" where
  "insertChild children insertIndex blockId =
     (if insertIndex \<ge> int (length children) then children @ [JStr blockId]
      else take (nat insertIndex) children @ [JStr blockId] @ drop (nat insertIndex) children)"

text \<open>
  \<^verbatim>\<open>blocks.set(blockId, block)\<close>, then the insertion into the child array the context
  refers to. That array belongs to the parent block the context holds, which is the
  block stored under the parent id unless the new block has just been stored under that
  very id; then the array no longer belongs to the document.
\<close>

definition linkBlock :: "InsertContext \<Rightarrow> string \<Rightarrow> ymap \<Rightarrow> ymap \<Rightarrow> ymap" where
  "linkBlock context blockId block blocks =
     (let blocks1 = ymap_set blockId (YMap block) blocks;
          children1 = insertChild (c_children context) (c_insertIndex context) blockId
      in if blockId = c_parentId context then blocks1
         else ymap_set (c_parentId context)
                (YMap (ymap_set ''sys:children'' (YArray children1) (c_parentBlock context)))
                blocks1)"

text \<open>The statements of \<^verbatim>\<open>appendBlockInternal\<close> between the load and the push.\<close>

definition appendToBlocks ::
  "(nat \<Rightarrow> string) \<Rightarrow> NormalizedAppendBlockInput \<Rightarrow> mem \<Rightarrow> (error + AppendResult) \<times> mem" where
  "appendToBlocks ids normalized s =
     (case resolveInsertContext ids normalized s of
        (Inl e, s1) \<Rightarrow> (Inl e, s1)
      | (Inr context, s1) \<Rightarrow>
          (let (created, s2) = createBlock ids (c_parentId context) normalized s1
           in (Inr \<lparr>ar_appended = True, ar_blockId = cb_blockId created,
                     ar_flavour = cb_flavour created, ar_blockType = cb_blockType created,
                     ar_normalizedType = n_type normalized,
                     ar_legacyType = n_legacyType normalized\<rparr>,
               s2\<lparr>m_blocks := linkBlock context (cb_blockId created) (cb_block created) (m_blocks s2)\<rparr>)))"

definition appendBlockBody ::
  "platform \<Rightarrow> server \<Rightarrow> string \<Rightarrow> NormalizedAppendBlockInput
     \<Rightarrow> (error + AppendResult) \<times> net_event list" where
  "appendBlockBody pf sv workspaceId normalized =
     (let join = [EvJoin workspaceId];
          load = join @ [EvLoadDoc workspaceId (n_docId normalized)]
      in case joinWorkspace (sv_join sv) of
           Inl e \<Rightarrow> (Inl e, join)
         | Inr u \<Rightarrow>
             (case loadDoc (sv_load sv 0) of
                Inl e \<Rightarrow> (Inl e, load)
              | Inr snapshot \<Rightarrow>
                  (case docOfSnapshot pf snapshot of
                     Inl e \<Rightarrow> (Inl e, load)
                   | Inr doc \<Rightarrow>
                       (case appendToBlocks (pf_ids pf) normalized
                               \<lparr>m_blocks = d_blocks doc, m_next = 0\<rparr> of
                          (Inl e, s1) \<Rightarrow> (Inl e, load)
                        | (Inr result, s1) \<Rightarrow>
                            (let delta = \<lparr>delta_since = doc,
                                          delta_now = doc\<lparr>d_blocks := m_blocks s1\<rparr>\<rparr>;
                                 push = load @ [EvPushDocUpdate workspaceId (n_docId normalized) delta]
                             in case pushDocUpdate (sv_push sv 0) (pf_now pf 0) of
                                  Inl e \<Rightarrow> (Inl e, push)
                                | Inr t \<Rightarrow> (Inr result, push))))))"

definition appendBlockInternal ::
  "platform \<Rightarrow> string option \<Rightarrow> server \<Rightarrow> AppendBlockInput
     \<Rightarrow> (error + AppendResult) \<times> net_event list" where
  "appendBlockInternal pf defaultWorkspaceId sv parsed =
     (case normalizeAppendBlockInput (pf_urlParses pf) parsed of
        Inl e \<Rightarrow> (Inl e, [])
      | Inr normalized \<Rightarrow>
          (case workspaceOf (n_workspaceId normalized) defaultWorkspaceId of
             None \<Rightarrow> (Inl WorkspaceIdRequired, [])
           | Some workspaceId \<Rightarrow>
               withSocket sv (appendBlockBody pf sv workspaceId normalized)))"

subsection \<open>create\_doc and delete\_doc\<close>

text \<open>
  The workspace root document keeps the catalog of pages under \<^verbatim>\<open>meta.pages\<close>, which
  the source declares as a shared array of shared maps or nothing. A value that is
  neither stops the model with a type error; entries that are not shared maps are passed
  over, as the guard \<^verbatim>\<open>m.get &&\<close> does.
\<close>

definition js_truthy :: "jv \<Rightarrow> bool" where
  "js_truthy v =
     (case v of
        JUndefined \<Rightarrow> False
      | JNull \<Rightarrow> False
      | JBool b \<Rightarrow> b
      | JNum n \<Rightarrow> n \<noteq> 0
      | JStr x \<Rightarrow> x \<noteq> []
      | _ \<Rightarrow> True)"

definition titleOr :: "string option \<Rightarrow> string" where
  "titleOr title = (case title of Some (c # cs) \<Rightarrow> c # cs | _ \<Rightarrow> ''Untitled'')"

definition addPageEntry :: "ymap \<Rightarrow> ymap \<Rightarrow> error + ymap" where
  "addPageEntry wsMeta entry =
     (case ymap_get wsMeta ''pages'' of
        YArray pages \<Rightarrow> Inr (ymap_set ''pages'' (YArray (pages @ [YMap entry])) wsMeta)
      | v \<Rightarrow>
          (if js_truthy v then Inl TypeError
           else Inr (ymap_set ''pages'' (YArray [YMap entry]) wsMeta)))"



record CreateDocInput =
  cd_workspaceId :: "string option"
  cd_title :: "string option"
  cd_content :: "string option"

record CreateDocResult =
  cr_docId :: string
  cr_title :: string

text \<open>
  The document \<^verbatim>\<open>createDocHandler\<close> builds. The page and the note are stored in the map
  before their child arrays are filled; a map holds its values by reference, so what the
  map holds in the end is each block as it finally is, stored in the order of the
  \<^verbatim>\<open>blocks.set\<close> statements.
\<close>

definition newDocument :: "platform \<Rightarrow> CreateDocInput \<Rightarrow> string \<times> ydoc" where
  "newDocument pf parsed =
     (let ids = pf_ids pf;
          docId = ids 0;
          pageId = ids 1;
          surfaceId = ids 2;
          noteId = ids 3;
          paraId = ids 4;
          hasContent = truthy_str (cd_content parsed);
          page =
            sets [(''prop:title'', YText (titleOr (cd_title parsed))),
                  (''sys:children'', YArray [JStr surfaceId, JStr noteId])]
              (setSysFields [] pageId ''affine:page'');
          surface =
            sets [(''sys:parent'', JStr pageId),
                  (''sys:children'', YArray []),
                  (''prop:elements'',
                     YMap (sets [(''type'', JStr ''$blocksuite:internal:native$''),
                                 (''value'', YMap [])] []))]
              (setSysFields [] surfaceId ''affine:surface'');
          note =
            sets [(''sys:parent'', JStr pageId),
                  (''prop:displayMode'', JStr ''both''),
                  (''prop:xywh'', JStr ''[0,0,800,95]''),
                  (''prop:index'', JStr ''a0''),
                  (''prop:hidden'', JBool False),
                  (''prop:background'',
                     YMap (sets [(''light'', JStr ''#ffffff''), (''dark'', JStr ''#252525'')] [])),
                  (''sys:children'', YArray (if hasContent then [JStr paraId] else []))]
              (setSysFields [] noteId ''affine:note'');
          para =
            sets [(''sys:parent'', JStr noteId),
                  (''sys:children'', YArray []),
                  (''prop:type'', JStr ''text''),
                  (''prop:text'', YText (orElse (cd_content parsed) []))]
              (setSysFields [] paraId ''affine:paragraph'');
          blocks =
            sets ([(pageId, YMap page), (surfaceId, YMap surface), (noteId, YMap note)]
                  @ (if hasContent then [(paraId, YMap para)] else [])) [];
          meta =
            sets [(''id'', JStr docId),
                  (''title'', JStr (titleOr (cd_title parsed))),
                  (''createDate'', JNum (pf_now pf 0)),
                  (''tags'', YArray [])] []
      in (docId, \<lparr>d_blocks = blocks, d_meta = meta\<rparr>))"

definition createDocBody ::
  "platform \<Rightarrow> server \<Rightarrow> string \<Rightarrow> CreateDocInput
     \<Rightarrow> (error + CreateDocResult) \<times> net_event list" where
  "createDocBody pf sv workspaceId parsed =
     (let join = [EvJoin workspaceId]
      in case joinWorkspace (sv_join sv) of
           Inl e \<Rightarrow> (Inl e, join)
         | Inr u \<Rightarrow>
             (let (docId, ydoc) = newDocument pf parsed;
                  push1 = join @ [EvPushDocUpdate workspaceId docId
                                    \<lparr>delta_since = emptyDoc, delta_now = ydoc\<rparr>]
              in case pushDocUpdate (sv_push sv 0) (pf_now pf 1) of
                   Inl e \<Rightarrow> (Inl e, push1)
                 | Inr t \<Rightarrow>
                     (let load = push1 @ [EvLoadDoc workspaceId workspaceId]
                      in case loadDoc (sv_load sv 0) of
                           Inl e \<Rightarrow> (Inl e, load)
                         | Inr snapshot \<Rightarrow>
                             (case docOfSnapshot pf snapshot of
                                Inl e \<Rightarrow> (Inl e, load)
                              | Inr wsDoc \<Rightarrow>
                                  (let entry =
                                         sets [(''id'', JStr docId),
                                               (''title'', JStr (titleOr (cd_title parsed))),
                                               (''createDate'', JNum (pf_now pf 2)),
                                               (''tags'', YArray [])] []
                                   in case addPageEntry (d_meta wsDoc) entry of
                                        Inl e \<Rightarrow> (Inl e, load)
                                      | Inr wsMeta \<Rightarrow>
                                          (let wsDelta = \<lparr>delta_since = wsDoc,
                                                          delta_now = wsDoc\<lparr>d_meta := wsMeta\<rparr>\<rparr>;
                                               push2 = load @ [EvPushDocUpdate workspaceId workspaceId wsDelta]
                                           in case pushDocUpdate (sv_push sv 1) (pf_now pf 3) of
                                                Inl e \<Rightarrow> (Inl e, push2)
                                              | Inr t2 \<Rightarrow>
                                                  (Inr \<lparr>cr_docId = docId,
                                                        cr_title = titleOr (cd_title parsed)\<rparr>,
                                                   push2)))))))"

definition createDocHandler ::
  "platform \<Rightarrow> string option \<Rightarrow> server \<Rightarrow> CreateDocInput
     \<Rightarrow> (error + CreateDocResult) \<times> net_event list" where
  "createDocHandler pf defaultWorkspaceId sv parsed =
     (case workspaceOf (cd_workspaceId parsed) defaultWorkspaceId of
        None \<Rightarrow> (Inl WorkspaceIdRequired, [])
      | Some workspaceId \<Rightarrow> withSocket sv (createDocBody pf sv workspaceId parsed))"

record DocRef =
  dr_workspaceId :: "string option"
  dr_docId :: string



subsection \<open>read\_doc\<close>

record BlockRow =
  br_id :: string
  br_parentId :: "string option"
  br_flavour :: "string option"
  br_type :: "string option"
  br_text :: "string option"
  br_checked :: "bool option"
  br_language :: "string option"
  br_childIds :: "string list"

record ReadAcc =
  ra_visited :: "string list"
  ra_rows :: "BlockRow list"
  ra_lines :: "string list"
  ra_title :: string

record ReadResult =
  rd_docId :: string
  rd_title :: "string option"
  rd_exists :: bool
  rd_blockCount :: nat
  rd_blocks :: "BlockRow list"
  rd_plainText :: string

definition asText :: "jv \<Rightarrow> string" where
  "asText v = (case v of YText x \<Rightarrow> x | JStr x \<Rightarrow> x | _ \<Rightarrow> [])"

definition strOf :: "jv \<Rightarrow> string option" where
  "strOf v = (case v of JStr x \<Rightarrow> Some x | _ \<Rightarrow> None)"

definition boolOf :: "jv \<Rightarrow> bool option" where
  "boolOf v = (case v of JBool b \<Rightarrow> Some b | _ \<Rightarrow> None)"

fun entryIds :: "jv \<Rightarrow> string list" where
  "entryIds (JStr entry) = [entry]"
| "entryIds (JArr entry) = concat (map (\<lambda>child. case child of JStr x \<Rightarrow> [x] | _ \<Rightarrow> []) entry)"
| "entryIds _ = []"

definition childIdsFrom :: "jv \<Rightarrow> string list" where
  "childIdsFrom v = (case v of YArray entries \<Rightarrow> concat (map entryIds entries) | _ \<Rightarrow> [])"

text \<open>What \<^verbatim>\<open>visit\<close> records for a block that is a shared map.\<close>

definition visitBlock :: "string \<Rightarrow> ymap \<Rightarrow> ReadAcc \<Rightarrow> ReadAcc" where
  "visitBlock blockId raw acc =
     (let textValue = asText (ymap_get raw ''prop:text'')
      in \<lparr>ra_visited = blockId # ra_visited acc,
          ra_rows = ra_rows acc @
            [\<lparr>br_id = blockId,
              br_parentId = strOf (ymap_get raw ''sys:parent''),
              br_flavour = strOf (ymap_get raw ''sys:flavour''),
              br_type = strOf (ymap_get raw ''prop:type''),
              br_text = (if textValue = [] then None else Some textValue),
              br_checked = boolOf (ymap_get raw ''prop:checked''),
              br_language = strOf (ymap_get raw ''prop:language''),
              br_childIds = childIdsFrom (ymap_get raw ''sys:children'')\<rparr>],
          ra_lines = (if textValue = [] then ra_lines acc else ra_lines acc @ [textValue]),
          ra_title =
            (if ymap_get raw ''sys:flavour'' = JStr ''affine:page''
                \<and> asText (ymap_get raw ''prop:title'') \<noteq> []
             then asText (ymap_get raw ''prop:title'') else ra_title acc)\<rparr>)"

text \<open>
  The recursive \<^verbatim>\<open>visit\<close> walks the tree in preorder and skips what it has seen. The
  same walk with the blocks still to visit kept on a list: the children of a block go in
  front of that list.
\<close>

function visitAll :: "ymap \<Rightarrow> string list \<Rightarrow> ReadAcc \<Rightarrow> ReadAcc" where
  "visitAll blocks [] acc = acc"
| "visitAll blocks (blockId # todo) acc =
     (if blockId \<in> set (ra_visited acc) then visitAll blocks todo acc
      else if findBlockById blocks blockId = None
        then visitAll blocks todo (acc\<lparr>ra_visited := blockId # ra_visited acc\<rparr>)
      else visitAll blocks
             (childIdsFrom (ymap_get (the (findBlockById blocks blockId)) ''sys:children'') @ todo)
             (visitBlock blockId (the (findBlockById blocks blockId)) acc))"
  by pat_completeness auto

termination visitAll
proof (relation "inv_image (less_than <*lex*> less_than)
         (\<lambda>(blocks, todo, acc). (card (fst ` set blocks - set (ra_visited acc)), length todo))",
       goal_cases)
  case 1
  show ?case by (intro wf_inv_image wf_lex_prod wf_less_than)
next
  case (2 blocks blockId todo acc)
  then show ?case by simp
next
  case (3 blocks blockId todo acc)
  have "card (fst ` set blocks - insert blockId (set (ra_visited acc)))
          \<le> card (fst ` set blocks - set (ra_visited acc))"
    by (rule card_mono) auto
  then show ?case by auto
next
  case (4 blocks blockId todo acc)
  have key: "blockId \<in> fst ` set blocks"
    using 4(2)
    by (force simp: findBlockById_def ymap_get_def split: option.splits jv.splits
          dest: map_of_SomeD)
  from 4 have unseen: "blockId \<notin> set (ra_visited acc)" by simp
  have "fst ` set blocks - insert blockId (set (ra_visited acc))
          \<subset> fst ` set blocks - set (ra_visited acc)"
    using key unseen by auto
  then have "card (fst ` set blocks - insert blockId (set (ra_visited acc)))
          < card (fst ` set blocks - set (ra_visited acc))"
    by (intro psubset_card_mono) auto
  then show ?case by (simp add: visitBlock_def Let_def)
qed

declare visitAll.simps [simp del]

definition joinLines :: "string list \<Rightarrow> string" where
  "joinLines ls = (case ls of [] \<Rightarrow> [] | l # rest \<Rightarrow> foldl (\<lambda>acc x. acc @ [CHR 0x0A] @ x) l rest)"

definition readDocBody ::
  "platform \<Rightarrow> server \<Rightarrow> string \<Rightarrow> DocRef \<Rightarrow> (error + ReadResult) \<times> net_event list" where
  "readDocBody pf sv workspaceId parsed =
     (let join = [EvJoin workspaceId];
          load = join @ [EvLoadDoc workspaceId (dr_docId parsed)]
      in case joinWorkspace (sv_join sv) of
           Inl e \<Rightarrow> (Inl e, join)
         | Inr u \<Rightarrow>
             (case loadDoc (sv_load sv 0) of
                Inl e \<Rightarrow> (Inl e, load)
              | Inr snapshot \<Rightarrow>
                  (if \<not> truthy_str (snap_missing snapshot) then
                     (Inr \<lparr>rd_docId = dr_docId parsed, rd_title = None, rd_exists = False,
                           rd_blockCount = 0, rd_blocks = [], rd_plainText = []\<rparr>, load)
                   else
                     (case docOfSnapshot pf snapshot of
                        Inl e \<Rightarrow> (Inl e, load)
                      | Inr doc \<Rightarrow>
                          (let blocks = d_blocks doc;
                               pageId = findBlockIdByFlavour blocks ''affine:page'';
                               noteId = findBlockIdByFlavour blocks ''affine:note'';
                               first =
                                 (if truthy_str pageId then [orElse pageId []]
                                  else if truthy_str noteId then [orElse noteId []]
                                  else []);
                               acc = visitAll blocks (first @ map fst blocks)
                                       \<lparr>ra_visited = [], ra_rows = [], ra_lines = [], ra_title = []\<rparr>
                           in (Inr \<lparr>rd_docId = dr_docId parsed,
                                    rd_title = (if ra_title acc = [] then None else Some (ra_title acc)),
                                    rd_exists = True,
                                    rd_blockCount = length (ra_rows acc),
                                    rd_blocks = ra_rows acc,
                                    rd_plainText = joinLines (ra_lines acc)\<rparr>, load))))))"

definition readDocHandler ::
  "platform \<Rightarrow> string option \<Rightarrow> server \<Rightarrow> DocRef \<Rightarrow> (error + ReadResult) \<times> net_event list" where
  "readDocHandler pf defaultWorkspaceId sv parsed =
     (case workspaceOf (dr_workspaceId parsed) defaultWorkspaceId of
        None \<Rightarrow> (Inl WorkspaceIdRequired, [])
      | Some workspaceId \<Rightarrow> withSocket sv (readDocBody pf sv workspaceId parsed))"

subsection \<open>Reading a trace\<close>



subsection \<open>Reading a document\<close>

text \<open>The content of the child array of the block stored under an id, if there is one.\<close>

definition childArray :: "ymap \<Rightarrow> string \<Rightarrow> jv list option" where
  "childArray blocks blockId =
     (case findBlockById blocks blockId of
        None \<Rightarrow> None
      | Some block \<Rightarrow>
          (case ymap_get block ''sys:children'' of YArray children \<Rightarrow> Some children | _ \<Rightarrow> None))"

text \<open>
  The parent a block records, and the sibling index of a block among the children of
  another: the position \<open>indexOfChild\<close> finds it at.
\<close>

definition parentOf :: "ymap \<Rightarrow> string \<Rightarrow> jv option" where
  "parentOf blocks blockId =
     (case findBlockById blocks blockId of
        None \<Rightarrow> None
      | Some block \<Rightarrow> Some (ymap_get block ''sys:parent''))"

definition siblingIndex :: "ymap \<Rightarrow> string \<Rightarrow> string \<Rightarrow> int option" where
  "siblingIndex blocks parentId blockId =
     (case childArray blocks parentId of
        None \<Rightarrow> None
      | Some children \<Rightarrow> Some (indexOfChild children blockId))"

subsection \<open>Well-formed documents and the implicit parent\<close>

text \<open>
  A document is well formed when its keys are distinct and every block is stored under
  its own id, which is not empty. The implicit parent of a kind in the words of the
  specification: a frame or an edgeless text goes under the surface, a note under the
  page, everything else under the note.
\<close>

definition wellFormedBlocks :: "ymap \<Rightarrow> bool" where
  "wellFormedBlocks blocks =
     (distinct (map fst blocks)
      \<and> list_all (\<lambda>(k, v). case v of
                               YMap block \<Rightarrow> ymap_get block ''sys:id'' = JStr k \<and> k \<noteq> []
                             | _ \<Rightarrow> True) blocks)"

definition implicitFlavour :: "block_type \<Rightarrow> string" where
  "implicitFlavour t =
     (if t = Frame \<or> t = EdgelessText then ''affine:surface''
      else if t = Note then ''affine:page''
      else ''affine:note'')"

section \<open>Example documents and servers\<close>

text \<open>
  Concrete values on which the theorems below are exercised: a document with a page, a
  surface and a note holding two paragraphs (the second under the legacy array encoding
  of a child entry), a platform whose identifiers are \<^verbatim>\<open>new0\<close>, \<^verbatim>\<open>new1\<close>, ... and
  servers that answer in a fixed way.
\<close>

definition exampleBlocks :: ymap where
  "exampleBlocks =
     [(''page1'', YMap [(''sys:id'', JStr ''page1''), (''sys:flavour'', JStr ''affine:page''),
                        (''sys:version'', JNum 2),
                        (''sys:children'', YArray [JStr ''surf1'', JStr ''note1''])]),
      (''surf1'', YMap [(''sys:id'', JStr ''surf1''), (''sys:flavour'', JStr ''affine:surface''),
                        (''sys:version'', JNum 5), (''sys:parent'', JStr ''page1''),
                        (''sys:children'', YArray [])]),
      (''note1'', YMap [(''sys:id'', JStr ''note1''), (''sys:flavour'', JStr ''affine:note''),
                        (''sys:version'', JNum 1), (''sys:parent'', JStr ''page1''),
                        (''sys:children'', YArray [JStr ''para1'', JArr [JStr ''para2'']])]),
      (''para1'', YMap [(''sys:id'', JStr ''para1''), (''sys:flavour'', JStr ''affine:paragraph''),
                        (''sys:version'', JNum 1), (''sys:parent'', JStr ''note1''),
                        (''sys:children'', YArray []), (''prop:type'', JStr ''text''),
                        (''prop:text'', YText ''one'')]),
      (''para2'', YMap [(''sys:id'', JStr ''para2''), (''sys:flavour'', JStr ''affine:paragraph''),
                        (''sys:version'', JNum 1), (''sys:parent'', JStr ''note1''),
                        (''sys:children'', YArray []), (''prop:type'', JStr ''text''),
                        (''prop:text'', YText ''two'')])]"

definition exampleDoc :: ydoc where
  "exampleDoc = \<lparr>d_blocks = exampleBlocks, d_meta = [(''id'', JStr ''doc1'')]\<rparr>"

definition examplePlatform :: platform where
  "examplePlatform =
     \<lparr>pf_urlParses = (\<lambda>u. True),
      pf_ids = (\<lambda>k. ''new'' @ show_nat k),
      pf_now = (\<lambda>k. 1700000000000 + int k),
      pf_applyUpdate = (\<lambda>b. if b = ''AAAA'' then Some exampleDoc else None)\<rparr>"

definition notFoundAck :: "Snapshot ack" where
  "notFoundAck = Ack (Some (AckError (Some ''DOC_NOT_FOUND'') (Some ''Doc not found''))) None"

definition serverWithoutDoc :: server where
  "serverWithoutDoc =
     \<lparr>sv_connect = Connected, sv_join = Ack None None,
      sv_load = (\<lambda>k. notFoundAck),
      sv_push = (\<lambda>k. Ack None (Some \<lparr>pd_timestamp = Some 1700000000001\<rparr>))\<rparr>"

definition plainRequest :: AppendBlockInput where
  "plainRequest =
     \<lparr>r_workspaceId = Some ''ws1'', r_docId = ''doc1'', r_type = ''paragraph'',
      r_text = None, r_url = None, r_pageId = None, r_iframeUrl = None, r_html = None,
      r_design = None, r_reference = None, r_refFlavour = None, r_width = None,
      r_height = None, r_background = None, r_sourceId = None, r_name = None,
      r_mimeType = None, r_size = None, r_embed = None, r_rows = None, r_columns = None,
      r_latex = None, r_checked = None, r_language = None, r_caption = None, r_level = None,
      r_style = None, r_bookmarkStyle = None, r_strict = None, r_placement = None\<rparr>"

definition bothSidesPlacement :: AppendPlacement where
  "bothSidesPlacement =
     \<lparr>p_parentId = None, p_afterBlockId = Some ''para1'', p_beforeBlockId = Some ''para2'',
      p_index = None\<rparr>"

definition afterWithIndexPlacement :: AppendPlacement where
  "afterWithIndexPlacement =
     \<lparr>p_parentId = None, p_afterBlockId = Some ''para1'', p_beforeBlockId = None,
      p_index = Some 0\<rparr>"



definition paragraphKind :: TypeInfo where
  "paragraphKind = \<lparr>ti_type = Paragraph, ti_legacyType = None,
                     ti_headingLevelFromAlias = None, ti_listStyleFromAlias = None\<rparr>"


definition exampleMem :: mem where
  "exampleMem = \<lparr>m_blocks = exampleBlocks, m_next = 0\<rparr>"

definition underPagePlacement :: AppendPlacement where
  "underPagePlacement =
     \<lparr>p_parentId = Some ''page1'', p_afterBlockId = None, p_beforeBlockId = None,
      p_index = None\<rparr>"

definition paragraphUnderPage :: NormalizedAppendBlockInput where
  "paragraphUnderPage =
     normalizedFields (plainRequest\<lparr>r_placement := Some underPagePlacement\<rparr>) paragraphKind
       (Some underPagePlacement)"

definition paragraphAt :: "AppendPlacement \<Rightarrow> NormalizedAppendBlockInput" where
  "paragraphAt pl =
     normalizedFields (plainRequest\<lparr>r_placement := Some pl\<rparr>) paragraphKind (Some pl)"

definition afterBlock :: "string \<Rightarrow> AppendPlacement" where
  "afterBlock r =
     \<lparr>p_parentId = None, p_afterBlockId = Some r, p_beforeBlockId = None, p_index = None\<rparr>"

definition beforeBlock :: "string \<Rightarrow> AppendPlacement" where
  "beforeBlock r =
     \<lparr>p_parentId = None, p_afterBlockId = None, p_beforeBlockId = Some r, p_index = None\<rparr>"

definition exampleNote :: ymap where
  "exampleNote =
     [(''sys:id'', JStr ''note1''), (''sys:flavour'', JStr ''affine:note''),
      (''sys:version'', JNum 1), (''sys:parent'', JStr ''page1''),
      (''sys:children'', YArray [JStr ''para1'', JArr [JStr ''para2'']])]"



definition unplaced :: "block_type \<Rightarrow> NormalizedAppendBlockInput" where
  "unplaced t = normalizedFields plainRequest (paragraphKind\<lparr>ti_type := t\<rparr>) None"

definition examplePage :: ymap where
  "examplePage =
     [(''sys:id'', JStr ''page1''), (''sys:flavour'', JStr ''affine:page''),
      (''sys:version'', JNum 2), (''sys:children'', YArray [])]"

definition pageOnlyMem :: mem where
  "pageOnlyMem = \<lparr>m_blocks = [(''page1'', YMap examplePage)], m_next = 0\<rparr>"

definition emptyMem :: mem where
  "emptyMem = \<lparr>m_blocks = [], m_next = 0\<rparr>"

section \<open>Basic facts about shared maps\<close>

lemma ymap_get_set: "ymap_get (ymap_set k v m) k' = (if k' = k then v else ymap_get m k')"
  by (simp add: ymap_get_def ymap_set_def update_conv')

lemma ymap_set_same: "map_of m k = Some v \<Longrightarrow> ymap_set k v m = m"
  by (simp add: ymap_set_def update_triv)

lemma findBlockById_set:
  "findBlockById (ymap_set k v m) k' =
     (if k' = k then (case v of YMap b \<Rightarrow> Some b | _ \<Rightarrow> None) else findBlockById m k')"
  by (simp add: findBlockById_def ymap_get_set)

lemma findBlockById_map_of:
  "findBlockById m k = Some b \<longleftrightarrow> map_of m k = Some (YMap b)"
  by (auto simp: findBlockById_def ymap_get_def split: option.splits jv.splits)

lemma createBlock_database:
  "createBlock ids parentId (normalized\<lparr>n_type := Database\<rparr>) s =
     (\<lparr>cb_blockId = ids (m_next s),
       cb_block =
         [(''sys:id'', JStr (ids (m_next s))),
          (''sys:flavour'', JStr ''affine:database''),
          (''sys:version'', JNum 1),
          (''sys:parent'', JStr parentId),
          (''sys:children'', YArray []),
          (''prop:views'', YArray []),
          (''prop:title'', YText (n_text normalized)),
          (''prop:cells'', YMap []),
          (''prop:columns'', YArray []),
          (''prop:comments'', JUndefined)],
       cb_flavour = ''affine:database'',
       cb_blockType = None\<rparr>,
      s\<lparr>m_next := Suc (m_next s)\<rparr>)"
  by (simp add: createBlock_def generateId_def Let_def sets_def setSysFields_def ymap_set_def
        blockVersion_def makeText_def)

lemma createBlock_data_view:
  "createBlock ids parentId (normalized\<lparr>n_type := DataView\<rparr>) s =
     (\<lparr>cb_blockId = ids (m_next s),
       cb_block =
         [(''sys:id'', JStr (ids (m_next s))),
          (''sys:flavour'', JStr ''affine:database''),
          (''sys:version'', JNum 1),
          (''sys:parent'', JStr parentId),
          (''sys:children'', YArray []),
          (''prop:views'', YArray []),
          (''prop:title'', YText (n_text normalized)),
          (''prop:cells'', YMap []),
          (''prop:columns'', YArray []),
          (''prop:comments'', JUndefined)],
       cb_flavour = ''affine:database'',
       cb_blockType = Some ''data_view_fallback''\<rparr>,
      s\<lparr>m_next := Suc (m_next s)\<rparr>)"
  by (simp add: createBlock_def generateId_def Let_def sets_def setSysFields_def ymap_set_def
        blockVersion_def makeText_def)

lemma resolveParent_data_view:
  "resolveParent ids (normalized\<lparr>n_type := DataView\<rparr>) s
     = resolveParent ids (normalized\<lparr>n_type := Database\<rparr>) s"
  by (simp add: resolveParent_def implicitParent_def
        split: sum.splits option.splits list.splits prod.splits)

lemma resolveIndex_type:
  "resolveIndex (normalized\<lparr>n_type := t\<rparr>) target parentId children
     = resolveIndex normalized target parentId children"
  by (simp add: resolveIndex_def)

lemma resolveInsertContext_data_view:
  "snd (resolveInsertContext ids (normalized\<lparr>n_type := DataView\<rparr>) s)
     = snd (resolveInsertContext ids (normalized\<lparr>n_type := Database\<rparr>) s)
   \<and> (\<forall>c. (fst (resolveInsertContext ids (normalized\<lparr>n_type := DataView\<rparr>) s) = Inr c)
          = (fst (resolveInsertContext ids (normalized\<lparr>n_type := Database\<rparr>) s) = Inr c))"
  by (auto simp: resolveInsertContext_def resolveParent_data_view resolveIndex_type
        checkContainment_def Let_def
      split: prod.splits sum.splits option.splits if_splits)

section \<open>Facts about normalization\<close>

lemmas check_defs =
  checkLevel_def checkList_def checkCode_def checkDivider_def checkUrl_def checkBookmark_def
  checkMedia_def checkLatex_def checkPageId_def checkHtml_def checkIframe_def
  checkSurfaceRef_def checkWidthHeight_def checkBackground_def checkTable_def

lemmas string_defs =
  js_lower_def js_trim_def is_space_def lower_char_def char_of_def bit_0

lemmas type_tables =
  APPEND_BLOCK_CANONICAL_TYPE_VALUES_def APPEND_BLOCK_LEGACY_ALIAS_MAP_def
  APPEND_BLOCK_LIST_STYLE_VALUES_def APPEND_BLOCK_BOOKMARK_STYLE_VALUES_def

lemma nf_simps:
  "n_type (normalizedFields parsed ti pl) = ti_type ti"
  "n_strict (normalizedFields parsed ti pl) = (r_strict parsed \<noteq> Some False)"
  "n_placement (normalizedFields parsed ti pl) = pl"
  "n_docId (normalizedFields parsed ti pl) = r_docId parsed"
  "n_workspaceId (normalizedFields parsed ti pl) = r_workspaceId parsed"
  "n_listStyle (normalizedFields parsed ti pl)
     = orElse (ti_listStyleFromAlias ti) (orElse (r_style parsed) ''bulleted'')"
  "n_headingLevel (normalizedFields parsed ti pl)
     = max 1 (min 6 (orElse (r_level parsed) (orElse (ti_headingLevelFromAlias ti) 1)))"
  "n_sourceId (normalizedFields parsed ti pl) = js_trim (orElse (r_sourceId parsed) [])"
  "n_name (normalizedFields parsed ti pl) = trimmedOr (r_name parsed) ''attachment''"
  "n_mimeType (normalizedFields parsed ti pl)
     = trimmedOr (r_mimeType parsed) ''application/octet-stream''"
  "n_legacyType (normalizedFields parsed ti pl) = ti_legacyType ti"
  by (simp_all add: normalizedFields_def Let_def)

lemma normalize_Inr:
  assumes "normalizeAppendBlockInput u parsed = Inr n"
  shows "\<exists>ti pl. normalizeBlockTypeInput (r_type parsed) = Inr ti
           \<and> normalizePlacement (r_placement parsed) = Inr pl
           \<and> n = normalizedFields parsed ti pl
           \<and> validateNormalizedAppendBlockInput u n parsed = None"
  using assms
  by (auto simp: normalizeAppendBlockInput_def Let_def split: sum.splits option.splits)

lemma alias_list_type:
  assumes "normalizeBlockTypeInput x = Inr ti" and "ti_listStyleFromAlias ti = Some st"
  shows "ti_type ti = List"
  using assms
  by (auto simp: normalizeBlockTypeInput_def Let_def APPEND_BLOCK_LEGACY_ALIAS_MAP_def
        split: option.splits if_splits)

lemma alias_heading_level:
  assumes "normalizeBlockTypeInput x = Inr ti" and "ti_headingLevelFromAlias ti = Some al"
  shows "al \<in> {1, 2, 3}"
  using assms
  by (auto simp: normalizeBlockTypeInput_def Let_def APPEND_BLOCK_LEGACY_ALIAS_MAP_def
        split: option.splits if_splits)

lemma validate_ignores_style:
  assumes "n_type normalized = List"
  shows "validateNormalizedAppendBlockInput u normalized (raw\<lparr>r_style := explicit\<rparr>)
           = validateNormalizedAppendBlockInput u normalized raw"
  using assms by (simp add: validateNormalizedAppendBlockInput_def check_defs)

lemma fields_ignore_style:
  assumes "ti_listStyleFromAlias ti = Some st"
  shows "normalizedFields (parsed\<lparr>r_style := explicit\<rparr>) ti pl = normalizedFields parsed ti pl"
  using assms by (simp add: normalizedFields_def Let_def orElse_def)

lemmas validate_eval =
  validateNormalizedAppendBlockInput_def check_defs normalizedFields_def plainRequest_def
  orElse_def trimmedOr_def type_tables urlAllowedTypes_def startsWithEmbed_def truthy_str_def
  string_defs

lemma firstError_None: "firstError xs = None \<longleftrightarrow> (\<forall>x \<in> set xs. x = None)"
  by (induction xs rule: firstError.induct) auto

lemma trimmedOr_nonempty: "d \<noteq> [] \<Longrightarrow> trimmedOr x d \<noteq> []"
  by (simp add: trimmedOr_def)

lemma validate_ignores_name_mime:
  assumes "ti_type ti = Attachment"
  shows "validateNormalizedAppendBlockInput u
           (normalizedFields (parsed\<lparr>r_name := nm, r_mimeType := mt\<rparr>) ti pl)
           (parsed\<lparr>r_name := nm, r_mimeType := mt\<rparr>)
         = validateNormalizedAppendBlockInput u (normalizedFields parsed ti pl) parsed"
  using assms
  by (simp add: validateNormalizedAppendBlockInput_def check_defs normalizedFields_def Let_def
        trimmedOr_nonempty)

lemma normalize_isl_media:
  assumes "normalizeBlockTypeInput (r_type parsed) = Inr ti"
    and "ti_type ti = Image \<or> ti_type ti = Attachment"
    and "js_trim (orElse (r_sourceId parsed) []) = []"
  shows "isl (normalizeAppendBlockInput u parsed)"
proof (cases "normalizeAppendBlockInput u parsed")
  case (Inl e)
  then show ?thesis by simp
next
  case (Inr n)
  from normalize_Inr [OF Inr] assms(1) obtain pl where
    n: "n = normalizedFields parsed ti pl" and v: "validateNormalizedAppendBlockInput u n parsed = None"
    by auto
  have "checkMedia n parsed = Some (SourceIdRequired (ti_type ti))"
    using assms(2,3) n by (auto simp: checkMedia_def nf_simps)
  moreover have "checkMedia n parsed = None"
    using v by (simp add: validateNormalizedAppendBlockInput_def firstError_None)
  ultimately show ?thesis by simp
qed


lemma normalize_placement_error:
  assumes "normalizePlacement (r_placement parsed) = Inl e"
  shows "normalizeAppendBlockInput u parsed
           = (case normalizeBlockTypeInput (r_type parsed) of Inl e' \<Rightarrow> Inl e' | Inr ti \<Rightarrow> Inl e)"
  using assms by (simp add: normalizeAppendBlockInput_def split: sum.splits)

section \<open>Facts about the handlers' traces\<close>






lemmas resolve_eval =
  resolveInsertContext_def resolveParent_def resolvePlacement_def implicitParent_def
  ensureNoteBlock_def ensureSurfaceBlock_def referenceParent_def checkContainment_def
  resolveIndex_def ensureChildrenArray_def indexOfChild_def findBlockById_def
  ymap_get_def ymap_set_def truthy_str_def orElse_def Let_def generateId_def
  sets_def setSysFields_def blockVersion_def pushChild_def newNoteBlock_def
  newSurfaceBlock_def







section \<open>Facts about the placement resolver\<close>

lemma checkContainment_iff:
  "(checkContainment f t \<noteq> None) = containmentViolation f t"
  by (auto simp: checkContainment_def containmentViolation_def)

lemma pushChild_flavour:
  "ymap_get (pushChild block x) ''sys:flavour'' = ymap_get block ''sys:flavour''"
  by (simp add: pushChild_def ymap_get_set split: jv.splits)

lemma resolvePlacement_error:
  "resolvePlacement blocks pl = Inl e \<Longrightarrow> \<exists>re. e = Resolve re"
  by (auto simp: resolvePlacement_def referenceParent_def Let_def
      split: option.splits if_splits sum.splits jv.splits list.splits)

lemma ensureNoteBlock_result:
  assumes "ensureNoteBlock ids s = (r, s1)"
  shows "(\<forall>ce. r \<noteq> Inl (Containment ce))
         \<and> (\<forall>pid. r = Inr pid \<longrightarrow>
               s1 = s \<or> (\<exists>pb. findBlockById (m_blocks s1) pid = Some pb
                              \<and> ymap_get pb ''sys:flavour'' = JStr ''affine:note''))"
  using assms
  by (auto simp: ensureNoteBlock_def generateId_def Let_def findBlockById_set pushChild_flavour
        findBlockById_def ymap_get_set
        sets_def setSysFields_def newNoteBlock_def newSurfaceBlock_def
      split: option.splits list.splits jv.splits prod.splits if_splits)


lemma ensureSurfaceBlock_result:
  assumes "ensureSurfaceBlock ids s = (r, s1)"
  shows "(\<forall>ce. r \<noteq> Inl (Containment ce))
         \<and> (\<forall>pid. r = Inr pid \<longrightarrow>
               s1 = s \<or> (\<exists>pb. findBlockById (m_blocks s1) pid = Some pb
                              \<and> ymap_get pb ''sys:flavour'' = JStr ''affine:surface''))"
  using assms
  by (auto simp: ensureSurfaceBlock_def generateId_def Let_def findBlockById_set pushChild_flavour
        findBlockById_def ymap_get_set
        sets_def setSysFields_def newNoteBlock_def newSurfaceBlock_def
      split: option.splits list.splits jv.splits prod.splits if_splits)

lemma implicitParent_result:
  assumes "implicitParent ids t s = (r, s1)"
  shows "(\<forall>ce. r \<noteq> Inl (Containment ce))
         \<and> (\<forall>pid. r = Inr pid \<longrightarrow>
               s1 = s \<or> (\<exists>pb. findBlockById (m_blocks s1) pid = Some pb
                              \<and> checkContainment (ymap_get pb ''sys:flavour'') t = None))"
proof (cases "t = Frame \<or> t = EdgelessText")
  case True
  with assms have "ensureSurfaceBlock ids s = (r, s1)" by (simp add: implicitParent_def)
  moreover have "\<And>pb. ymap_get pb ''sys:flavour'' = JStr ''affine:surface''
      \<Longrightarrow> checkContainment (ymap_get pb ''sys:flavour'') t = None"
    using True by (auto simp: checkContainment_def)
  ultimately show ?thesis
    using ensureSurfaceBlock_result [of ids s r s1] by blast
next
  case False
  show ?thesis
  proof (cases "t = Note")
    case True
    with assms show ?thesis
      by (auto simp: implicitParent_def split: option.splits list.splits)
  next
    case notNote: False
    with False assms have "ensureNoteBlock ids s = (r, s1)" by (simp add: implicitParent_def)
    moreover have "\<And>pb. ymap_get pb ''sys:flavour'' = JStr ''affine:note''
        \<Longrightarrow> checkContainment (ymap_get pb ''sys:flavour'') t = None"
      using False notNote by (auto simp: checkContainment_def)
    ultimately show ?thesis
      using ensureNoteBlock_result [of ids s r s1] by blast
  qed
qed

lemma resolveParent_result:
  assumes "resolveParent ids n s = (r, s1)"
  shows "(\<forall>ce. r \<noteq> Inl (Containment ce))
         \<and> (\<forall>target pid. r = Inr (target, pid) \<longrightarrow>
               s1 = s \<or> (\<exists>pb. findBlockById (m_blocks s1) pid = Some pb
                              \<and> checkContainment (ymap_get pb ''sys:flavour'') (n_type n) = None))"
proof (cases "resolvePlacement (m_blocks s) (n_placement n)")
  case (Inl e)
  with assms resolvePlacement_error [OF Inl] show ?thesis
    by (auto simp: resolveParent_def)
next
  case (Inr target)
  show ?thesis
  proof (cases "\<exists>c cs. t_parentId target = Some (c # cs)")
    case True
    with assms Inr show ?thesis by (auto simp: resolveParent_def)
  next
    case False
    obtain r' s' where ip: "implicitParent ids (n_type n) s = (r', s')"
      by (cases "implicitParent ids (n_type n) s")
    from False assms Inr ip have "r = map_sum id (Pair target) r' \<and> s1 = s'"
      by (auto simp: resolveParent_def split: option.splits list.splits sum.splits)
    with implicitParent_result [OF ip] show ?thesis
      by (cases r') auto
  qed
qed

lemma resolveIndex_error:
  "resolveIndex n target pid cs = Inl e \<Longrightarrow> \<exists>re. e = Resolve re"
  by (auto simp: resolveIndex_def Let_def split: if_splits)

lemma resolveInsertContext_containment:
  "(fst (resolveInsertContext ids n s) = Inl (Containment ce))
     = (\<exists>target pid s1 pb. resolveParent ids n s = (Inr (target, pid), s1)
          \<and> findBlockById (m_blocks s1) pid = Some pb
          \<and> n_strict n
          \<and> checkContainment (ymap_get pb ''sys:flavour'') (n_type n) = Some ce)"
proof -
  obtain r s1 where rp: "resolveParent ids n s = (r, s1)"
    by (cases "resolveParent ids n s")
  from resolveParent_result [OF rp] have nc: "\<And>ce. r \<noteq> Inl (Containment ce)" by blast
  show ?thesis
  proof (cases r)
    case (Inl e)
    with rp nc show ?thesis by (auto simp: resolveInsertContext_def)
  next
    case (Inr tp)
    obtain target pid where tp: "tp = (target, pid)" by (cases tp)
    show ?thesis
      using rp Inr tp
      by (auto simp: resolveInsertContext_def Let_def split_def
          split: option.splits sum.splits if_splits dest: resolveIndex_error)
  qed
qed

lemma createBlock_id:
  "cb_blockId (fst (createBlock ids parentId n s)) = ids (m_next s)"
  by (simp add: createBlock_def generateId_def Let_def split_def)

lemma createBlock_blocks:
  "m_blocks (snd (createBlock ids parentId n s)) = m_blocks s"
  by (simp add: createBlock_def generateId_def Let_def split_def)

lemma indexOfChildFrom_range:
  "indexOfChildFrom cs r k = i \<Longrightarrow> 0 \<le> k \<Longrightarrow> i = - 1 \<or> (k \<le> i \<and> i < k + int (length cs))"
  by (induction cs arbitrary: k) (auto split: if_splits, force+)

lemma indexOfChildFrom_absent:
  "0 \<le> k \<Longrightarrow> (indexOfChildFrom cs r k < 0) = (\<forall>e \<in> set cs. \<not> entryHolds e r)"
proof (induction cs arbitrary: k)
  case Nil
  then show ?case by simp
next
  case (Cons e cs)
  from Cons.prems Cons.IH [of "k + 1"] show ?case by auto
qed

lemma indexOfChildFrom_first:
  "0 \<le> k \<Longrightarrow> 0 \<le> indexOfChildFrom cs r k \<Longrightarrow>
     entryHolds (cs ! nat (indexOfChildFrom cs r k - k)) r
     \<and> (\<forall>j < nat (indexOfChildFrom cs r k - k). \<not> entryHolds (cs ! j) r)"
proof (induction cs arbitrary: k)
  case Nil
  then show ?case by simp
next
  case (Cons e cs)
  show ?case
  proof (cases "entryHolds e r")
    case True
    then show ?thesis by simp
  next
    case False
    with Cons.prems have pos: "0 \<le> indexOfChildFrom cs r (k + 1)" by simp
    from Cons.prems have k1: "0 \<le> k + 1" by simp
    from indexOfChildFrom_range [OF refl k1, of cs r] pos
    have ge: "k + 1 \<le> indexOfChildFrom cs r (k + 1)" by auto
    then have n: "nat (indexOfChildFrom cs r (k + 1) - k)
                    = Suc (nat (indexOfChildFrom cs r (k + 1) - (k + 1)))"
      by simp
    from Cons.IH [OF k1 pos] False n show ?thesis
      by (auto simp: nth_Cons less_Suc_eq_0_disj split: nat.splits)
  qed
qed

lemma indexOfChild_sibling:
  assumes "0 \<le> indexOfChild cs r"
  shows "indexOfChild cs r < int (length cs)
         \<and> entryHolds (cs ! nat (indexOfChild cs r)) r
         \<and> (\<forall>j < nat (indexOfChild cs r). \<not> entryHolds (cs ! j) r)"
  using assms indexOfChildFrom_range [OF refl, of 0 cs r] indexOfChildFrom_first [of 0 cs r]
  by (auto simp: indexOfChild_def)


lemma referenceParent_cases:
  "referenceParent blocks r notFound =
     (case findBlockById blocks r of
        None \<Rightarrow> Inl (Resolve notFound)
      | Some rb \<Rightarrow>
          (case ymap_get rb ''sys:parent'' of
             JStr (c # cs) \<Rightarrow> Inr (c # cs)
           | _ \<Rightarrow> Inl (Resolve (ReferenceHasNoParent r))))"
  by (simp add: referenceParent_def)

lemma resolveParent_reference:
  assumes "n_placement n = Some p" and "r \<noteq> []"
    and "if after then p_afterBlockId p = Some r
         else (\<not> truthy_str (p_afterBlockId p) \<and> p_beforeBlockId p = Some r)"
  shows "resolveParent ids n s =
     (case referenceParent (m_blocks s) r (if after then AfterNotFound r else BeforeNotFound r) of
        Inl e \<Rightarrow> (Inl e, s)
      | Inr pid \<Rightarrow>
          (Inr (\<lparr>t_mode = (if after then ModeAfter else ModeBefore),
                  t_referenceBlockId = Some r, t_parentId = Some pid\<rparr>, pid), s))"
  using assms
  by (cases after)
     (auto simp: resolveParent_def resolvePlacement_def referenceParent_def truthy_str_def
        orElse_def Let_def
      split: option.splits jv.splits list.splits sum.splits)

lemma resolveIndex_reference:
  assumes "t_mode target = (if after then ModeAfter else ModeBefore)"
    and "t_referenceBlockId target = Some r"
  shows "resolveIndex n target pid cs =
     (if indexOfChild cs r < 0 then Inl (Resolve (NotAChildOfParent r pid))
      else Inr (if after then indexOfChild cs r + 1 else indexOfChild cs r))"
  using assms by (auto simp: resolveIndex_def Let_def orElse_def)

lemma ensureChildrenArray_listed:
  assumes "0 \<le> indexOfChild (fst (ensureChildrenArray pb)) r"
  shows "ymap_get pb ''sys:children'' = YArray (fst (ensureChildrenArray pb))
         \<and> snd (ensureChildrenArray pb) = pb"
  using assms
  by (auto simp: ensureChildrenArray_def indexOfChild_def split: jv.splits)

lemma insertChild_take_drop:
  assumes "0 \<le> k" and "k \<le> int (length cs)"
  shows "insertChild cs k b = take (nat k) cs @ JStr b # drop (nat k) cs"
  using assms by (auto simp: insertChild_def)

lemma appendToBlocks_links:
  assumes "resolveInsertContext ids n s = (Inr c, s1)" and "ids (m_next s1) \<noteq> c_parentId c"
  shows "childArray (m_blocks (snd (appendToBlocks ids n s))) (c_parentId c)
           = Some (insertChild (c_children c) (c_insertIndex c) (ids (m_next s1)))"
  using assms
  by (simp add: appendToBlocks_def split_def Let_def createBlock_id createBlock_blocks
        linkBlock_def childArray_def findBlockById_set ymap_get_set)


lemma resolve_with_parent:
  assumes rp: "resolveParent ids n s = (Inr (target, pid), s)"
    and pb: "findBlockById (m_blocks s) pid = Some pb"
  shows "resolveInsertContext ids n s =
     (case (if n_strict n then checkContainment (ymap_get pb ''sys:flavour'') (n_type n) else None) of
        Some ce \<Rightarrow> (Inl (Containment ce), s)
      | None \<Rightarrow>
          (case resolveIndex n target pid (fst (ensureChildrenArray pb)) of
             Inl e \<Rightarrow>
               (Inl e, s\<lparr>m_blocks := ymap_set pid (YMap (snd (ensureChildrenArray pb))) (m_blocks s)\<rparr>)
           | Inr insertIndex \<Rightarrow>
               (Inr \<lparr>c_parentId = pid, c_parentBlock = snd (ensureChildrenArray pb),
                     c_children = fst (ensureChildrenArray pb), c_insertIndex = insertIndex\<rparr>,
                s\<lparr>m_blocks := ymap_set pid (YMap (snd (ensureChildrenArray pb))) (m_blocks s)\<rparr>)))"
  using rp pb
  by (simp add: resolveInsertContext_def split_def Let_def split: option.splits sum.splits)

lemma mem_blocks_same:
  assumes "findBlockById (m_blocks s) pid = Some pb"
  shows "s\<lparr>m_blocks := ymap_set pid (YMap pb) (m_blocks s)\<rparr> = s"
  using assms by (simp add: findBlockById_map_of ymap_set_same)

lemma paragraphAt_simps:
  "n_placement (paragraphAt pl) = Some pl"
  "n_strict (paragraphAt pl)"
  "n_type (paragraphAt pl) = Paragraph"
  by (simp_all add: paragraphAt_def nf_simps plainRequest_def paragraphKind_def)

lemma example_lookups:
  "findBlockById (m_blocks exampleMem) ''note1'' = Some exampleNote"
  "findBlockById (m_blocks exampleMem) ''ghost'' = None"
  "m_next exampleMem = 0"
  "pf_ids examplePlatform 0 = ''new0''"
  "\<exists>rb. findBlockById (m_blocks exampleMem) ''para1'' = Some rb
        \<and> ymap_get rb ''sys:parent'' = JStr ''note1''"
  "\<exists>rb. findBlockById (m_blocks exampleMem) ''para2'' = Some rb
        \<and> ymap_get rb ''sys:parent'' = JStr ''note1''"
  by (simp_all add: exampleMem_def exampleBlocks_def exampleNote_def findBlockById_def
        ymap_get_def examplePlatform_def show_nat.simps char_of_def bit_0)

lemma exampleNote_facts:
  "ymap_get exampleNote ''sys:children'' = YArray [JStr ''para1'', JArr [JStr ''para2'']]"
  "ymap_get exampleNote ''sys:flavour'' = JStr ''affine:note''"
  "indexOfChild [JStr ''para1'', JArr [JStr ''para2'']] ''para1'' = 0"
  "indexOfChild [JStr ''para1'', JArr [JStr ''para2'']] ''para2'' = 1"
  by (simp_all add: exampleNote_def ymap_get_def indexOfChild_def)





lemma resolveIndex_append:
  assumes "t_mode target = ModeAppend"
  shows "resolveIndex n target pid cs = Inr (int (length cs))"
  using assms by (simp add: resolveIndex_def)

lemma insertChild_end: "insertChild cs (int (length cs)) b = cs @ [JStr b]"
  by (simp add: insertChild_def)

lemma ensureChildrenArray_block:
  "findBlockById
     (ymap_set pid (YMap (snd (ensureChildrenArray pb))) blocks) pid
     = Some (snd (ensureChildrenArray pb))"
  by (simp add: findBlockById_set)



lemma exampleNote_children:
  "fst (ensureChildrenArray exampleNote) = [JStr ''para1'', JArr [JStr ''para2'']]"
  "snd (ensureChildrenArray exampleNote) = exampleNote"
  by (simp_all add: ensureChildrenArray_def exampleNote_facts)

section \<open>Facts about the implicit parent\<close>

lemma findBlockIdByFlavour_Cons:
  "findBlockIdByFlavour ((k, v) # rest) f =
     (case v of
        YMap block \<Rightarrow>
          (if ymap_get block ''sys:flavour'' = JStr f
           then Some (js_String (ymap_get block ''sys:id''))
           else findBlockIdByFlavour rest f)
      | _ \<Rightarrow> findBlockIdByFlavour rest f)"
  by (cases v) simp_all

lemma find_in_well_formed:
  assumes "distinct (map fst bs)"
    and "list_all (\<lambda>(k, v). case v of
                    YMap block \<Rightarrow> ymap_get block ''sys:id'' = JStr k \<and> k \<noteq> []
                  | _ \<Rightarrow> True) bs"
    and "findBlockIdByFlavour bs f = Some pid"
  shows "pid \<noteq> [] \<and> (\<exists>b. map_of bs pid = Some (YMap b) \<and> ymap_get b ''sys:flavour'' = JStr f)"
  using assms
proof (induction bs)
  case Nil
  then show ?case by simp
next
  case (Cons x rest)
  obtain k v where x: "x = (k, v)" by (cases x)
  show ?case
  proof (cases "\<exists>block. v = YMap block \<and> ymap_get block ''sys:flavour'' = JStr f")
    case True
    then obtain block where "v = YMap block" "ymap_get block ''sys:flavour'' = JStr f"
      by blast
    with Cons.prems x show ?thesis by (auto simp: findBlockIdByFlavour_Cons)
  next
    case False
    with Cons.prems(3) x have "findBlockIdByFlavour rest f = Some pid"
      by (auto simp: findBlockIdByFlavour_Cons split: jv.splits if_splits)
    with Cons.IH Cons.prems(1,2)
    have ih: "pid \<noteq> [] \<and> (\<exists>b. map_of rest pid = Some (YMap b)
                       \<and> ymap_get b ''sys:flavour'' = JStr f)"
      by simp
    then obtain b where b: "map_of rest pid = Some (YMap b)" by blast
    from map_of_SomeD [OF b] have "pid \<in> fst ` set rest" by force
    with Cons.prems(1) x have "pid \<noteq> k" by auto
    with ih x show ?thesis by simp
  qed
qed

lemma find_well_formed:
  assumes "wellFormedBlocks blocks" and "findBlockIdByFlavour blocks f = Some pid"
  shows "pid \<noteq> [] \<and> (\<exists>b. findBlockById blocks pid = Some b
                          \<and> ymap_get b ''sys:flavour'' = JStr f)"
  using find_in_well_formed [of blocks f pid] assms
  by (simp add: wellFormedBlocks_def findBlockById_map_of)

lemma resolveParent_implicit:
  assumes "n_placement n = None"
  shows "resolveParent ids n s =
     (case implicitParent ids (n_type n) s of
        (Inl e, s1) \<Rightarrow> (Inl e, s1)
      | (Inr parentId, s1) \<Rightarrow>
          (Inr (\<lparr>t_mode = ModeAppend, t_referenceBlockId = None, t_parentId = None\<rparr>,
                parentId), s1))"
  using assms by (simp add: resolveParent_def resolvePlacement_def)

lemma ensure_existing:
  "findBlockIdByFlavour (m_blocks s) ''affine:note'' = Some (c # cs)
     \<Longrightarrow> ensureNoteBlock ids s = (Inr (c # cs), s)"
  "findBlockIdByFlavour (m_blocks s) ''affine:surface'' = Some (c # cs)
     \<Longrightarrow> ensureSurfaceBlock ids s = (Inr (c # cs), s)"
  by (simp_all add: ensureNoteBlock_def ensureSurfaceBlock_def)

lemma ensure_no_page:
  "findBlockIdByFlavour (m_blocks s) ''affine:note'' = None
     \<Longrightarrow> findBlockIdByFlavour (m_blocks s) ''affine:page'' = None
     \<Longrightarrow> ensureNoteBlock ids s = (Inl (Resolve NoPageForContent), s)"
  "findBlockIdByFlavour (m_blocks s) ''affine:surface'' = None
     \<Longrightarrow> findBlockIdByFlavour (m_blocks s) ''affine:page'' = None
     \<Longrightarrow> ensureSurfaceBlock ids s = (Inl (Resolve NoPageForSurface), s)"
  by (simp_all add: ensureNoteBlock_def ensureSurfaceBlock_def)

lemma ensureNoteBlock_created:
  assumes "findBlockIdByFlavour (m_blocks s) ''affine:note'' = None"
    and "findBlockIdByFlavour (m_blocks s) ''affine:page'' = Some (c # cs)"
    and "findBlockById (m_blocks s) (c # cs) = Some page" and "ids (m_next s) \<noteq> c # cs"
  shows "ensureNoteBlock ids s =
     (Inr (ids (m_next s)),
      \<lparr>m_blocks =
          ymap_set (c # cs) (YMap (pushChild page (ids (m_next s))))
            (ymap_set (ids (m_next s)) (YMap (newNoteBlock (c # cs) (ids (m_next s))))
               (m_blocks s)),
       m_next = Suc (m_next s)\<rparr>)"
proof -
  have "ymap_get (ymap_set (ids (m_next s)) (YMap (newNoteBlock (c # cs) (ids (m_next s))))
          (m_blocks s)) (c # cs) = YMap page"
    using assms(3,4) by (simp add: ymap_get_set findBlockById_def split: jv.splits)
  then show ?thesis
    using assms(1,2) by (simp add: ensureNoteBlock_def generateId_def Let_def)
qed

lemma ensureSurfaceBlock_created:
  assumes "findBlockIdByFlavour (m_blocks s) ''affine:surface'' = None"
    and "findBlockIdByFlavour (m_blocks s) ''affine:page'' = Some (c # cs)"
    and "findBlockById (m_blocks s) (c # cs) = Some page" and "ids (m_next s) \<noteq> c # cs"
  shows "ensureSurfaceBlock ids s =
     (Inr (ids (m_next s)),
      \<lparr>m_blocks =
          ymap_set (c # cs) (YMap (pushChild page (ids (m_next s))))
            (ymap_set (ids (m_next s)) (YMap (newSurfaceBlock (c # cs) (ids (m_next s))))
               (m_blocks s)),
       m_next = Suc (m_next s)\<rparr>)"
proof -
  have "ymap_get (ymap_set (ids (m_next s)) (YMap (newSurfaceBlock (c # cs) (ids (m_next s))))
          (m_blocks s)) (c # cs) = YMap page"
    using assms(3,4) by (simp add: ymap_get_set findBlockById_def split: jv.splits)
  then show ?thesis
    using assms(1,2) by (simp add: ensureSurfaceBlock_def generateId_def Let_def)
qed

lemma implicitFlavour_cases:
  "t = Frame \<or> t = EdgelessText \<Longrightarrow> implicitFlavour t = ''affine:surface''"
  "t = Note \<Longrightarrow> implicitFlavour t = ''affine:page''"
  "t \<noteq> Frame \<Longrightarrow> t \<noteq> EdgelessText \<Longrightarrow> t \<noteq> Note \<Longrightarrow> implicitFlavour t = ''affine:note''"
  by (auto simp: implicitFlavour_def)

lemma checkContainment_implicit:
  "checkContainment (JStr (implicitFlavour t)) t = None"
proof -
  consider "t = Frame \<or> t = EdgelessText" | "t = Note"
    | "t \<noteq> Frame" "t \<noteq> EdgelessText" "t \<noteq> Note" by blast
  then show ?thesis
  proof cases
    case 1
    then show ?thesis
      by (auto simp: implicitFlavour_cases(1) checkContainment_def)
  next
    case 2
    then show ?thesis
      by (simp add: implicitFlavour_cases(2) checkContainment_def)
  next
    case 3
    then show ?thesis
      by (simp add: implicitFlavour_cases(3) checkContainment_def)
  qed
qed

lemma implicitParent_cases:
  "t = Frame \<or> t = EdgelessText \<Longrightarrow> implicitParent ids t s = ensureSurfaceBlock ids s"
  "t \<noteq> Frame \<Longrightarrow> t \<noteq> EdgelessText \<Longrightarrow> t \<noteq> Note \<Longrightarrow>
     implicitParent ids t s = ensureNoteBlock ids s"
  "implicitParent ids Note s =
     (case findBlockIdByFlavour (m_blocks s) ''affine:page'' of
        Some (c # cs) \<Rightarrow> (Inr (c # cs), s)
      | _ \<Rightarrow> (Inl (Resolve NoPageForNote), s))"
  by (auto simp: implicitParent_def)

lemma implicitParent_existing:
  assumes "findBlockIdByFlavour (m_blocks s) (implicitFlavour t) = Some pid" and "pid \<noteq> []"
  shows "implicitParent ids t s = (Inr pid, s)"
proof -
  obtain c cs where pid: "pid = c # cs" using assms(2) by (cases pid) auto
  consider "t = Frame \<or> t = EdgelessText" | "t = Note"
    | "t \<noteq> Frame" "t \<noteq> EdgelessText" "t \<noteq> Note" by blast
  then show ?thesis
  proof cases
    case 1
    with assms(1) pid show ?thesis
      by (simp add: implicitFlavour_cases(1) implicitParent_cases(1) ensure_existing)
  next
    case 2
    with assms(1) pid show ?thesis
      by (simp add: implicitFlavour_cases(2) implicitParent_cases(3))
  next
    case 3
    with assms(1) pid show ?thesis
      by (simp add: implicitFlavour_cases(3) implicitParent_cases(2) ensure_existing)
  qed
qed

lemma implicitParent_no_page:
  assumes "findBlockIdByFlavour (m_blocks s) (implicitFlavour t) = None"
    and "findBlockIdByFlavour (m_blocks s) ''affine:page'' = None"
  shows "implicitParent ids t s =
     (Inl (Resolve (if t = Frame \<or> t = EdgelessText then NoPageForSurface
                    else if t = Note then NoPageForNote else NoPageForContent)), s)"
proof -
  consider "t = Frame \<or> t = EdgelessText" | "t = Note"
    | "t \<noteq> Frame" "t \<noteq> EdgelessText" "t \<noteq> Note" by blast
  then show ?thesis
  proof cases
    case 1
    with assms show ?thesis
      by (simp add: implicitFlavour_cases(1) implicitParent_cases(1) ensure_no_page)
  next
    case 2
    with assms show ?thesis
      by (simp add: implicitParent_cases(3))
  next
    case 3
    with assms show ?thesis
      by (simp add: implicitFlavour_cases(3) implicitParent_cases(2) ensure_no_page)
  qed
qed

lemma implicitParent_created:
  assumes "findBlockIdByFlavour (m_blocks s) (implicitFlavour t) = None" and "t \<noteq> Note"
    and "findBlockIdByFlavour (m_blocks s) ''affine:page'' = Some pg" and "pg \<noteq> []"
    and "findBlockById (m_blocks s) pg = Some page" and "ids (m_next s) \<noteq> pg"
  shows "implicitParent ids t s =
     (Inr (ids (m_next s)),
      \<lparr>m_blocks =
          ymap_set pg (YMap (pushChild page (ids (m_next s))))
            (ymap_set (ids (m_next s))
               (YMap (if t = Frame \<or> t = EdgelessText
                      then newSurfaceBlock pg (ids (m_next s))
                      else newNoteBlock pg (ids (m_next s))))
               (m_blocks s)),
       m_next = Suc (m_next s)\<rparr>)"
proof -
  obtain c cs where pg: "pg = c # cs" using assms(4) by (cases pg) auto
  show ?thesis
  proof (cases "t = Frame \<or> t = EdgelessText")
    case True
    with assms(1) have "findBlockIdByFlavour (m_blocks s) ''affine:surface'' = None"
      by (simp add: implicitFlavour_cases(1))
    with ensureSurfaceBlock_created [of s c cs page ids] assms(3,5,6) True
    show ?thesis by (simp add: implicitParent_cases(1) pg)
  next
    case False
    with assms(1,2) have "findBlockIdByFlavour (m_blocks s) ''affine:note'' = None"
      by (simp add: implicitFlavour_cases(3))
    with ensureNoteBlock_created [of s c cs page ids] assms(2,3,5,6) False
    show ?thesis by (simp add: implicitParent_cases(2) pg)
  qed
qed

lemma new_block_facts:
  "ymap_get (newNoteBlock pg new) ''sys:flavour'' = JStr ''affine:note''"
  "ymap_get (newNoteBlock pg new) ''sys:id'' = JStr new"
  "ymap_get (newNoteBlock pg new) ''sys:parent'' = JStr pg"
  "ymap_get (newNoteBlock pg new) ''sys:children'' = YArray []"
  "ymap_get (newNoteBlock pg new) ''prop:xywh'' = JStr ''[0,0,800,95]''"
  "ymap_get (newNoteBlock pg new) ''prop:background''
     = YMap [(''light'', JStr ''#ffffff''), (''dark'', JStr ''#252525'')]"
  "ymap_get (newSurfaceBlock pg new) ''sys:flavour'' = JStr ''affine:surface''"
  "ymap_get (newSurfaceBlock pg new) ''sys:id'' = JStr new"
  "ymap_get (newSurfaceBlock pg new) ''sys:parent'' = JStr pg"
  "ymap_get (newSurfaceBlock pg new) ''sys:children'' = YArray []"
  by (simp_all add: newNoteBlock_def newSurfaceBlock_def sets_def setSysFields_def
        ymap_set_def ymap_get_def)


lemma resolve_with_parent_in:
  assumes rp: "resolveParent ids n s = (Inr (target, pid), s1)"
    and pb: "findBlockById (m_blocks s1) pid = Some pb"
  shows "resolveInsertContext ids n s =
     (case (if n_strict n then checkContainment (ymap_get pb ''sys:flavour'') (n_type n) else None) of
        Some ce \<Rightarrow> (Inl (Containment ce), s1)
      | None \<Rightarrow>
          (case resolveIndex n target pid (fst (ensureChildrenArray pb)) of
             Inl e \<Rightarrow>
               (Inl e, s1\<lparr>m_blocks := ymap_set pid (YMap (snd (ensureChildrenArray pb))) (m_blocks s1)\<rparr>)
           | Inr insertIndex \<Rightarrow>
               (Inr \<lparr>c_parentId = pid, c_parentBlock = snd (ensureChildrenArray pb),
                     c_children = fst (ensureChildrenArray pb), c_insertIndex = insertIndex\<rparr>,
                s1\<lparr>m_blocks := ymap_set pid (YMap (snd (ensureChildrenArray pb))) (m_blocks s1)\<rparr>)))"
  using rp pb
  by (simp add: resolveInsertContext_def split_def Let_def split: option.splits sum.splits)

lemma pushChild_children:
  "ymap_get (pushChild page x) ''sys:children''
     = YArray (fst (ensureChildrenArray page) @ [JStr x])"
  by (simp add: pushChild_def ensureChildrenArray_def ymap_get_set split: jv.splits)

lemma implicit_append:
  assumes rp: "resolveParent ids n s
                 = (Inr (\<lparr>t_mode = ModeAppend, t_referenceBlockId = None, t_parentId = None\<rparr>,
                         pid), s1)"
    and pb: "findBlockById (m_blocks s1) pid = Some pb"
    and fl: "ymap_get pb ''sys:flavour'' = JStr (implicitFlavour (n_type n))"
  shows "resolveInsertContext ids n s =
     (Inr \<lparr>c_parentId = pid, c_parentBlock = snd (ensureChildrenArray pb),
            c_children = fst (ensureChildrenArray pb),
            c_insertIndex = int (length (fst (ensureChildrenArray pb)))\<rparr>,
      s1\<lparr>m_blocks := ymap_set pid (YMap (snd (ensureChildrenArray pb))) (m_blocks s1)\<rparr>)"
proof -
  have c: "(if n_strict n then checkContainment (ymap_get pb ''sys:flavour'') (n_type n) else None)
             = None"
    by (simp add: fl checkContainment_implicit)
  have i: "resolveIndex n \<lparr>t_mode = ModeAppend, t_referenceBlockId = None, t_parentId = None\<rparr>
             pid (fst (ensureChildrenArray pb))
           = Inr (int (length (fst (ensureChildrenArray pb))))"
    by (rule resolveIndex_append) simp
  show ?thesis
    unfolding resolve_with_parent_in [OF rp pb] c i by simp
qed


lemma unplaced_simps:
  "n_placement (unplaced t) = None"
  "n_strict (unplaced t)"
  "n_type (unplaced t) = t"
  by (simp_all add: unplaced_def nf_simps plainRequest_def paragraphKind_def)

lemma implicit_examples:
  "wellFormedBlocks (m_blocks exampleMem)"
  "wellFormedBlocks (m_blocks pageOnlyMem)"
  "wellFormedBlocks (m_blocks emptyMem)"
  "findBlockIdByFlavour (m_blocks exampleMem) ''affine:note'' = Some ''note1''"
  "findBlockIdByFlavour (m_blocks emptyMem) ''affine:page'' = None"
  "findBlockIdByFlavour (m_blocks pageOnlyMem) ''affine:surface'' = None"
  "findBlockIdByFlavour (m_blocks pageOnlyMem) ''affine:note'' = None"
  "findBlockIdByFlavour (m_blocks pageOnlyMem) ''affine:page'' = Some ''page1''"
  "findBlockById (m_blocks pageOnlyMem) ''page1'' = Some examplePage"
  "m_next pageOnlyMem = 0"
  "pf_ids examplePlatform (Suc 0) = ''new1''"
  "fst (ensureChildrenArray examplePage) = []"
  by (simp_all add: exampleMem_def exampleBlocks_def pageOnlyMem_def emptyMem_def
        examplePage_def wellFormedBlocks_def findBlockById_def ymap_get_def
        ensureChildrenArray_def examplePlatform_def show_nat.simps char_of_def bit_0)

section \<open>The containment check\<close>

text \<open>
  Claim C1. In strict mode \<open>resolveInsertContext\<close> fails with a containment error
  exactly when the request resolves to a parent block and the flavour of that parent and
  the kind of the new block break the containment rule as the specification words it
  (\<open>containmentViolation\<close>). When it fails so, the memory is what it was: no note,
  surface or child array has been created and no identifier drawn, and
  \<open>appendToBlocks\<close> returns the failure without building or linking a block.
\<close>

theorem containment_failure_iff:
  "(n_strict normalized \<longrightarrow>
      (\<exists>ce. fst (resolveInsertContext ids normalized s) = Inl (Containment ce))
        = (\<exists>target parentId s1 parentBlock.
             resolveParent ids normalized s = (Inr (target, parentId), s1)
             \<and> findBlockById (m_blocks s1) parentId = Some parentBlock
             \<and> containmentViolation (ymap_get parentBlock ''sys:flavour'') (n_type normalized)))
   \<and> (fst (resolveInsertContext ids normalized s) = Inl (Containment ce) \<longrightarrow>
        snd (resolveInsertContext ids normalized s) = s
        \<and> appendToBlocks ids normalized s = (Inl (Containment ce), s))"
proof (intro conjI impI)
  assume strict: "n_strict normalized"
  show "(\<exists>ce. fst (resolveInsertContext ids normalized s) = Inl (Containment ce))
        = (\<exists>target parentId s1 parentBlock.
             resolveParent ids normalized s = (Inr (target, parentId), s1)
             \<and> findBlockById (m_blocks s1) parentId = Some parentBlock
             \<and> containmentViolation (ymap_get parentBlock ''sys:flavour'') (n_type normalized))"
    using strict
    by (simp add: resolveInsertContext_containment checkContainment_iff [symmetric]) blast
next
  assume fails: "fst (resolveInsertContext ids normalized s) = Inl (Containment ce)"
  then obtain target pid s1 pb where
    rp: "resolveParent ids normalized s = (Inr (target, pid), s1)"
    and pb: "findBlockById (m_blocks s1) pid = Some pb"
    and cc: "checkContainment (ymap_get pb ''sys:flavour'') (n_type normalized) = Some ce"
    and strict: "n_strict normalized"
    by (auto simp: resolveInsertContext_containment)
  from resolveParent_result [OF rp] pb cc have same: "s1 = s" by auto
  from rp pb cc strict same
  have whole: "resolveInsertContext ids normalized s = (Inl (Containment ce), s)"
    by (simp add: resolveInsertContext_def)
  then show "snd (resolveInsertContext ids normalized s) = s" by simp
  from whole show "appendToBlocks ids normalized s = (Inl (Containment ce), s)"
    by (simp add: appendToBlocks_def)
qed


theorem containment_failure_witness:
  "(\<exists>ce. fst (resolveInsertContext (pf_ids examplePlatform) paragraphUnderPage exampleMem)
            = Inl (Containment ce))
   \<and> appendToBlocks (pf_ids examplePlatform) paragraphUnderPage exampleMem
       = (Inl (Containment (CannotAppendUnderPage Paragraph)), exampleMem)"
proof -
  note inst = containment_failure_iff
    [where normalized = paragraphUnderPage and ids = "pf_ids examplePlatform"
       and s = exampleMem and ce = "CannotAppendUnderPage Paragraph"]
  have strict: "n_strict paragraphUnderPage"
    by (simp add: paragraphUnderPage_def nf_simps plainRequest_def)
  have rp: "resolveParent (pf_ids examplePlatform) paragraphUnderPage exampleMem
              = (Inr (\<lparr>t_mode = ModeAppend, t_referenceBlockId = None,
                        t_parentId = Some ''page1''\<rparr>, ''page1''), exampleMem)"
    by (simp add: resolve_eval paragraphUnderPage_def nf_simps underPagePlacement_def
          exampleMem_def)
  have pb: "findBlockById (m_blocks exampleMem) ''page1''
              = Some [(''sys:id'', JStr ''page1''), (''sys:flavour'', JStr ''affine:page''),
                      (''sys:version'', JNum 2),
                      (''sys:children'', YArray [JStr ''surf1'', JStr ''note1''])]"
    by (simp add: exampleMem_def exampleBlocks_def findBlockById_def ymap_get_def)
  have viol: "containmentViolation
      (ymap_get [(''sys:id'', JStr ''page1''), (''sys:flavour'', JStr ''affine:page''),
                 (''sys:version'', JNum 2),
                 (''sys:children'', YArray [JStr ''surf1'', JStr ''note1''])] ''sys:flavour'')
      (n_type paragraphUnderPage)"
    by (simp add: containmentViolation_def ymap_get_def paragraphUnderPage_def nf_simps
          paragraphKind_def)
  from inst strict rp pb viol
  have one: "\<exists>ce. fst (resolveInsertContext (pf_ids examplePlatform) paragraphUnderPage exampleMem)
            = Inl (Containment ce)"
    by blast
  have "fst (resolveInsertContext (pf_ids examplePlatform) paragraphUnderPage exampleMem)
          = Inl (Containment (CannotAppendUnderPage Paragraph))"
    by (simp add: resolve_eval paragraphUnderPage_def nf_simps underPagePlacement_def
          exampleMem_def exampleBlocks_def plainRequest_def paragraphKind_def)
  with inst have "appendToBlocks (pf_ids examplePlatform) paragraphUnderPage exampleMem
       = (Inl (Containment (CannotAppendUnderPage Paragraph)), exampleMem)"
    by blast
  with one show ?thesis by blast
qed

section \<open>Placement after or before a block\<close>

text \<open>
  Claim C2, as amended. Let the placement name a block R by \<^verbatim>\<open>afterBlockId\<close>, or by
  \<^verbatim>\<open>beforeBlockId\<close> with no \<^verbatim>\<open>afterBlockId\<close>. If R is not in the document, or records
  no parent (a non-empty string), or its parent P is not in the document, or (in strict
  mode) the flavour of P and the kind break the containment rule, or R is not listed in
  the children of P, then \<open>resolveInsertContext\<close> fails, with the error of that case.
  Otherwise, with \<open>i\<close> the sibling index of R in the children of P (the position of the
  first entry that holds R, in either encoding), it succeeds with parent P and insertion
  index \<open>i + 1\<close> for after and \<open>i\<close> for before, leaving the memory as it was, and
  \<open>appendToBlocks\<close> puts the id of the new block at that position of P's children
  (the new id being different from the id of P). This holds for every kind.
\<close>

theorem reference_placement:
  assumes pl: "n_placement normalized = Some p"
    and nonempty: "r \<noteq> []"
    and names: "if after then p_afterBlockId p = Some r
                else (\<not> truthy_str (p_afterBlockId p) \<and> p_beforeBlockId p = Some r)"
  shows
   "(findBlockById (m_blocks s) r = None \<longrightarrow>
       fst (resolveInsertContext ids normalized s)
         = Inl (Resolve (if after then AfterNotFound r else BeforeNotFound r)))
    \<and> (findBlockById (m_blocks s) r = Some rb
         \<and> (\<forall>c cs. ymap_get rb ''sys:parent'' \<noteq> JStr (c # cs)) \<longrightarrow>
       fst (resolveInsertContext ids normalized s) = Inl (Resolve (ReferenceHasNoParent r)))
    \<and> (findBlockById (m_blocks s) r = Some rb \<and> ymap_get rb ''sys:parent'' = JStr pid
         \<and> pid \<noteq> [] \<and> findBlockById (m_blocks s) pid = None \<longrightarrow>
       fst (resolveInsertContext ids normalized s) = Inl (Resolve (ParentNotFound pid)))
    \<and> (findBlockById (m_blocks s) r = Some rb \<and> ymap_get rb ''sys:parent'' = JStr pid
         \<and> pid \<noteq> [] \<and> findBlockById (m_blocks s) pid = Some pb
         \<and> n_strict normalized
         \<and> containmentViolation (ymap_get pb ''sys:flavour'') (n_type normalized) \<longrightarrow>
       (\<exists>ce. fst (resolveInsertContext ids normalized s) = Inl (Containment ce)))
    \<and> (findBlockById (m_blocks s) r = Some rb \<and> ymap_get rb ''sys:parent'' = JStr pid
         \<and> pid \<noteq> [] \<and> findBlockById (m_blocks s) pid = Some pb
         \<and> \<not> (n_strict normalized
                \<and> containmentViolation (ymap_get pb ''sys:flavour'') (n_type normalized))
         \<and> indexOfChild (fst (ensureChildrenArray pb)) r < 0 \<longrightarrow>
       fst (resolveInsertContext ids normalized s) = Inl (Resolve (NotAChildOfParent r pid)))
    \<and> (findBlockById (m_blocks s) r = Some rb \<and> ymap_get rb ''sys:parent'' = JStr pid
         \<and> pid \<noteq> [] \<and> findBlockById (m_blocks s) pid = Some pb
         \<and> \<not> (n_strict normalized
                \<and> containmentViolation (ymap_get pb ''sys:flavour'') (n_type normalized))
         \<and> ymap_get pb ''sys:children'' = YArray children
         \<and> indexOfChild children r = i \<and> 0 \<le> i \<longrightarrow>
       resolveInsertContext ids normalized s
         = (Inr \<lparr>c_parentId = pid, c_parentBlock = pb, c_children = children,
                 c_insertIndex = (if after then i + 1 else i)\<rparr>, s)
       \<and> i < int (length children)
       \<and> entryHolds (children ! nat i) r
       \<and> (\<forall>j < nat i. \<not> entryHolds (children ! j) r)
       \<and> (ids (m_next s) \<noteq> pid \<longrightarrow>
            childArray (m_blocks (snd (appendToBlocks ids normalized s))) pid
              = Some (take (nat (if after then i + 1 else i)) children
                      @ JStr (ids (m_next s))
                      # drop (nat (if after then i + 1 else i)) children)))"
proof -
  let ?target = "\<lambda>pid. \<lparr>t_mode = (if after then ModeAfter else ModeBefore),
                         t_referenceBlockId = Some r, t_parentId = Some pid\<rparr>"
  note rp = resolveParent_reference [OF pl nonempty names, of ids s]
  have missing: "findBlockById (m_blocks s) r = None \<Longrightarrow>
       fst (resolveInsertContext ids normalized s)
         = Inl (Resolve (if after then AfterNotFound r else BeforeNotFound r))"
    using rp by (simp add: resolveInsertContext_def referenceParent_cases)
  have orphan: "findBlockById (m_blocks s) r = Some rb
         \<and> (\<forall>c cs. ymap_get rb ''sys:parent'' \<noteq> JStr (c # cs)) \<Longrightarrow>
       fst (resolveInsertContext ids normalized s) = Inl (Resolve (ReferenceHasNoParent r))"
    using rp
    by (auto simp: resolveInsertContext_def referenceParent_cases split: jv.splits list.splits)
  have parent: "resolveParent ids normalized s = (Inr (?target pid, pid), s)"
    if "findBlockById (m_blocks s) r = Some rb" "ymap_get rb ''sys:parent'' = JStr pid" "pid \<noteq> []"
    using rp that by (cases pid) (simp_all add: referenceParent_cases)
  have gone: "fst (resolveInsertContext ids normalized s) = Inl (Resolve (ParentNotFound pid))"
    if "findBlockById (m_blocks s) r = Some rb" "ymap_get rb ''sys:parent'' = JStr pid" "pid \<noteq> []"
       "findBlockById (m_blocks s) pid = None"
    using parent [OF that(1-3)] that(4) by (simp add: resolveInsertContext_def)
  have found: "resolveInsertContext ids normalized s =
     (case (if n_strict normalized
            then checkContainment (ymap_get pb ''sys:flavour'') (n_type normalized) else None) of
        Some ce \<Rightarrow> (Inl (Containment ce), s)
      | None \<Rightarrow>
          (case (if indexOfChild (fst (ensureChildrenArray pb)) r < 0
                 then Inl (Resolve (NotAChildOfParent r pid))
                 else Inr (if after then indexOfChild (fst (ensureChildrenArray pb)) r + 1
                           else indexOfChild (fst (ensureChildrenArray pb)) r)) of
             Inl e \<Rightarrow>
               (Inl e, s\<lparr>m_blocks := ymap_set pid (YMap (snd (ensureChildrenArray pb))) (m_blocks s)\<rparr>)
           | Inr insertIndex \<Rightarrow>
               (Inr \<lparr>c_parentId = pid, c_parentBlock = snd (ensureChildrenArray pb),
                     c_children = fst (ensureChildrenArray pb), c_insertIndex = insertIndex\<rparr>,
                s\<lparr>m_blocks := ymap_set pid (YMap (snd (ensureChildrenArray pb))) (m_blocks s)\<rparr>)))"
    if "findBlockById (m_blocks s) r = Some rb" "ymap_get rb ''sys:parent'' = JStr pid" "pid \<noteq> []"
       "findBlockById (m_blocks s) pid = Some pb"
  proof -
    have ri: "resolveIndex normalized (?target pid) pid (fst (ensureChildrenArray pb))
        = (if indexOfChild (fst (ensureChildrenArray pb)) r < 0
           then Inl (Resolve (NotAChildOfParent r pid))
           else Inr (if after then indexOfChild (fst (ensureChildrenArray pb)) r + 1
                     else indexOfChild (fst (ensureChildrenArray pb)) r))"
      by (rule resolveIndex_reference) simp_all
    show ?thesis
      unfolding resolve_with_parent [OF parent [OF that(1-3)] that(4)] ri
      by (rule refl)
  qed
  have violated: "\<exists>ce. fst (resolveInsertContext ids normalized s) = Inl (Containment ce)"
    if "findBlockById (m_blocks s) r = Some rb" "ymap_get rb ''sys:parent'' = JStr pid" "pid \<noteq> []"
       "findBlockById (m_blocks s) pid = Some pb" "n_strict normalized"
       "containmentViolation (ymap_get pb ''sys:flavour'') (n_type normalized)"
    using found [OF that(1-4)] that(5,6) checkContainment_iff [of "ymap_get pb ''sys:flavour''" "n_type normalized"]
    by (auto split: option.splits)
  have passes: "(if n_strict normalized
            then checkContainment (ymap_get pb ''sys:flavour'') (n_type normalized) else None) = None"
    if "\<not> (n_strict normalized
                \<and> containmentViolation (ymap_get pb ''sys:flavour'') (n_type normalized))"
    using that checkContainment_iff [of "ymap_get pb ''sys:flavour''" "n_type normalized"]
    by auto
  have unlisted: "fst (resolveInsertContext ids normalized s) = Inl (Resolve (NotAChildOfParent r pid))"
    if "findBlockById (m_blocks s) r = Some rb" "ymap_get rb ''sys:parent'' = JStr pid" "pid \<noteq> []"
       "findBlockById (m_blocks s) pid = Some pb"
       "\<not> (n_strict normalized
                \<and> containmentViolation (ymap_get pb ''sys:flavour'') (n_type normalized))"
       "indexOfChild (fst (ensureChildrenArray pb)) r < 0"
    using found [OF that(1-4)] passes [OF that(5)] that(6) by simp
  have listed: "resolveInsertContext ids normalized s
         = (Inr \<lparr>c_parentId = pid, c_parentBlock = pb, c_children = children,
                 c_insertIndex = (if after then i + 1 else i)\<rparr>, s)
       \<and> i < int (length children)
       \<and> entryHolds (children ! nat i) r
       \<and> (\<forall>j < nat i. \<not> entryHolds (children ! j) r)
       \<and> (ids (m_next s) \<noteq> pid \<longrightarrow>
            childArray (m_blocks (snd (appendToBlocks ids normalized s))) pid
              = Some (take (nat (if after then i + 1 else i)) children
                      @ JStr (ids (m_next s))
                      # drop (nat (if after then i + 1 else i)) children))"
    if h: "findBlockById (m_blocks s) r = Some rb" "ymap_get rb ''sys:parent'' = JStr pid" "pid \<noteq> []"
       "findBlockById (m_blocks s) pid = Some pb"
       "\<not> (n_strict normalized
                \<and> containmentViolation (ymap_get pb ''sys:flavour'') (n_type normalized))"
       "ymap_get pb ''sys:children'' = YArray children" "indexOfChild children r = i" "0 \<le> i"
  proof -
    have eca: "ensureChildrenArray pb = (children, pb)"
      using h(6) by (simp add: ensureChildrenArray_def)
    have ctx: "resolveInsertContext ids normalized s
         = (Inr \<lparr>c_parentId = pid, c_parentBlock = pb, c_children = children,
                 c_insertIndex = (if after then i + 1 else i)\<rparr>, s)"
      using found [OF h(1-4)] passes [OF h(5)] h(7,8) eca mem_blocks_same [OF h(4)]
      by simp
    from indexOfChild_sibling [of children r] h(7,8)
    have sib: "i < int (length children)" "entryHolds (children ! nat i) r"
      "\<forall>j < nat i. \<not> entryHolds (children ! j) r"
      by auto
    have ins: "insertChild children (if after then i + 1 else i) (ids (m_next s))
                = take (nat (if after then i + 1 else i)) children
                      @ JStr (ids (m_next s))
                      # drop (nat (if after then i + 1 else i)) children"
      using h(8) sib(1) by (intro insertChild_take_drop) auto
    have "ids (m_next s) \<noteq> pid \<Longrightarrow>
            childArray (m_blocks (snd (appendToBlocks ids normalized s))) pid
              = Some (take (nat (if after then i + 1 else i)) children
                      @ JStr (ids (m_next s))
                      # drop (nat (if after then i + 1 else i)) children)"
      using appendToBlocks_links [OF ctx] ins by simp
    with ctx sib show ?thesis by blast
  qed
  from missing orphan gone violated unlisted listed show ?thesis by blast
qed

text \<open>
  The claim as first stated has the block inserted whenever R exists and has a parent.
  In the example document the note is a child of the page, at sibling index 1; a strict
  request for a paragraph after the note resolves to the page as parent and is refused by
  the containment check, and the document is left as it was.
\<close>

theorem reference_under_page_counterexample:
  "parentOf (m_blocks exampleMem) ''note1'' = Some (JStr ''page1'')
   \<and> siblingIndex (m_blocks exampleMem) ''page1'' ''note1'' = Some 1
   \<and> n_placement (paragraphAt (afterBlock ''note1'')) = Some (afterBlock ''note1'')
   \<and> appendToBlocks (pf_ids examplePlatform) (paragraphAt (afterBlock ''note1'')) exampleMem
       = (Inl (Containment (CannotAppendUnderPage Paragraph)), exampleMem)"
proof -
  have "resolveInsertContext (pf_ids examplePlatform) (paragraphAt (afterBlock ''note1'')) exampleMem
          = (Inl (Containment (CannotAppendUnderPage Paragraph)), exampleMem)"
    by (simp add: resolve_eval paragraphAt_simps afterBlock_def exampleMem_def exampleBlocks_def)
  then show ?thesis
    by (simp add: appendToBlocks_def paragraphAt_simps)
       (simp add: parentOf_def siblingIndex_def childArray_def findBlockById_def ymap_get_def
          exampleMem_def exampleBlocks_def indexOfChild_def)
qed

theorem reference_placement_witness:
  "resolveInsertContext (pf_ids examplePlatform) (paragraphAt (afterBlock ''para1'')) exampleMem
     = (Inr \<lparr>c_parentId = ''note1'', c_parentBlock = exampleNote,
             c_children = [JStr ''para1'', JArr [JStr ''para2'']], c_insertIndex = 1\<rparr>,
        exampleMem)
   \<and> childArray (m_blocks (snd (appendToBlocks (pf_ids examplePlatform)
                                  (paragraphAt (afterBlock ''para1'')) exampleMem))) ''note1''
     = Some [JStr ''para1'', JStr ''new0'', JArr [JStr ''para2'']]
   \<and> childArray (m_blocks (snd (appendToBlocks (pf_ids examplePlatform)
                                  (paragraphAt (beforeBlock ''para2'')) exampleMem))) ''note1''
     = Some [JStr ''para1'', JStr ''new0'', JArr [JStr ''para2'']]
   \<and> fst (resolveInsertContext (pf_ids examplePlatform) (paragraphAt (afterBlock ''ghost'')) exampleMem)
     = Inl (Resolve (AfterNotFound ''ghost''))"
proof -
  obtain rb1 where rb1: "findBlockById (m_blocks exampleMem) ''para1'' = Some rb1"
      "ymap_get rb1 ''sys:parent'' = JStr ''note1''"
    using example_lookups(5) by blast
  obtain rb2 where rb2: "findBlockById (m_blocks exampleMem) ''para2'' = Some rb2"
      "ymap_get rb2 ''sys:parent'' = JStr ''note1''"
    using example_lookups(6) by blast
  have ok: "\<not> (n_strict (paragraphAt pl)
       \<and> containmentViolation (ymap_get exampleNote ''sys:flavour'') (n_type (paragraphAt pl)))" for pl
    by (simp add: paragraphAt_simps exampleNote_facts containmentViolation_def)
  note a1 = reference_placement
    [where normalized = "paragraphAt (afterBlock ''para1'')" and p = "afterBlock ''para1''"
       and r = "''para1''" and after = True and s = exampleMem and ids = "pf_ids examplePlatform"
       and rb = rb1 and pid = "''note1''" and pb = exampleNote
       and children = "[JStr ''para1'', JArr [JStr ''para2'']]" and i = 0]
  have "resolveInsertContext (pf_ids examplePlatform) (paragraphAt (afterBlock ''para1'')) exampleMem
     = (Inr \<lparr>c_parentId = ''note1'', c_parentBlock = exampleNote,
             c_children = [JStr ''para1'', JArr [JStr ''para2'']], c_insertIndex = 1\<rparr>,
        exampleMem)
   \<and> childArray (m_blocks (snd (appendToBlocks (pf_ids examplePlatform)
                                  (paragraphAt (afterBlock ''para1'')) exampleMem))) ''note1''
     = Some [JStr ''para1'', JStr ''new0'', JArr [JStr ''para2'']]"
    using a1 rb1 ok [of "afterBlock ''para1''"] example_lookups(1,3,4) exampleNote_facts
    by (simp add: paragraphAt_simps afterBlock_def)
  moreover
  note b2 = reference_placement
    [where normalized = "paragraphAt (beforeBlock ''para2'')" and p = "beforeBlock ''para2''"
       and r = "''para2''" and after = False and s = exampleMem and ids = "pf_ids examplePlatform"
       and rb = rb2 and pid = "''note1''" and pb = exampleNote
       and children = "[JStr ''para1'', JArr [JStr ''para2'']]" and i = 1]
  have "childArray (m_blocks (snd (appendToBlocks (pf_ids examplePlatform)
                                  (paragraphAt (beforeBlock ''para2'')) exampleMem))) ''note1''
     = Some [JStr ''para1'', JStr ''new0'', JArr [JStr ''para2'']]"
    using b2 rb2 ok [of "beforeBlock ''para2''"] example_lookups(1,3,4) exampleNote_facts
    by (simp add: paragraphAt_simps beforeBlock_def truthy_str_def)
  moreover
  note g = reference_placement
    [where normalized = "paragraphAt (afterBlock ''ghost'')" and p = "afterBlock ''ghost''"
       and r = "''ghost''" and after = True and s = exampleMem and ids = "pf_ids examplePlatform"]
  have "fst (resolveInsertContext (pf_ids examplePlatform) (paragraphAt (afterBlock ''ghost'')) exampleMem)
     = Inl (Resolve (AfterNotFound ''ghost''))"
    using g example_lookups(2) by (simp add: paragraphAt_simps afterBlock_def)
  ultimately show ?thesis by blast
qed

section \<open>Placement by parent and index\<close>





section \<open>Placement without any placement field\<close>

text \<open>
  Claim C4. Let the request carry no placement and let the document be well formed (block
  keys are distinct, and every block records its own non-empty key as its id). The parent
  is chosen by the kind of the new block: the surface block for a frame or an edgeless
  text, the page block for a note, the note block for every other kind. When a block of
  that flavour exists, it is the parent and the new block is linked at the end of its
  children. When it does not exist and the document has no page block either, the request
  fails with the error naming the missing page (for a note this is the only failure: a note
  parent is never created). When it does not exist but a page block does, a surface block
  or a note block is created under a fresh identifier with the page as its parent, it is
  appended to the children of the page, and the new block becomes its only child; a note
  block created this way carries the default geometry and background.
\<close>

theorem implicit_parent_by_kind:
  assumes none: "n_placement normalized = None"
    and wf: "wellFormedBlocks (m_blocks s)"
  shows
   "(findBlockIdByFlavour (m_blocks s) (implicitFlavour (n_type normalized)) = Some pid \<longrightarrow>
       (\<exists>pb. findBlockById (m_blocks s) pid = Some pb
          \<and> ymap_get pb ''sys:flavour'' = JStr (implicitFlavour (n_type normalized))
          \<and> fst (resolveInsertContext ids normalized s)
              = Inr \<lparr>c_parentId = pid, c_parentBlock = snd (ensureChildrenArray pb),
                     c_children = fst (ensureChildrenArray pb),
                     c_insertIndex = int (length (fst (ensureChildrenArray pb)))\<rparr>
          \<and> (ids (m_next s) \<noteq> pid \<longrightarrow>
               childArray (m_blocks (snd (appendToBlocks ids normalized s))) pid
                 = Some (fst (ensureChildrenArray pb) @ [JStr (ids (m_next s))]))))
    \<and> (findBlockIdByFlavour (m_blocks s) (implicitFlavour (n_type normalized)) = None
         \<and> findBlockIdByFlavour (m_blocks s) ''affine:page'' = None \<longrightarrow>
       resolveInsertContext ids normalized s
         = (Inl (Resolve (if n_type normalized = Frame \<or> n_type normalized = EdgelessText
                            then NoPageForSurface
                          else if n_type normalized = Note then NoPageForNote
                          else NoPageForContent)), s))
    \<and> (findBlockIdByFlavour (m_blocks s) (implicitFlavour (n_type normalized)) = None
         \<and> n_type normalized \<noteq> Note
         \<and> findBlockIdByFlavour (m_blocks s) ''affine:page'' = Some pg
         \<and> ids (m_next s) \<noteq> pg
         \<and> created = (if n_type normalized = Frame \<or> n_type normalized = EdgelessText
                       then newSurfaceBlock pg (ids (m_next s))
                       else newNoteBlock pg (ids (m_next s))) \<longrightarrow>
       (\<exists>page. findBlockById (m_blocks s) pg = Some page
          \<and> ymap_get page ''sys:flavour'' = JStr ''affine:page''
          \<and> fst (resolveInsertContext ids normalized s)
              = Inr \<lparr>c_parentId = ids (m_next s), c_parentBlock = created,
                     c_children = [], c_insertIndex = 0\<rparr>
          \<and> ymap_get created ''sys:flavour'' = JStr (implicitFlavour (n_type normalized))
          \<and> ymap_get created ''sys:parent'' = JStr pg
          \<and> findBlockById (m_blocks (snd (resolveInsertContext ids normalized s))) (ids (m_next s))
              = Some created
          \<and> childArray (m_blocks (snd (resolveInsertContext ids normalized s))) pg
              = Some (fst (ensureChildrenArray page) @ [JStr (ids (m_next s))])
          \<and> (ids (Suc (m_next s)) \<noteq> ids (m_next s) \<longrightarrow>
               childArray (m_blocks (snd (appendToBlocks ids normalized s))) (ids (m_next s))
                 = Some [JStr (ids (Suc (m_next s)))])))
    \<and> ymap_get (newNoteBlock pg (ids (m_next s))) ''prop:xywh'' = JStr ''[0,0,800,95]''
    \<and> ymap_get (newNoteBlock pg (ids (m_next s))) ''prop:background''
         = YMap [(''light'', JStr ''#ffffff''), (''dark'', JStr ''#252525'')]"
proof -
  let ?t = "n_type normalized"
  let ?target = "\<lparr>t_mode = ModeAppend, t_referenceBlockId = None, t_parentId = None\<rparr>"
  note rpi = resolveParent_implicit [OF none, of ids s]
  have existing: "\<exists>pb. findBlockById (m_blocks s) pid = Some pb
          \<and> ymap_get pb ''sys:flavour'' = JStr (implicitFlavour ?t)
          \<and> fst (resolveInsertContext ids normalized s)
              = Inr \<lparr>c_parentId = pid, c_parentBlock = snd (ensureChildrenArray pb),
                     c_children = fst (ensureChildrenArray pb),
                     c_insertIndex = int (length (fst (ensureChildrenArray pb)))\<rparr>
          \<and> (ids (m_next s) \<noteq> pid \<longrightarrow>
               childArray (m_blocks (snd (appendToBlocks ids normalized s))) pid
                 = Some (fst (ensureChildrenArray pb) @ [JStr (ids (m_next s))]))"
    if found: "findBlockIdByFlavour (m_blocks s) (implicitFlavour ?t) = Some pid"
  proof -
    from find_well_formed [OF wf found] obtain pb where
      pid: "pid \<noteq> []" and pb: "findBlockById (m_blocks s) pid = Some pb"
      and fl: "ymap_get pb ''sys:flavour'' = JStr (implicitFlavour ?t)"
      by blast
    have rp: "resolveParent ids normalized s = (Inr (?target, pid), s)"
      using rpi implicitParent_existing [OF found pid, of ids] by simp
    note ctx = implicit_append [OF rp pb fl]
    from appendToBlocks_links [OF ctx]
    have "ids (m_next s) \<noteq> pid \<Longrightarrow>
               childArray (m_blocks (snd (appendToBlocks ids normalized s))) pid
                 = Some (fst (ensureChildrenArray pb) @ [JStr (ids (m_next s))])"
      by (simp add: insertChild_end)
    with pb fl ctx show ?thesis by auto
  qed
  have nopage: "resolveInsertContext ids normalized s
         = (Inl (Resolve (if ?t = Frame \<or> ?t = EdgelessText then NoPageForSurface
                          else if ?t = Note then NoPageForNote
                          else NoPageForContent)), s)"
    if "findBlockIdByFlavour (m_blocks s) (implicitFlavour ?t) = None"
       "findBlockIdByFlavour (m_blocks s) ''affine:page'' = None"
    using rpi implicitParent_no_page [OF that, of ids]
    by (simp add: resolveInsertContext_def)
  have creation: "\<exists>page. findBlockById (m_blocks s) pg = Some page
          \<and> ymap_get page ''sys:flavour'' = JStr ''affine:page''
          \<and> fst (resolveInsertContext ids normalized s)
              = Inr \<lparr>c_parentId = ids (m_next s), c_parentBlock = created,
                     c_children = [], c_insertIndex = 0\<rparr>
          \<and> ymap_get created ''sys:flavour'' = JStr (implicitFlavour ?t)
          \<and> ymap_get created ''sys:parent'' = JStr pg
          \<and> findBlockById (m_blocks (snd (resolveInsertContext ids normalized s))) (ids (m_next s))
              = Some created
          \<and> childArray (m_blocks (snd (resolveInsertContext ids normalized s))) pg
              = Some (fst (ensureChildrenArray page) @ [JStr (ids (m_next s))])
          \<and> (ids (Suc (m_next s)) \<noteq> ids (m_next s) \<longrightarrow>
               childArray (m_blocks (snd (appendToBlocks ids normalized s))) (ids (m_next s))
                 = Some [JStr (ids (Suc (m_next s)))])"
    if absent: "findBlockIdByFlavour (m_blocks s) (implicitFlavour ?t) = None"
      and kind: "?t \<noteq> Note"
      and pagefound: "findBlockIdByFlavour (m_blocks s) ''affine:page'' = Some pg"
      and fresh: "ids (m_next s) \<noteq> pg"
      and cr: "created = (if ?t = Frame \<or> ?t = EdgelessText
                       then newSurfaceBlock pg (ids (m_next s))
                       else newNoteBlock pg (ids (m_next s)))"
  proof -
    let ?new = "ids (m_next s)"
    from find_well_formed [OF wf pagefound] obtain page where
      pg: "pg \<noteq> []" and page: "findBlockById (m_blocks s) pg = Some page"
      and pfl: "ymap_get page ''sys:flavour'' = JStr ''affine:page''"
      by blast
    let ?blocks1 = "ymap_set pg (YMap (pushChild page ?new))
                      (ymap_set ?new (YMap created) (m_blocks s))"
    let ?s1 = "\<lparr>m_blocks = ?blocks1, m_next = Suc (m_next s)\<rparr>"
    have ip: "implicitParent ids ?t s = (Inr ?new, ?s1)"
      using implicitParent_created [of s "n_type normalized" pg page ids]
        absent kind pagefound pg page fresh cr by simp
    have rp: "resolveParent ids normalized s = (Inr (?target, ?new), ?s1)"
      using rpi ip by simp
    have cfl: "ymap_get created ''sys:flavour'' = JStr (implicitFlavour ?t)"
      using cr kind by (auto simp: new_block_facts implicitFlavour_def)
    have cpar: "ymap_get created ''sys:parent'' = JStr pg"
      using cr by (simp add: new_block_facts)
    have cch: "ensureChildrenArray created = ([], created)"
      using cr by (simp add: ensureChildrenArray_def new_block_facts)
    have look: "findBlockById (m_blocks ?s1) ?new = Some created"
      using fresh by (simp add: findBlockById_set)
    note ctx0 = implicit_append [OF rp look cfl]
    have ctx: "resolveInsertContext ids normalized s
                 = (Inr \<lparr>c_parentId = ?new, c_parentBlock = created,
                         c_children = [], c_insertIndex = 0\<rparr>, ?s1)"
      using ctx0 mem_blocks_same [OF look] by (simp add: cch)
    have pch: "childArray (m_blocks ?s1) pg
                 = Some (fst (ensureChildrenArray page) @ [JStr ?new])"
      by (simp add: childArray_def findBlockById_set pushChild_children)
    from appendToBlocks_links [OF ctx]
    have link: "ids (Suc (m_next s)) \<noteq> ?new \<Longrightarrow>
               childArray (m_blocks (snd (appendToBlocks ids normalized s))) ?new
                 = Some [JStr (ids (Suc (m_next s)))]"
      by (simp add: insertChild_def)
    from page pfl ctx cfl cpar look pch link show ?thesis by simp
  qed
  from existing nopage creation show ?thesis
    by (simp add: new_block_facts)
qed


theorem implicit_parent_witness:
  "fst (resolveInsertContext (pf_ids examplePlatform) (unplaced Paragraph) exampleMem)
     = Inr \<lparr>c_parentId = ''note1'', c_parentBlock = exampleNote,
            c_children = [JStr ''para1'', JArr [JStr ''para2'']], c_insertIndex = 2\<rparr>
   \<and> childArray (m_blocks (snd (appendToBlocks (pf_ids examplePlatform)
        (unplaced Paragraph) exampleMem))) ''note1''
     = Some [JStr ''para1'', JArr [JStr ''para2''], JStr ''new0'']
   \<and> resolveInsertContext (pf_ids examplePlatform) (unplaced Note) emptyMem
     = (Inl (Resolve NoPageForNote), emptyMem)
   \<and> resolveInsertContext (pf_ids examplePlatform) (unplaced Paragraph) emptyMem
     = (Inl (Resolve NoPageForContent), emptyMem)
   \<and> fst (resolveInsertContext (pf_ids examplePlatform) (unplaced Frame) pageOnlyMem)
     = Inr \<lparr>c_parentId = ''new0'', c_parentBlock = newSurfaceBlock ''page1'' ''new0'',
            c_children = [], c_insertIndex = 0\<rparr>
   \<and> childArray (m_blocks (snd (resolveInsertContext (pf_ids examplePlatform)
        (unplaced Frame) pageOnlyMem))) ''page1''
     = Some [JStr ''new0'']
   \<and> childArray (m_blocks (snd (appendToBlocks (pf_ids examplePlatform)
        (unplaced Frame) pageOnlyMem))) ''new0''
     = Some [JStr ''new1'']
   \<and> fst (resolveInsertContext (pf_ids examplePlatform) (unplaced Paragraph) pageOnlyMem)
     = Inr \<lparr>c_parentId = ''new0'', c_parentBlock = newNoteBlock ''page1'' ''new0'',
            c_children = [], c_insertIndex = 0\<rparr>"
proof -
  note existing = implicit_parent_by_kind
    [where normalized = "unplaced Paragraph" and s = exampleMem
       and ids = "pf_ids examplePlatform" and pid = "''note1''",
     OF unplaced_simps(1) implicit_examples(1), THEN conjunct1]
  note noteless = implicit_parent_by_kind
    [where normalized = "unplaced Note" and s = emptyMem
       and ids = "pf_ids examplePlatform",
     OF unplaced_simps(1) implicit_examples(3), THEN conjunct2, THEN conjunct1]
  note pageless = implicit_parent_by_kind
    [where normalized = "unplaced Paragraph" and s = emptyMem
       and ids = "pf_ids examplePlatform",
     OF unplaced_simps(1) implicit_examples(3), THEN conjunct2, THEN conjunct1]
  note surface = implicit_parent_by_kind
    [where normalized = "unplaced Frame" and s = pageOnlyMem
       and ids = "pf_ids examplePlatform" and pg = "''page1''"
       and created = "newSurfaceBlock ''page1'' ''new0''",
     OF unplaced_simps(1) implicit_examples(2), THEN conjunct2, THEN conjunct2, THEN conjunct1]
  note notecase = implicit_parent_by_kind
    [where normalized = "unplaced Paragraph" and s = pageOnlyMem
       and ids = "pf_ids examplePlatform" and pg = "''page1''"
       and created = "newNoteBlock ''page1'' ''new0''",
     OF unplaced_simps(1) implicit_examples(2), THEN conjunct2, THEN conjunct2, THEN conjunct1]
  from existing have a: "fst (resolveInsertContext (pf_ids examplePlatform) (unplaced Paragraph) exampleMem)
     = Inr \<lparr>c_parentId = ''note1'', c_parentBlock = exampleNote,
            c_children = [JStr ''para1'', JArr [JStr ''para2'']], c_insertIndex = 2\<rparr>
   \<and> childArray (m_blocks (snd (appendToBlocks (pf_ids examplePlatform)
        (unplaced Paragraph) exampleMem))) ''note1''
     = Some [JStr ''para1'', JArr [JStr ''para2''], JStr ''new0'']"
    by (simp add: unplaced_simps implicitFlavour_def implicit_examples example_lookups
          exampleNote_children)
  from noteless have b: "resolveInsertContext (pf_ids examplePlatform) (unplaced Note) emptyMem
     = (Inl (Resolve NoPageForNote), emptyMem)"
    by (simp add: unplaced_simps implicitFlavour_def implicit_examples)
  from pageless have c: "resolveInsertContext (pf_ids examplePlatform) (unplaced Paragraph) emptyMem
     = (Inl (Resolve NoPageForContent), emptyMem)"
    by (simp add: unplaced_simps implicitFlavour_def implicit_examples emptyMem_def)
  from surface have d: "fst (resolveInsertContext (pf_ids examplePlatform) (unplaced Frame) pageOnlyMem)
     = Inr \<lparr>c_parentId = ''new0'', c_parentBlock = newSurfaceBlock ''page1'' ''new0'',
            c_children = [], c_insertIndex = 0\<rparr>
   \<and> childArray (m_blocks (snd (resolveInsertContext (pf_ids examplePlatform)
        (unplaced Frame) pageOnlyMem))) ''page1''
     = Some [JStr ''new0'']
   \<and> childArray (m_blocks (snd (appendToBlocks (pf_ids examplePlatform)
        (unplaced Frame) pageOnlyMem))) ''new0''
     = Some [JStr ''new1'']"
    by (simp add: unplaced_simps implicitFlavour_def implicit_examples example_lookups)
  from notecase have e: "fst (resolveInsertContext (pf_ids examplePlatform) (unplaced Paragraph) pageOnlyMem)
     = Inr \<lparr>c_parentId = ''new0'', c_parentBlock = newNoteBlock ''page1'' ''new0'',
            c_children = [], c_insertIndex = 0\<rparr>"
    by (simp add: unplaced_simps implicitFlavour_def implicit_examples example_lookups)
  from a b c d e show ?thesis by blast
qed

section \<open>Where the push stands among the network steps\<close>




section \<open>Loading a document that does not exist\<close>

text \<open>
  Claim C6. \<open>loadDoc\<close> answers an acknowledgment whose error is named
  \<^verbatim>\<open>DOC_NOT_FOUND\<close> with the empty snapshot; an acknowledgment with any other error
  fails the load with that error's message, and so does the timeout. With that answer
  from the server \<open>readDocHandler\<close> returns the result for a document that does not
  exist instead of failing, and \<open>createDocHandler\<close>, which loads the workspace root
  document, goes on with an empty one and pushes the catalog entry.
\<close>

theorem load_not_found_is_not_an_error:
  "loadDoc (Ack (Some (AckError (Some ''DOC_NOT_FOUND'') msg)) d) = Inr emptySnapshot
   \<and> (nm \<noteq> Some ''DOC_NOT_FOUND'' \<longrightarrow>
        loadDoc (Ack (Some (AckError nm msg)) d)
          = Inl (Net (LoadFailed (messageOr (AckError nm msg) ''load-doc failed''))))
   \<and> loadDoc NoAck = Inl (Net LoadTimeout)
   \<and> (workspaceOf (dr_workspaceId parsed) dw = Some ws \<and> sv_connect sv = Connected
        \<and> sv_join sv = Ack None j
        \<and> sv_load sv 0 = Ack (Some (AckError (Some ''DOC_NOT_FOUND'') msg)) d \<longrightarrow>
        readDocHandler pf dw sv parsed
          = (Inr \<lparr>rd_docId = dr_docId parsed, rd_title = None, rd_exists = False,
                  rd_blockCount = 0, rd_blocks = [], rd_plainText = []\<rparr>,
             [EvConnect, EvJoin ws, EvLoadDoc ws (dr_docId parsed), EvDisconnect]))
   \<and> (workspaceOf (cd_workspaceId cparsed) dw = Some ws \<and> sv_connect sv = Connected
        \<and> sv_join sv = Ack None j \<and> sv_push sv 0 = Ack None ackA
        \<and> sv_load sv 0 = Ack (Some (AckError (Some ''DOC_NOT_FOUND'') msg)) d
        \<and> sv_push sv 1 = Ack None ackB \<longrightarrow>
        createDocHandler pf dw sv cparsed
          = (Inr \<lparr>cr_docId = fst (newDocument pf cparsed), cr_title = titleOr (cd_title cparsed)\<rparr>,
             [EvConnect, EvJoin ws,
              EvPushDocUpdate ws (fst (newDocument pf cparsed))
                \<lparr>delta_since = emptyDoc, delta_now = snd (newDocument pf cparsed)\<rparr>,
              EvLoadDoc ws ws,
              EvPushDocUpdate ws ws
                \<lparr>delta_since = emptyDoc,
                 delta_now = emptyDoc\<lparr>d_meta :=
                   [(''pages'', YArray [YMap [(''id'', JStr (fst (newDocument pf cparsed))),
                                              (''title'', JStr (titleOr (cd_title cparsed))),
                                              (''createDate'', JNum (pf_now pf 2)),
                                              (''tags'', YArray [])]])]\<rparr>\<rparr>,
              EvDisconnect]))"
proof (intro conjI impI)
  show "loadDoc (Ack (Some (AckError (Some ''DOC_NOT_FOUND'') msg)) d) = Inr emptySnapshot"
    by (simp add: loadDoc_def)
  show "loadDoc NoAck = Inl (Net LoadTimeout)"
    by (simp add: loadDoc_def)
next
  assume "nm \<noteq> Some ''DOC_NOT_FOUND''"
  then show "loadDoc (Ack (Some (AckError nm msg)) d)
          = Inl (Net (LoadFailed (messageOr (AckError nm msg) ''load-doc failed'')))"
    by (simp add: loadDoc_def)
next
  assume "workspaceOf (dr_workspaceId parsed) dw = Some ws \<and> sv_connect sv = Connected
        \<and> sv_join sv = Ack None j
        \<and> sv_load sv 0 = Ack (Some (AckError (Some ''DOC_NOT_FOUND'') msg)) d"
  then show "readDocHandler pf dw sv parsed
          = (Inr \<lparr>rd_docId = dr_docId parsed, rd_title = None, rd_exists = False,
                  rd_blockCount = 0, rd_blocks = [], rd_plainText = []\<rparr>,
             [EvConnect, EvJoin ws, EvLoadDoc ws (dr_docId parsed), EvDisconnect])"
    by (simp add: readDocHandler_def withSocket_def connectWorkspaceSocket_def readDocBody_def
          joinWorkspace_def loadDoc_def emptySnapshot_def truthy_str_def Let_def)
next
  assume a: "workspaceOf (cd_workspaceId cparsed) dw = Some ws \<and> sv_connect sv = Connected
        \<and> sv_join sv = Ack None j \<and> sv_push sv 0 = Ack None ackA
        \<and> sv_load sv 0 = Ack (Some (AckError (Some ''DOC_NOT_FOUND'') msg)) d
        \<and> sv_push sv 1 = Ack None ackB"
  have push: "\<And>p now. \<exists>t. pushDocUpdate (Ack None p) now = Inr t"
    by (simp add: pushDocUpdate_def split: option.splits)
  obtain t0 where t0: "pushDocUpdate (Ack None ackA) (pf_now pf 1) = Inr t0" using push by blast
  obtain t1 where t1: "pushDocUpdate (Ack None ackB) (pf_now pf 3) = Inr t1" using push by blast
  from a t0 t1 show "createDocHandler pf dw sv cparsed
          = (Inr \<lparr>cr_docId = fst (newDocument pf cparsed), cr_title = titleOr (cd_title cparsed)\<rparr>,
             [EvConnect, EvJoin ws,
              EvPushDocUpdate ws (fst (newDocument pf cparsed))
                \<lparr>delta_since = emptyDoc, delta_now = snd (newDocument pf cparsed)\<rparr>,
              EvLoadDoc ws ws,
              EvPushDocUpdate ws ws
                \<lparr>delta_since = emptyDoc,
                 delta_now = emptyDoc\<lparr>d_meta :=
                   [(''pages'', YArray [YMap [(''id'', JStr (fst (newDocument pf cparsed))),
                                              (''title'', JStr (titleOr (cd_title cparsed))),
                                              (''createDate'', JNum (pf_now pf 2)),
                                              (''tags'', YArray [])]])]\<rparr>\<rparr>,
              EvDisconnect])"
    by (simp add: createDocHandler_def withSocket_def connectWorkspaceSocket_def createDocBody_def
          joinWorkspace_def loadDoc_def emptySnapshot_def docOfSnapshot_def addPageEntry_def
          emptyDoc_def ymap_get_def ymap_set_def js_truthy_def sets_def Let_def split_def)
qed

theorem load_not_found_witness:
  "readDocHandler examplePlatform None serverWithoutDoc
       \<lparr>dr_workspaceId = Some ''ws1'', dr_docId = ''nodoc''\<rparr>
     = (Inr \<lparr>rd_docId = ''nodoc'', rd_title = None, rd_exists = False,
             rd_blockCount = 0, rd_blocks = [], rd_plainText = []\<rparr>,
        [EvConnect, EvJoin ''ws1'', EvLoadDoc ''ws1'' ''nodoc'', EvDisconnect])
   \<and> fst (createDocHandler examplePlatform None serverWithoutDoc
            \<lparr>cd_workspaceId = Some ''ws1'', cd_title = Some ''Demo'', cd_content = None\<rparr>)
     = Inr \<lparr>cr_docId = ''new0'', cr_title = ''Demo''\<rparr>
   \<and> loadDoc (Ack (Some (AckError (Some ''INTERNAL'') (Some ''Doc not found''))) None)
     = Inl (Net (LoadFailed ''Doc not found''))"
proof -
  note inst = load_not_found_is_not_an_error
    [where parsed = "\<lparr>dr_workspaceId = Some ''ws1'', dr_docId = ''nodoc''\<rparr>"
       and cparsed = "\<lparr>cd_workspaceId = Some ''ws1'', cd_title = Some ''Demo'', cd_content = None\<rparr>"
       and dw = None and ws = "''ws1''" and sv = serverWithoutDoc and pf = examplePlatform
       and msg = "Some ''Doc not found''" and d = None and j = None
       and ackA = "Some \<lparr>pd_timestamp = Some 1700000000001\<rparr>"
       and ackB = "Some \<lparr>pd_timestamp = Some 1700000000001\<rparr>"
       and nm = "Some ''INTERNAL''"]
  have ws: "workspaceOf (Some ''ws1'') None = Some ''ws1''"
    by (simp add: workspaceOf_def truthy_str_def)
  have sv: "sv_connect serverWithoutDoc = Connected" "sv_join serverWithoutDoc = Ack None None"
    "sv_load serverWithoutDoc 0
       = Ack (Some (AckError (Some ''DOC_NOT_FOUND'') (Some ''Doc not found''))) None"
    "sv_push serverWithoutDoc 0 = Ack None (Some \<lparr>pd_timestamp = Some 1700000000001\<rparr>)"
    "sv_push serverWithoutDoc 1 = Ack None (Some \<lparr>pd_timestamp = Some 1700000000001\<rparr>)"
    by (simp_all add: serverWithoutDoc_def notFoundAck_def)
  have id0: "fst (newDocument examplePlatform
               \<lparr>cd_workspaceId = Some ''ws1'', cd_title = Some ''Demo'', cd_content = None\<rparr>) = ''new0''"
    by (simp add: newDocument_def examplePlatform_def Let_def show_nat.simps char_of_def bit_0)
  have title: "titleOr (Some ''Demo'') = ''Demo''" by (simp add: titleOr_def)
  have msg: "messageOr (AckError (Some ''INTERNAL'') (Some ''Doc not found'')) ''load-doc failed''
      = ''Doc not found''"
    by (simp add: messageOr_def)
  from inst ws sv have
    "readDocHandler examplePlatform None serverWithoutDoc
       \<lparr>dr_workspaceId = Some ''ws1'', dr_docId = ''nodoc''\<rparr>
     = (Inr \<lparr>rd_docId = ''nodoc'', rd_title = None, rd_exists = False,
             rd_blockCount = 0, rd_blocks = [], rd_plainText = []\<rparr>,
        [EvConnect, EvJoin ''ws1'', EvLoadDoc ''ws1'' ''nodoc'', EvDisconnect])"
    by simp
  moreover from inst ws sv id0 title have
    "fst (createDocHandler examplePlatform None serverWithoutDoc
            \<lparr>cd_workspaceId = Some ''ws1'', cd_title = Some ''Demo'', cd_content = None\<rparr>)
     = Inr \<lparr>cr_docId = ''new0'', cr_title = ''Demo''\<rparr>"
    by simp
  moreover from inst msg have
    "loadDoc (Ack (Some (AckError (Some ''INTERNAL'') (Some ''Doc not found''))) None)
     = Inl (Net (LoadFailed ''Doc not found''))"
    by simp
  ultimately show ?thesis by blast
qed


section \<open>The data\_view shim\<close>

text \<open>
  Claim C7. A request of type \<^verbatim>\<open>data_view\<close> and the same request of type
  \<^verbatim>\<open>database\<close> make the factory build the same block: the same id, the same body
  (flavour \<^verbatim>\<open>affine:database\<close>, version 1, the same properties). The factory's results
  differ only in the block type they report, \<^verbatim>\<open>data_view_fallback\<close> against none, and
  the document after the append is the same for both.
\<close>

theorem data_view_builds_database_block:
  "cb_block (fst (createBlock ids parentId (normalized\<lparr>n_type := DataView\<rparr>) s))
     = cb_block (fst (createBlock ids parentId (normalized\<lparr>n_type := Database\<rparr>) s))
   \<and> cb_blockId (fst (createBlock ids parentId (normalized\<lparr>n_type := DataView\<rparr>) s))
     = cb_blockId (fst (createBlock ids parentId (normalized\<lparr>n_type := Database\<rparr>) s))
   \<and> cb_flavour (fst (createBlock ids parentId (normalized\<lparr>n_type := DataView\<rparr>) s))
     = ''affine:database''
   \<and> cb_flavour (fst (createBlock ids parentId (normalized\<lparr>n_type := Database\<rparr>) s))
     = ''affine:database''
   \<and> ymap_get (cb_block (fst (createBlock ids parentId (normalized\<lparr>n_type := DataView\<rparr>) s)))
        ''sys:flavour'' = JStr ''affine:database''
   \<and> ymap_get (cb_block (fst (createBlock ids parentId (normalized\<lparr>n_type := DataView\<rparr>) s)))
        ''sys:version'' = JNum 1
   \<and> cb_blockType (fst (createBlock ids parentId (normalized\<lparr>n_type := DataView\<rparr>) s))
     = Some ''data_view_fallback''
   \<and> cb_blockType (fst (createBlock ids parentId (normalized\<lparr>n_type := Database\<rparr>) s)) = None
   \<and> snd (createBlock ids parentId (normalized\<lparr>n_type := DataView\<rparr>) s)
     = snd (createBlock ids parentId (normalized\<lparr>n_type := Database\<rparr>) s)
   \<and> snd (appendToBlocks ids (normalized\<lparr>n_type := DataView\<rparr>) s)
     = snd (appendToBlocks ids (normalized\<lparr>n_type := Database\<rparr>) s)"
proof -
  obtain r1 s1 where a: "resolveInsertContext ids (normalized\<lparr>n_type := DataView\<rparr>) s = (r1, s1)"
    by (cases "resolveInsertContext ids (normalized\<lparr>n_type := DataView\<rparr>) s")
  obtain r2 s2 where b: "resolveInsertContext ids (normalized\<lparr>n_type := Database\<rparr>) s = (r2, s2)"
    by (cases "resolveInsertContext ids (normalized\<lparr>n_type := Database\<rparr>) s")
  from resolveInsertContext_data_view [of ids normalized s] a b
  have states: "s1 = s2" and results: "\<And>c. (r1 = Inr c) = (r2 = Inr c)"
    by simp_all
  have "snd (appendToBlocks ids (normalized\<lparr>n_type := DataView\<rparr>) s)
          = snd (appendToBlocks ids (normalized\<lparr>n_type := Database\<rparr>) s)"
  proof (cases r1)
    case (Inl e)
    with results obtain e' where "r2 = Inl e'" by (cases r2) auto
    with Inl a b states show ?thesis by (simp add: appendToBlocks_def)
  next
    case (Inr c)
    with results [of c] have "r2 = Inr c" by blast
    with Inr a b states show ?thesis
      by (simp add: appendToBlocks_def createBlock_database createBlock_data_view)
  qed
  then show ?thesis
    by (simp add: createBlock_database createBlock_data_view ymap_get_def)
qed


section \<open>Required fields of images and attachments\<close>

text \<open>
  Claim C8, as amended. A request whose kind is \<^verbatim>\<open>image\<close> or \<^verbatim>\<open>attachment\<close> fails
  validation when its \<^verbatim>\<open>sourceId\<close> is missing or blank. For an attachment the name and
  the MIME type are optional: whether they are supplied never decides whether
  normalization succeeds, and a missing or blank one is replaced by its default
  (\<^verbatim>\<open>attachment\<close>, \<^verbatim>\<open>application/octet-stream\<close>), so the normalized name and MIME type
  are never empty.
\<close>

theorem media_requires_source_id:
  "(normalizeBlockTypeInput (r_type parsed) = Inr ti
      \<and> (ti_type ti = Image \<or> ti_type ti = Attachment)
      \<and> js_trim (orElse (r_sourceId parsed) []) = [] \<longrightarrow>
    isl (normalizeAppendBlockInput u parsed))
   \<and> (normalizeBlockTypeInput (r_type parsed) = Inr ti \<and> ti_type ti = Attachment \<longrightarrow>
    isl (normalizeAppendBlockInput u (parsed\<lparr>r_name := nm, r_mimeType := mt\<rparr>))
      = isl (normalizeAppendBlockInput u parsed))
   \<and> (normalizeAppendBlockInput u parsed = Inr n \<longrightarrow>
    n_name n = trimmedOr (r_name parsed) ''attachment''
    \<and> n_mimeType n = trimmedOr (r_mimeType parsed) ''application/octet-stream''
    \<and> n_name n \<noteq> [] \<and> n_mimeType n \<noteq> [])"
proof (intro conjI impI)
  assume "normalizeBlockTypeInput (r_type parsed) = Inr ti
      \<and> (ti_type ti = Image \<or> ti_type ti = Attachment)
      \<and> js_trim (orElse (r_sourceId parsed) []) = []"
  then show "isl (normalizeAppendBlockInput u parsed)"
    using normalize_isl_media by blast
next
  assume "normalizeBlockTypeInput (r_type parsed) = Inr ti \<and> ti_type ti = Attachment"
  then show "isl (normalizeAppendBlockInput u (parsed\<lparr>r_name := nm, r_mimeType := mt\<rparr>))
      = isl (normalizeAppendBlockInput u parsed)"
    by (simp add: normalizeAppendBlockInput_def Let_def validate_ignores_name_mime
          split: sum.splits option.splits)
next
  assume "normalizeAppendBlockInput u parsed = Inr n"
  from normalize_Inr [OF this] obtain ti' pl where n: "n = normalizedFields parsed ti' pl"
    by auto
  show "n_name n = trimmedOr (r_name parsed) ''attachment''"
    and "n_mimeType n = trimmedOr (r_mimeType parsed) ''application/octet-stream''"
    and "n_name n \<noteq> []" and "n_mimeType n \<noteq> []"
    by (simp_all add: n nf_simps trimmedOr_nonempty)
qed

text \<open>
  The claim as first stated has an attachment fail unless both a name and a MIME type are
  provided. An attachment request that gives a \<^verbatim>\<open>sourceId\<close> and neither of them
  normalizes successfully, with the default name and MIME type.
\<close>

theorem attachment_without_name_counterexample:
  "\<not> isl (normalizeAppendBlockInput (\<lambda>u. True)
            (plainRequest\<lparr>r_type := ''attachment'', r_sourceId := Some ''blob1''\<rparr>))
   \<and> r_name (plainRequest\<lparr>r_type := ''attachment'', r_sourceId := Some ''blob1''\<rparr>) = None
   \<and> r_mimeType (plainRequest\<lparr>r_type := ''attachment'', r_sourceId := Some ''blob1''\<rparr>) = None
   \<and> map_sum id n_name (normalizeAppendBlockInput (\<lambda>u. True)
            (plainRequest\<lparr>r_type := ''attachment'', r_sourceId := Some ''blob1''\<rparr>))
       = Inr ''attachment''
   \<and> map_sum id n_mimeType (normalizeAppendBlockInput (\<lambda>u. True)
            (plainRequest\<lparr>r_type := ''attachment'', r_sourceId := Some ''blob1''\<rparr>))
       = Inr ''application/octet-stream''"
proof -
  let ?p = "plainRequest\<lparr>r_type := ''attachment'', r_sourceId := Some ''blob1''\<rparr>"
  let ?ti = "\<lparr>ti_type = Attachment, ti_legacyType = None,
              ti_headingLevelFromAlias = None, ti_listStyleFromAlias = None\<rparr>"
  have t: "normalizeBlockTypeInput (r_type ?p) = Inr ?ti"
    by (simp add: normalizeBlockTypeInput_def plainRequest_def string_defs type_tables)
  have pl: "normalizePlacement (r_placement ?p) = Inr None"
    by (simp add: normalizePlacement_def plainRequest_def)
  have v: "validateNormalizedAppendBlockInput (\<lambda>u. True) (normalizedFields ?p ?ti None) ?p = None"
    by (simp add: validate_eval)
  have n: "normalizeAppendBlockInput (\<lambda>u. True) ?p = Inr (normalizedFields ?p ?ti None)"
    using t pl v by (simp add: normalizeAppendBlockInput_def)
  show ?thesis
    by (simp add: n nf_simps) (simp add: plainRequest_def trimmedOr_def orElse_def string_defs)
qed

theorem media_requires_source_id_witness:
  "isl (normalizeAppendBlockInput (\<lambda>u. True) (plainRequest\<lparr>r_type := ''attachment''\<rparr>))
   \<and> isl (normalizeAppendBlockInput (\<lambda>u. True) (plainRequest\<lparr>r_type := ''image'', r_sourceId := Some ''  ''\<rparr>))
   \<and> isl (normalizeAppendBlockInput (\<lambda>u. True)
        (plainRequest\<lparr>r_type := ''attachment'', r_sourceId := Some ''blob1'',
                        r_name := Some ''a.pdf'', r_mimeType := Some ''application/pdf''\<rparr>))
     = isl (normalizeAppendBlockInput (\<lambda>u. True)
        (plainRequest\<lparr>r_type := ''attachment'', r_sourceId := Some ''blob1''\<rparr>))"
proof -
  let ?a = "plainRequest\<lparr>r_type := ''attachment''\<rparr>"
  let ?i = "plainRequest\<lparr>r_type := ''image'', r_sourceId := Some ''  ''\<rparr>"
  let ?b = "plainRequest\<lparr>r_type := ''attachment'', r_sourceId := Some ''blob1''\<rparr>"
  let ?ta = "\<lparr>ti_type = Attachment, ti_legacyType = None,
              ti_headingLevelFromAlias = None, ti_listStyleFromAlias = None\<rparr>"
  let ?ti = "\<lparr>ti_type = Image, ti_legacyType = None,
              ti_headingLevelFromAlias = None, ti_listStyleFromAlias = None\<rparr>"
  have ta: "normalizeBlockTypeInput (r_type ?a) = Inr ?ta"
    by (simp add: normalizeBlockTypeInput_def plainRequest_def string_defs type_tables)
  have tb: "normalizeBlockTypeInput (r_type ?b) = Inr ?ta"
    by (simp add: normalizeBlockTypeInput_def plainRequest_def string_defs type_tables)
  have ti: "normalizeBlockTypeInput (r_type ?i) = Inr ?ti"
    by (simp add: normalizeBlockTypeInput_def plainRequest_def string_defs type_tables)
  have sa: "js_trim (orElse (r_sourceId ?a) []) = []"
    by (simp add: plainRequest_def orElse_def string_defs)
  have si: "js_trim (orElse (r_sourceId ?i) []) = []"
    by (simp add: plainRequest_def orElse_def string_defs)
  from media_requires_source_id [where parsed = ?a and ti = ?ta and u = "\<lambda>u. True"] ta sa
  have "isl (normalizeAppendBlockInput (\<lambda>u. True) ?a)" by simp
  moreover from media_requires_source_id [where parsed = ?i and ti = ?ti and u = "\<lambda>u. True"] ti si
  have "isl (normalizeAppendBlockInput (\<lambda>u. True) ?i)" by simp
  moreover from media_requires_source_id [where parsed = ?b and ti = ?ta and u = "\<lambda>u. True"
      and nm = "Some ''a.pdf''" and mt = "Some ''application/pdf''"] tb
  have "isl (normalizeAppendBlockInput (\<lambda>u. True)
              (?b\<lparr>r_name := Some ''a.pdf'', r_mimeType := Some ''application/pdf''\<rparr>))
        = isl (normalizeAppendBlockInput (\<lambda>u. True) ?b)" by simp
  ultimately show ?thesis by simp
qed

section \<open>Conflicting placements\<close>

text \<open>
  Claim C9. A placement that gives both \<^verbatim>\<open>afterBlockId\<close> and \<^verbatim>\<open>beforeBlockId\<close> (given:
  something is left of the id after trimming) is rejected by \<open>normalizePlacement\<close> as
  mutually exclusive, and one that gives an index together with either of them is
  rejected too. The kind plays no part in it: when the placement is rejected, normalizing
  the request fails with that error for every supported kind name, and with the
  unsupported-kind error otherwise. Whenever normalization fails, \<open>appendBlockInternal\<close>
  returns that failure having issued no network event.
\<close>

theorem conflicting_placement_rejected_locally:
  "(truthy_str (trimmedIfAny (p_afterBlockId p)) \<and> truthy_str (trimmedIfAny (p_beforeBlockId p)) \<longrightarrow>
      normalizePlacement (Some p) = Inl (Placement AfterBeforeExclusive))
   \<and> (p_index p = Some i
        \<and> (truthy_str (trimmedIfAny (p_afterBlockId p)) \<or> truthy_str (trimmedIfAny (p_beforeBlockId p))) \<longrightarrow>
      normalizePlacement (Some p)
        = Inl (Placement
            (if truthy_str (trimmedIfAny (p_afterBlockId p)) \<and> truthy_str (trimmedIfAny (p_beforeBlockId p))
               then AfterBeforeExclusive
             else if i < 0 then IndexNotNatural
             else IndexWithAfterBefore)))
   \<and> (normalizePlacement (r_placement parsed) = Inl e \<longrightarrow>
      normalizeAppendBlockInput u parsed
        = (case normalizeBlockTypeInput (r_type parsed) of
             Inl e' \<Rightarrow> Inl e'
           | Inr ti \<Rightarrow> Inl e))
   \<and> (normalizeAppendBlockInput (pf_urlParses pf) parsed = Inl e \<longrightarrow>
      appendBlockInternal pf dw sv parsed = (Inl e, []))"
proof (intro conjI impI)
  assume "truthy_str (trimmedIfAny (p_afterBlockId p)) \<and> truthy_str (trimmedIfAny (p_beforeBlockId p))"
  then show "normalizePlacement (Some p) = Inl (Placement AfterBeforeExclusive)"
    by (simp add: normalizePlacement_def Let_def)
next
  assume "p_index p = Some i
        \<and> (truthy_str (trimmedIfAny (p_afterBlockId p)) \<or> truthy_str (trimmedIfAny (p_beforeBlockId p)))"
  then show "normalizePlacement (Some p)
        = Inl (Placement
            (if truthy_str (trimmedIfAny (p_afterBlockId p)) \<and> truthy_str (trimmedIfAny (p_beforeBlockId p))
               then AfterBeforeExclusive
             else if i < 0 then IndexNotNatural
             else IndexWithAfterBefore))"
    by (auto simp: normalizePlacement_def Let_def orElse_def)
next
  assume "normalizePlacement (r_placement parsed) = Inl e"
  then show "normalizeAppendBlockInput u parsed
        = (case normalizeBlockTypeInput (r_type parsed) of
             Inl e' \<Rightarrow> Inl e'
           | Inr ti \<Rightarrow> Inl e)"
    by (rule normalize_placement_error)
next
  assume "normalizeAppendBlockInput (pf_urlParses pf) parsed = Inl e"
  then show "appendBlockInternal pf dw sv parsed = (Inl e, [])"
    by (simp add: appendBlockInternal_def)
qed

theorem conflicting_placement_witness:
  "appendBlockInternal examplePlatform None serverWithoutDoc
       (plainRequest\<lparr>r_type := ''note'', r_placement := Some bothSidesPlacement\<rparr>)
     = (Inl (Placement AfterBeforeExclusive), [])
   \<and> appendBlockInternal examplePlatform None serverWithoutDoc
       (plainRequest\<lparr>r_type := ''table'', r_placement := Some afterWithIndexPlacement\<rparr>)
     = (Inl (Placement IndexWithAfterBefore), [])"
proof -
  let ?a = "plainRequest\<lparr>r_type := ''note'', r_placement := Some bothSidesPlacement\<rparr>"
  let ?b = "plainRequest\<lparr>r_type := ''table'', r_placement := Some afterWithIndexPlacement\<rparr>"
  note c9 = conflicting_placement_rejected_locally
  have ta: "\<exists>ti. normalizeBlockTypeInput (r_type ?a) = Inr ti"
    by (simp add: normalizeBlockTypeInput_def plainRequest_def string_defs type_tables)
  have tb: "\<exists>ti. normalizeBlockTypeInput (r_type ?b) = Inr ti"
    by (simp add: normalizeBlockTypeInput_def plainRequest_def string_defs type_tables)
  have ha: "truthy_str (trimmedIfAny (p_afterBlockId bothSidesPlacement))
            \<and> truthy_str (trimmedIfAny (p_beforeBlockId bothSidesPlacement))"
    by (simp add: bothSidesPlacement_def trimmedIfAny_def truthy_str_def string_defs)
  have hb: "p_index afterWithIndexPlacement = Some 0
            \<and> (truthy_str (trimmedIfAny (p_afterBlockId afterWithIndexPlacement))
                \<or> truthy_str (trimmedIfAny (p_beforeBlockId afterWithIndexPlacement)))"
       and hb': "\<not> truthy_str (trimmedIfAny (p_beforeBlockId afterWithIndexPlacement))"
    by (simp_all add: afterWithIndexPlacement_def trimmedIfAny_def truthy_str_def string_defs)
  from c9 [where p = bothSidesPlacement] ha
  have pa: "normalizePlacement (r_placement ?a) = Inl (Placement AfterBeforeExclusive)"
    by simp
  from c9 [where p = afterWithIndexPlacement and i = 0] hb hb'
  have pb: "normalizePlacement (r_placement ?b) = Inl (Placement IndexWithAfterBefore)"
    by simp
  from c9 [where parsed = ?a and e = "Placement AfterBeforeExclusive"
             and u = "pf_urlParses examplePlatform"] pa ta
  have na: "normalizeAppendBlockInput (pf_urlParses examplePlatform) ?a
              = Inl (Placement AfterBeforeExclusive)"
    by auto
  from c9 [where parsed = ?b and e = "Placement IndexWithAfterBefore"
             and u = "pf_urlParses examplePlatform"] pb tb
  have nb: "normalizeAppendBlockInput (pf_urlParses examplePlatform) ?b
              = Inl (Placement IndexWithAfterBefore)"
    by auto
  from c9 [where parsed = ?a and e = "Placement AfterBeforeExclusive" and pf = examplePlatform
             and dw = None and sv = serverWithoutDoc] na
  have "appendBlockInternal examplePlatform None serverWithoutDoc ?a
          = (Inl (Placement AfterBeforeExclusive), [])"
    by simp
  moreover
  from c9 [where parsed = ?b and e = "Placement IndexWithAfterBefore" and pf = examplePlatform
             and dw = None and sv = serverWithoutDoc] nb
  have "appendBlockInternal examplePlatform None serverWithoutDoc ?b
          = (Inl (Placement IndexWithAfterBefore), [])"
    by simp
  ultimately show ?thesis by simp
qed

section \<open>Aliases and explicit fields\<close>

text \<open>
  Claim C10. For a list alias (\<^verbatim>\<open>bulleted_list\<close>, \<^verbatim>\<open>numbered_list\<close>, \<^verbatim>\<open>todo\<close>) the style
  of the alias wins: whatever \<^verbatim>\<open>style\<close> the request supplies, normalization gives the same
  result as without it, so a contradicting style neither fails the call nor changes the
  list style, which is the alias's. For a heading alias (\<^verbatim>\<open>heading1\<close>, \<^verbatim>\<open>heading2\<close>,
  \<^verbatim>\<open>heading3\<close>) it is the other way round: a supplied \<^verbatim>\<open>level\<close> (clamped to 1..6) is the
  heading level, and the alias's level is used only when none is supplied.
\<close>

theorem alias_precedence:
  "(normalizeBlockTypeInput (r_type parsed) = Inr ti \<and> ti_listStyleFromAlias ti = Some st \<longrightarrow>
      normalizeAppendBlockInput u (parsed\<lparr>r_style := explicit\<rparr>) = normalizeAppendBlockInput u parsed
      \<and> (\<forall>n. normalizeAppendBlockInput u parsed = Inr n \<longrightarrow> n_listStyle n = st))
   \<and> (normalizeBlockTypeInput (r_type parsed) = Inr ti \<and> ti_headingLevelFromAlias ti = Some al
        \<and> normalizeAppendBlockInput u parsed = Inr n \<longrightarrow>
      n_headingLevel n = (case r_level parsed of Some l \<Rightarrow> max 1 (min 6 l) | None \<Rightarrow> al))
   \<and> map (\<lambda>x. map_sum id ti_listStyleFromAlias (normalizeBlockTypeInput x))
          [''bulleted_list'', ''numbered_list'', ''todo'']
        = [Inr (Some ''bulleted''), Inr (Some ''numbered''), Inr (Some ''todo'')]
   \<and> map (\<lambda>x. map_sum id ti_headingLevelFromAlias (normalizeBlockTypeInput x))
          [''heading1'', ''heading2'', ''heading3'']
        = [Inr (Some 1), Inr (Some 2), Inr (Some 3)]"
proof (intro conjI impI)
  assume a: "normalizeBlockTypeInput (r_type parsed) = Inr ti \<and> ti_listStyleFromAlias ti = Some st"
  then have t: "ti_type ti = List" by (auto dest: alias_list_type)
  from a t show "normalizeAppendBlockInput u (parsed\<lparr>r_style := explicit\<rparr>)
      = normalizeAppendBlockInput u parsed"
    by (simp add: normalizeAppendBlockInput_def Let_def fields_ignore_style
          validate_ignores_style nf_simps split: sum.splits)
  show "\<forall>n. normalizeAppendBlockInput u parsed = Inr n \<longrightarrow> n_listStyle n = st"
  proof (intro allI impI)
    fix n assume "normalizeAppendBlockInput u parsed = Inr n"
    from normalize_Inr [OF this] a show "n_listStyle n = st"
      by (auto simp: nf_simps orElse_def)
  qed
next
  assume b: "normalizeBlockTypeInput (r_type parsed) = Inr ti \<and> ti_headingLevelFromAlias ti = Some al
        \<and> normalizeAppendBlockInput u parsed = Inr n"
  then have "normalizeAppendBlockInput u parsed = Inr n" by simp
  from normalize_Inr [OF this] b alias_heading_level [of "r_type parsed" ti al]
  show "n_headingLevel n = (case r_level parsed of Some l \<Rightarrow> max 1 (min 6 l) | None \<Rightarrow> al)"
    by (auto simp: nf_simps orElse_def split: option.splits)
next
  show "map (\<lambda>x. map_sum id ti_listStyleFromAlias (normalizeBlockTypeInput x))
          [''bulleted_list'', ''numbered_list'', ''todo'']
        = [Inr (Some ''bulleted''), Inr (Some ''numbered''), Inr (Some ''todo'')]"
    by (simp add: normalizeBlockTypeInput_def string_defs type_tables)
  show "map (\<lambda>x. map_sum id ti_headingLevelFromAlias (normalizeBlockTypeInput x))
          [''heading1'', ''heading2'', ''heading3'']
        = [Inr (Some 1), Inr (Some 2), Inr (Some 3)]"
    by (simp add: normalizeBlockTypeInput_def string_defs type_tables)
qed

theorem alias_precedence_witness:
  "map_sum id n_listStyle
     (normalizeAppendBlockInput (\<lambda>u. True)
        (plainRequest\<lparr>r_type := ''bulleted_list'', r_style := Some ''numbered''\<rparr>)) = Inr ''bulleted''
   \<and> map_sum id n_headingLevel
     (normalizeAppendBlockInput (\<lambda>u. True)
        (plainRequest\<lparr>r_type := ''heading1'', r_level := Some 3\<rparr>)) = Inr 3"
proof -
  let ?l = "plainRequest\<lparr>r_type := ''bulleted_list''\<rparr>"
  let ?h = "plainRequest\<lparr>r_type := ''heading1'', r_level := Some 3\<rparr>"
  let ?til = "\<lparr>ti_type = List, ti_legacyType = Some BulletedList,
               ti_headingLevelFromAlias = None, ti_listStyleFromAlias = Some ''bulleted''\<rparr>"
  let ?tih = "\<lparr>ti_type = Heading, ti_legacyType = Some Heading1,
               ti_headingLevelFromAlias = Some 1, ti_listStyleFromAlias = None\<rparr>"
  have tl: "normalizeBlockTypeInput (r_type ?l) = Inr ?til"
    by (simp add: normalizeBlockTypeInput_def plainRequest_def string_defs type_tables)
  have th: "normalizeBlockTypeInput (r_type ?h) = Inr ?tih"
    by (simp add: normalizeBlockTypeInput_def plainRequest_def string_defs type_tables)
  have pl: "normalizePlacement (r_placement ?l) = Inr None"
    "normalizePlacement (r_placement ?h) = Inr None"
    by (simp_all add: normalizePlacement_def plainRequest_def)
  have vl: "validateNormalizedAppendBlockInput (\<lambda>u. True) (normalizedFields ?l ?til None) ?l = None"
    by (simp add: validate_eval)
  have vh: "validateNormalizedAppendBlockInput (\<lambda>u. True) (normalizedFields ?h ?tih None) ?h = None"
    by (simp add: validate_eval)
  have nl: "normalizeAppendBlockInput (\<lambda>u. True) ?l = Inr (normalizedFields ?l ?til None)"
    using tl pl vl by (simp add: normalizeAppendBlockInput_def)
  have nh: "normalizeAppendBlockInput (\<lambda>u. True) ?h = Inr (normalizedFields ?h ?tih None)"
    using th pl vh by (simp add: normalizeAppendBlockInput_def)
  from alias_precedence [where parsed = ?l and ti = ?til and st = "''bulleted''"
      and u = "\<lambda>u. True" and explicit = "Some ''numbered''"] tl nl
  have "normalizeAppendBlockInput (\<lambda>u. True) (?l\<lparr>r_style := Some ''numbered''\<rparr>)
          = Inr (normalizedFields ?l ?til None)"
    and "n_listStyle (normalizedFields ?l ?til None) = ''bulleted''"
    by simp_all
  moreover from alias_precedence [where parsed = ?h and ti = ?tih and al = 1
      and u = "\<lambda>u. True" and n = "normalizedFields ?h ?tih None"] th nh
  have "n_headingLevel (normalizedFields ?h ?tih None) = 3" by (simp add: plainRequest_def)
  ultimately show ?thesis using nh by simp
qed

end
